(* ===== verification/Bili_Prelude.thy ===== *)
theory Bili_Prelude
  imports Complex_Main "HOL-Library.Option_ord"
begin

text \<open>
  Shared vocabulary of the Biligram model (\<open>src/biligram.js\<close>).
  JavaScript numbers are modelled as exact reals (IEEE rounding of the
  interpolation is not modelled).  What the source does outside the exact
  arithmetic is written out here once: an array read past either end yields
  \<open>undefined\<close> (\<open>js_at\<close> returns \<open>None\<close>), arithmetic on \<open>undefined\<close>
  yields \<open>NaN\<close> (again \<open>None\<close>), and a comparison with \<open>NaN\<close> is false
  (\<open>js_ge\<close>).  The early-return \<open>for\<close> loops of the source are all
  instances of \<open>first_from\<close>, the first index of a range at which a
  test succeeds.
\<close>

named_theorems js_simps "evaluation rules of the JavaScript value model"

type_synonym hours = real
type_synonym mg_dl = real
type_synonym millis = int

section \<open>JavaScript arrays, NaN and comparisons\<close>

definition js_at :: "'a list \<Rightarrow> int \<Rightarrow> 'a option" where
  "js_at xs i = (if 0 \<le> i \<and> i < int (length xs) then Some (xs ! nat i) else None)"

definition js_ge :: "real \<Rightarrow> real option \<Rightarrow> bool" where
  "js_ge a b = (case b of Some t \<Rightarrow> t \<le> a | None \<Rightarrow> False)"

section \<open>The early-return scan of a \<open>for\<close> loop\<close>

text \<open>\<open>for (i = start; i < bound; i++) if (P(i)) return i;\<close>\<close>

function first_from :: "(nat \<Rightarrow> bool) \<Rightarrow> nat \<Rightarrow> nat \<Rightarrow> nat option" where
  "first_from P bound i =
     (if i < bound then (if P i then Some i else first_from P bound (Suc i)) else None)"
  by pat_completeness auto
termination
  by (relation "measure (\<lambda>(P, bound, i). bound - i)") auto

declare first_from.simps [simp del]

text \<open>The number of indices below \<open>b\<close> where a test fails: the counting
  specification of a scan over curves ordered from the highest down.\<close>

definition count_below :: "(nat \<Rightarrow> bool) \<Rightarrow> nat \<Rightarrow> nat" where
  "count_below P b = length (filter (\<lambda>j. \<not> P j) [0..<b])"

section \<open>Lemmas\<close>

lemma js_at_Some_iff [js_simps]:
  "js_at xs i = Some y \<longleftrightarrow> 0 \<le> i \<and> i < int (length xs) \<and> xs ! nat i = y"
  by (auto simp: js_at_def)

lemma js_at_None_iff [js_simps]:
  "js_at xs i = None \<longleftrightarrow> i < 0 \<or> int (length xs) \<le> i"
  by (auto simp: js_at_def)

lemma js_at_nat [js_simps]: "k < length xs \<Longrightarrow> js_at xs (int k) = Some (xs ! k)"
  by (simp add: js_at_def)

lemma js_ge_Some [simp, js_simps]: "js_ge a (Some t) \<longleftrightarrow> t \<le> a"
  by (simp add: js_ge_def)

lemma js_ge_None [simp, js_simps]: "\<not> js_ge a None"
  by (simp add: js_ge_def)

lemma js_ge_mono: "js_ge a b \<Longrightarrow> a \<le> a' \<Longrightarrow> js_ge a' b"
  by (cases b) auto

lemma step_range: "\<not> P i \<Longrightarrow> (\<forall>j. Suc i \<le> j \<and> j < k \<longrightarrow> \<not> P j) \<longleftrightarrow> (\<forall>j. i \<le> j \<and> j < k \<longrightarrow> \<not> P j)"
  by (metis Suc_leD le_antisym not_less_eq_eq)

lemma first_from_Some_iff:
  "first_from P bound i = Some k \<longleftrightarrow>
     i \<le> k \<and> k < bound \<and> P k \<and> (\<forall>j. i \<le> j \<and> j < k \<longrightarrow> \<not> P j)"
proof (induction P bound i rule: first_from.induct)
  case (1 P bound i)
  show ?case
  proof (cases "i < bound \<and> \<not> P i")
    case True
    then have eq: "first_from P bound i = first_from P bound (Suc i)"
      by (simp add: first_from.simps [of P bound i])
    have k: "Suc i \<le> k \<and> P k \<longleftrightarrow> i \<le> k \<and> P k"
      using True by (auto simp: Suc_le_eq le_less)
    show ?thesis
      unfolding eq "1.IH" [OF conjunct1 [OF True] conjunct2 [OF True]]
        step_range [of P i k, OF conjunct2 [OF True]]
      using k by auto
  next
    case False
    then show ?thesis by (auto simp: first_from.simps [of P bound i])
  qed
qed

lemma first_from_None_iff:
  "first_from P bound i = None \<longleftrightarrow> (\<forall>j. i \<le> j \<and> j < bound \<longrightarrow> \<not> P j)"
proof (induction P bound i rule: first_from.induct)
  case (1 P bound i)
  show ?case
  proof (cases "i < bound \<and> \<not> P i")
    case True
    then have "first_from P bound i = first_from P bound (Suc i)"
      by (simp add: first_from.simps [of P bound i])
    with True "1.IH" show ?thesis by (simp add: step_range)
  next
    case False
    then show ?thesis by (auto simp: first_from.simps [of P bound i])
  qed
qed

lemma first_from_mono:
  assumes PQ: "\<And>j. P j \<Longrightarrow> Q j" and P: "first_from P bound i = Some k"
  shows "\<exists>k'. first_from Q bound i = Some k' \<and> k' \<le> k"
proof -
  from P have "i \<le> k" "k < bound" "Q k"
    by (auto simp: first_from_Some_iff PQ)
  then have "first_from Q bound i \<noteq> None"
    by (auto simp: first_from_None_iff)
  then obtain k' where k': "first_from Q bound i = Some k'" by blast
  with \<open>i \<le> k\<close> \<open>Q k\<close> have "k' \<le> k"
    by (metis first_from_Some_iff not_le_imp_less)
  with k' show ?thesis by blast
qed

lemma first_from_cong:
  "(\<And>j. i \<le> j \<Longrightarrow> j < bound \<Longrightarrow> P j = Q j) \<Longrightarrow> first_from P bound i = first_from Q bound i"
proof (induction P bound i rule: first_from.induct)
  case (1 P bound i)
  show ?case
    using "1.IH" "1.prems"
    by (simp add: first_from.simps [of P bound i] first_from.simps [of Q bound i])
qed

lemma first_from_bound_mono:
  "first_from P b i = Some k \<Longrightarrow> b \<le> b' \<Longrightarrow> first_from P b' i = Some k"
  by (simp add: first_from_Some_iff)

lemma count_below_prefix:
  assumes "k \<le> b" "\<And>j. j < b \<Longrightarrow> \<not> P j \<longleftrightarrow> j < k"
  shows "count_below P b = k"
proof -
  have "count_below P b = card {i. i < b \<and> \<not> P ([0..<b] ! i)}"
    by (simp add: count_below_def length_filter_conv_card)
  also have "\<dots> = card {j. j < b \<and> \<not> P j}"
    by (rule arg_cong [where f = card]) auto
  also have "{j. j < b \<and> \<not> P j} = {..<k}"
    using assms by (auto dest: order.strict_trans2)
  finally show ?thesis by simp
qed

lemma first_from_upward_count:
  assumes up: "\<And>j k. j \<le> k \<Longrightarrow> k < b \<Longrightarrow> P j \<Longrightarrow> P k"
  shows "first_from P b 0 = (if count_below P b < b then Some (count_below P b) else None)"
proof (cases "first_from P b 0")
  case None
  then have "\<And>j. j < b \<Longrightarrow> \<not> P j" by (simp add: first_from_None_iff)
  then have "count_below P b = b" by (intro count_below_prefix) auto
  with None show ?thesis by simp
next
  case (Some k)
  then have k: "k < b" "P k" "\<And>j. j < k \<Longrightarrow> \<not> P j"
    by (simp_all add: first_from_Some_iff)
  have "\<And>j. j < b \<Longrightarrow> \<not> P j \<longleftrightarrow> j < k"
    using k up [of k] by (meson not_le)
  then have "count_below P b = k"
    using k(1) by (intro count_below_prefix) simp_all
  with Some k(1) show ?thesis by simp
qed
text \<open>The relative and the absolute coordinate of an aligned grid.\<close>

lemma floor_shift_aligned:
  fixes h d :: real
  assumes "0 < d"
  shows "\<lfloor>(h - of_int m * d) / d\<rfloor> = \<lfloor>h / d\<rfloor> - m"
proof -
  have "(h - of_int m * d) / d = h / d - of_int m"
    using assms by (simp add: diff_divide_distrib)
  then show ?thesis by simp
qed

lemma floor_div_bounds:
  fixes h d :: real
  assumes "0 < d"
  shows "of_int \<lfloor>h / d\<rfloor> * d \<le> h" and "h < (of_int \<lfloor>h / d\<rfloor> + 1) * d"
proof -
  have "of_int \<lfloor>h / d\<rfloor> \<le> h / d" by (rule of_int_floor_le)
  then show "of_int \<lfloor>h / d\<rfloor> * d \<le> h"
    using assms by (metis pos_le_divide_eq)
  have "h / d < of_int \<lfloor>h / d\<rfloor> + 1" by (rule real_of_int_floor_add_one_gt)
  then show "h < (of_int \<lfloor>h / d\<rfloor> + 1) * d"
    using assms by (metis pos_divide_less_eq)
qed
end
