(* ===== verification/Curve_Scan.thy ===== *)
theory Curve_Scan
  imports Bili_Prelude
begin

text \<open>
  The interpolation step shared by both threshold tables of \<open>src/biligram.js\<close>
  (lines 73--94 for \<open>riskZone.exceeds\<close>, 166--197 for \<open>treatmentZone.exceeds\<close>):
  read the left and right samples of a curve, draw the line through them in
  point-slope form from the absolute left coordinate \<open>x1\<close>, and compare the
  level with it.  \<open>pl_curve\<close> is the abstract piecewise-linear curve through
  the samples, in the relative coordinate; \<open>series_threshold_pl\<close> shows that
  the code computes it wherever both samples exist.
\<close>

section \<open>The code\<close>

definition curve_threshold ::
  "real option \<Rightarrow> real option \<Rightarrow> real \<Rightarrow> real \<Rightarrow> real \<Rightarrow> real option" where
  "curve_threshold y1 y2 x1 interval hours =
     (case (y1, y2) of
        (Some a, Some b) \<Rightarrow> Some (a + (hours - x1) * ((b - a) / interval))
      | _ \<Rightarrow> None)"

definition series_threshold ::
  "real list list \<Rightarrow> nat \<Rightarrow> int \<Rightarrow> real \<Rightarrow> real \<Rightarrow> real \<Rightarrow> real option" where
  "series_threshold series i x1Index x1 interval hours =
     (let y1 = js_at (series ! i) x1Index;
          y2 = (if x1Index < int (length (series ! 0))
                then js_at (series ! i) (x1Index + 1) else y1)
      in curve_threshold y1 y2 x1 interval hours)"

section \<open>The abstract curve\<close>

definition pl_knot :: "real \<Rightarrow> real \<Rightarrow> real \<Rightarrow> nat" where
  "pl_knot s d h = nat \<lfloor>(h - s) / d\<rfloor>"

definition pl_frac :: "real \<Rightarrow> real \<Rightarrow> real \<Rightarrow> real" where
  "pl_frac s d h = (h - s) / d - of_nat (pl_knot s d h)"

definition pl_curve :: "real list \<Rightarrow> real \<Rightarrow> real \<Rightarrow> real \<Rightarrow> real" where
  "pl_curve ys s d h =
     (1 - pl_frac s d h) * ys ! pl_knot s d h + pl_frac s d h * ys ! Suc (pl_knot s d h)"

definition in_table :: "nat \<Rightarrow> real \<Rightarrow> real \<Rightarrow> real \<Rightarrow> bool" where
  "in_table n s d h \<longleftrightarrow> s \<le> h \<and> h < s + d * of_nat (n - 1)"

section \<open>Lemmas\<close>

lemma curve_threshold_Some [simp]:
  "curve_threshold (Some a) (Some b) x1 d h = Some (a + (h - x1) * ((b - a) / d))"
  by (simp add: curve_threshold_def)

lemma curve_threshold_None [simp]:
  "curve_threshold None y2 x1 d h = None" "curve_threshold y1 None x1 d h = None"
  by (simp_all add: curve_threshold_def split: option.splits)

lemma in_table_index:
  assumes "0 < d" "in_table n s d h"
  shows "0 \<le> \<lfloor>(h - s) / d\<rfloor>" and "\<lfloor>(h - s) / d\<rfloor> + 1 < int n"
proof -
  from assms show "0 \<le> \<lfloor>(h - s) / d\<rfloor>"
    by (simp add: in_table_def)
  from assms have "(h - s) / d < of_nat (n - 1)"
    by (simp add: in_table_def pos_divide_less_eq mult.commute)
  then have "\<lfloor>(h - s) / d\<rfloor> < int (n - 1)"
    by (simp add: floor_less_iff)
  moreover have "0 < n - 1"
  proof -
    from assms have "0 < d * of_nat (n - 1)"
      by (simp add: in_table_def)
    with assms show ?thesis
      by (simp add: zero_less_mult_iff)
  qed
  ultimately show "\<lfloor>(h - s) / d\<rfloor> + 1 < int n" by linarith
qed

lemma series_threshold_pl:
  assumes d: "0 < d" and s: "s = of_int m * d"
    and i: "i < length series" and len: "length (series ! i) = length (series ! 0)"
    and h: "in_table (length (series ! 0)) s d h"
  shows "series_threshold series i \<lfloor>(h - s) / d\<rfloor> (of_int \<lfloor>h / d\<rfloor> * d) d h =
           Some (pl_curve (series ! i) s d h)"
proof -
  define k where "k = \<lfloor>(h - s) / d\<rfloor>"
  have k0: "0 \<le> k" and k1: "k + 1 < int (length (series ! 0))"
    using in_table_index [OF d h] by (simp_all add: k_def)
  have "\<lfloor>h / d\<rfloor> = k + m"
    using floor_shift_aligned [OF d, of h m] s by (simp add: k_def)
  then have x1: "of_int \<lfloor>h / d\<rfloor> * d = s + of_int k * d"
    by (simp add: s algebra_simps)
  have u: "(h - s) / d - of_int k = (h - (s + of_int k * d)) / d"
    using d by (simp add: field_simps)
  have nk: "of_nat (nat k) = (of_int k :: real)" "nat (k + 1) = Suc (nat k)"
    using k0 by simp_all
  have knot: "pl_knot s d h = nat k"
    by (simp add: pl_knot_def k_def)
  have y: "js_at (series ! i) k = Some (series ! i ! nat k)"
    "js_at (series ! i) (k + 1) = Some (series ! i ! Suc (nat k))"
    using k0 k1 len by (simp_all add: js_at_def nk)
  have "a + (h - (s + of_int k * d)) * ((b - a) / d) =
        (1 - pl_frac s d h) * a + pl_frac s d h * b" for a b
    using d by (simp add: pl_frac_def knot nk field_simps)
  then show ?thesis
    using k1 by (simp add: series_threshold_def pl_curve_def y x1 knot Let_def
        flip: k_def)
qed

lemma series_threshold_right_edge:
  assumes "length (series ! i) = length (series ! 0)"
    and "int (length (series ! 0)) - 1 \<le> x1Index"
  shows "series_threshold series i x1Index x1 d h = None"
  using assms by (simp add: series_threshold_def js_at_def Let_def)

lemma series_threshold_negative:
  "x1Index < 0 \<Longrightarrow> series_threshold series i x1Index x1 d h = None"
  by (simp add: series_threshold_def js_at_def Let_def)

lemma pl_frac_range:
  assumes "0 < d" "s \<le> h"
  shows "0 \<le> pl_frac s d h" and "pl_frac s d h < 1"
proof -
  have "0 \<le> (h - s) / d" using assms by simp
  then have kf: "of_nat (pl_knot s d h) = of_int \<lfloor>(h - s) / d\<rfloor>"
    by (simp add: pl_knot_def)
  show "0 \<le> pl_frac s d h"
    by (simp add: pl_frac_def kf)
  show "pl_frac s d h < 1"
    unfolding pl_frac_def kf by linarith
qed

lemma pl_curve_knot:
  assumes "0 < d"
  shows "pl_curve ys s d (s + of_nat k * d) = ys ! k"
  using assms by (simp add: pl_curve_def pl_frac_def pl_knot_def)

lemma convex_between:
  fixes a b t :: real
  assumes "0 \<le> t" "t \<le> 1"
  shows "min a b \<le> (1 - t) * a + t * b" and "(1 - t) * a + t * b \<le> max a b"
proof -
  have "(1 - t) * min a b + t * min a b \<le> (1 - t) * a + t * b"
    using assms by (intro add_mono mult_left_mono) auto
  then show "min a b \<le> (1 - t) * a + t * b" by (simp add: algebra_simps)
  have "(1 - t) * a + t * b \<le> (1 - t) * max a b + t * max a b"
    using assms by (intro add_mono mult_left_mono) auto
  then show "(1 - t) * a + t * b \<le> max a b" by (simp add: algebra_simps)
qed

lemma convex_mono:
  fixes a b a' b' t :: real
  assumes "0 \<le> t" "t \<le> 1" "a \<le> a'" "b \<le> b'"
  shows "(1 - t) * a + t * b \<le> (1 - t) * a' + t * b'"
  using assms by (intro add_mono mult_left_mono) auto

lemma pl_curve_between:
  assumes "0 < d" "s \<le> h"
  shows "min (ys ! pl_knot s d h) (ys ! Suc (pl_knot s d h)) \<le> pl_curve ys s d h"
    and "pl_curve ys s d h \<le> max (ys ! pl_knot s d h) (ys ! Suc (pl_knot s d h))"
  using convex_between pl_frac_range [OF assms] unfolding pl_curve_def
  by (metis less_eq_real_def)+

lemma pl_curve_le:
  assumes "0 < d" "s \<le> h"
    and "zs ! pl_knot s d h \<le> ys ! pl_knot s d h"
    and "zs ! Suc (pl_knot s d h) \<le> ys ! Suc (pl_knot s d h)"
  shows "pl_curve zs s d h \<le> pl_curve ys s d h"
  using convex_mono pl_frac_range [OF assms(1,2)] assms(3,4) unfolding pl_curve_def
  by (metis less_eq_real_def)

lemma in_table_knot:
  assumes "0 < d" "in_table n s d h"
  shows "Suc (pl_knot s d h) < n"
proof -
  have "0 \<le> \<lfloor>(h - s) / d\<rfloor>" "\<lfloor>(h - s) / d\<rfloor> + 1 < int n"
    using in_table_index [OF assms] by blast+
  then show ?thesis
    unfolding pl_knot_def by linarith
qed

lemma pl_curves_ordered:
  assumes d: "0 < d" and h: "in_table n s d h"
    and sorted: "sorted_wrt (\<lambda>ys zs. list_all2 (\<lambda>a b. b \<le> a) ys zs) S"
    and len: "list_all (\<lambda>ys. length ys = n) S"
    and ij: "i \<le> j" "j < length S"
  shows "pl_curve (S ! j) s d h \<le> pl_curve (S ! i) s d h"
proof -
  let ?k = "pl_knot s d h"
  have le: "S ! j ! m \<le> S ! i ! m" if m: "m < n" for m
  proof (cases "i = j")
    case True
    then show ?thesis by simp
  next
    case False
    with ij have "i < j" by simp
    with sorted ij(2) have "list_all2 (\<lambda>a b. b \<le> a) (S ! i) (S ! j)"
      by (simp add: sorted_wrt_iff_nth_less)
    moreover have "m < length (S ! i)"
      using m len ij by (simp add: list_all_length)
    ultimately show ?thesis by (simp add: list_all2_conv_all_nth)
  qed
  have k: "Suc ?k < n" by (rule in_table_knot [OF d h])
  have "S ! j ! ?k \<le> S ! i ! ?k" "S ! j ! Suc ?k \<le> S ! i ! Suc ?k"
    using le k by simp_all
  moreover have "s \<le> h" using h by (simp add: in_table_def)
  ultimately show ?thesis
    by (intro pl_curve_le [OF d])
qed

end
