(* ===== verification/Risk_Zone.thy ===== *)
theory Risk_Zone
  imports Curve_Scan
begin

text \<open>
  The Bhutani risk-zone table, \<open>var riskZone\<close> of \<open>src/biligram.js\<close>
  (lines 32--98): the object literal as the record \<open>rz_table\<close> and the
  constant \<open>riskZone\<close>, its method \<open>exceeds\<close> as \<open>riskZone_exceeds\<close>
  (the object is passed as \<open>this\<close>), and the \<open>switch\<close> that reads its result
  in \<open>getBiliResults\<close> as \<open>zone_placement\<close>.  The abstract specification
  \<open>bhutani_zone\<close> classifies a level by the interpolated percentile curves,
  with the bands the chart draws (lines 900--921): the high zone lies above
  curve 1, the high-intermediate zone between curves 2 and 1, and so on.
\<close>

section \<open>Data\<close>

record rz_table =
  rz_interval :: real
  rz_startsAt :: real
  rz_series :: "real list list"
  rz_zero :: int
  rz_low :: int
  rz_lowIntermediate :: int
  rz_highIntermediate :: int
  rz_high :: int
  rz_undefined :: int

definition riskZone :: rz_table where
  "riskZone = \<lparr>rz_interval = 4, rz_startsAt = 12,
     rz_series = [
       [25, 25, 25, 25, 25, 25, 25, 25, 25, 25, 25, 25, 25, 25, 25, 25, 25, 25, 25, 25, 25, 25, 25, 25, 25, 25, 25, 25, 25, 25, 25, 25, 25, 25, 25],
       [7.1, 7.2, 7.4, 7.8, 8.9, 10.0, 11.1, 12.2, 12.5, 13.2, 13.8, 14.4, 15.2, 15.4, 15.6, 15.9, 16.2, 16.4, 16.7, 17.0, 17.2, 17.4, 17.4, 17.5, 17.5, 17.5, 17.6, 17.7, 17.6, 17.5, 17.4, 17.4, 17.3, 17.3, 17.4],
       [5.1, 5.5, 5.9, 6.1, 7.0, 8.0, 8.9, 9.9, 10.3, 10.8, 11.3, 12.0, 12.6, 12.9, 13.1, 13.4, 13.8, 14.3, 14.7, 14.7, 15.0, 15.2, 15.3, 15.4, 15.5, 15.6, 15.7, 15.8, 15.7, 15.6, 15.5, 15.4, 15.3, 15.2, 15.3],
       [3.9, 4.3, 4.7, 4.9, 5.5, 6.3, 7.0, 7.8, 8.1, 8.6, 9.0, 9.3, 9.6, 10.2, 10.7, 11.2, 11.3, 11.4, 11.6, 11.8, 12.2, 12.3, 12.5, 12.7, 12.8, 13.0, 13.1, 13.2, 13.2, 13.2, 13.2, 13.2, 13.2, 13.2, 13],
       [0, 0, 0, 0, 0, 0, 0, 0, 0, 0, 0, 0, 0, 0, 0, 0, 0, 0, 0, 0, 0, 0, 0, 0, 0, 0, 0, 0, 0, 0, 0, 0, 0, 0, 0]],
     rz_zero = 4, rz_low = 3, rz_lowIntermediate = 2, rz_highIntermediate = 1,
     rz_high = 0, rz_undefined = -2\<rparr>"

datatype risk_level = Low | LowIntermediate | HighIntermediate | High

primrec risk_rank :: "risk_level \<Rightarrow> nat" where
  "risk_rank Low = 0"
| "risk_rank LowIntermediate = 1"
| "risk_rank HighIntermediate = 2"
| "risk_rank High = 3"

instantiation risk_level :: linorder
begin

definition less_eq_risk_level :: "risk_level \<Rightarrow> risk_level \<Rightarrow> bool" where
  "less_eq_risk_level a b \<longleftrightarrow> risk_rank a \<le> risk_rank b"

definition less_risk_level :: "risk_level \<Rightarrow> risk_level \<Rightarrow> bool" where
  "less_risk_level a b \<longleftrightarrow> risk_rank a < risk_rank b"

instance
proof
  fix a b c :: risk_level
  show "a < b \<longleftrightarrow> a \<le> b \<and> \<not> b \<le> a"
    by (auto simp: less_eq_risk_level_def less_risk_level_def)
  show "a \<le> a" by (simp add: less_eq_risk_level_def)
  show "a \<le> b \<Longrightarrow> b \<le> c \<Longrightarrow> a \<le> c" by (simp add: less_eq_risk_level_def)
  show "a \<le> b \<Longrightarrow> b \<le> a \<Longrightarrow> a = b"
    by (cases a; cases b) (simp_all add: less_eq_risk_level_def)
  show "a \<le> b \<or> b \<le> a" by (auto simp: less_eq_risk_level_def)
qed

end

section \<open>Operations\<close>

definition riskZone_exceeds :: "rz_table \<Rightarrow> hours \<Rightarrow> mg_dl \<Rightarrow> int" where
  "riskZone_exceeds this hours level =
     (let x1Index = \<lfloor>(hours - rz_startsAt this) / rz_interval this\<rfloor>;
          x1 = of_int \<lfloor>hours / rz_interval this\<rfloor> * rz_interval this;
          n = int (length (rz_series this ! 0))
      in if hours < rz_startsAt this then rz_undefined this
         else
           let x1Index = (if n \<le> x1Index then n - 1 else x1Index)
           in case first_from
                     (\<lambda>i. js_ge level
                            (series_threshold (rz_series this) i x1Index x1 (rz_interval this) hours))
                     (length (rz_series this) - 1) 1 of
                Some i \<Rightarrow> int i - 1
              | None \<Rightarrow> rz_low this)"

definition zone_placement :: "rz_table \<Rightarrow> int \<Rightarrow> risk_level option" where
  "zone_placement this c =
     (if c = rz_low this then Some Low
      else if c = rz_lowIntermediate this then Some LowIntermediate
      else if c = rz_highIntermediate this then Some HighIntermediate
      else if c = rz_high this then Some High
      else None)"

section \<open>Specification\<close>

definition rz_wf :: "rz_table \<Rightarrow> bool" where
  "rz_wf t \<longleftrightarrow>
     0 < rz_interval t \<and> of_int \<lfloor>rz_startsAt t / rz_interval t\<rfloor> * rz_interval t = rz_startsAt t \<and>
     length (rz_series t) = 5 \<and> 2 \<le> length (rz_series t ! 0) \<and>
     list_all (\<lambda>ys. length ys = length (rz_series t ! 0)) (rz_series t) \<and>
     sorted_wrt (\<lambda>ys zs. list_all2 (\<lambda>a b. b \<le> a) ys zs) (rz_series t) \<and>
     rz_high t = 0 \<and> rz_highIntermediate t = 1 \<and> rz_lowIntermediate t = 2 \<and> rz_low t = 3 \<and>
     rz_zero t = 4 \<and> rz_undefined t \<notin> {0, 1, 2, 3}"

definition rz_curve :: "rz_table \<Rightarrow> nat \<Rightarrow> hours \<Rightarrow> mg_dl" where
  "rz_curve t i h = pl_curve (rz_series t ! i) (rz_startsAt t) (rz_interval t) h"

definition bhutani_zone :: "rz_table \<Rightarrow> hours \<Rightarrow> mg_dl \<Rightarrow> risk_level" where
  "bhutani_zone t h l =
     (if rz_curve t (nat (rz_highIntermediate t)) h \<le> l then High
      else if rz_curve t (nat (rz_lowIntermediate t)) h \<le> l then HighIntermediate
      else if rz_curve t (nat (rz_low t)) h \<le> l then LowIntermediate
      else Low)"

definition rz_scan_code :: "rz_table \<Rightarrow> nat option \<Rightarrow> int" where
  "rz_scan_code t r = (case r of Some i \<Rightarrow> int i - 1 | None \<Rightarrow> rz_low t)"

section \<open>Lemmas\<close>

lemma riskZone_wf_lemma: "rz_wf riskZone"
  by (simp add: rz_wf_def riskZone_def)

lemma riskZone_fields [simp]:
  "rz_interval riskZone = 4" "rz_startsAt riskZone = 12"
  "rz_low riskZone = 3" "rz_lowIntermediate riskZone = 2"
  "rz_highIntermediate riskZone = 1" "rz_high riskZone = 0" "rz_undefined riskZone = -2"
  "length (rz_series riskZone) = 5" "length (rz_series riskZone ! 0) = 35"
  by (simp_all add: riskZone_def)

lemma rz_wfD:
  assumes "rz_wf t"
  shows "0 < rz_interval t"
    and "rz_startsAt t = of_int \<lfloor>rz_startsAt t / rz_interval t\<rfloor> * rz_interval t"
    and "length (rz_series t) = 5" and "2 \<le> length (rz_series t ! 0)"
    and "list_all (\<lambda>ys. length ys = length (rz_series t ! 0)) (rz_series t)"
    and "sorted_wrt (\<lambda>ys zs. list_all2 (\<lambda>a b. b \<le> a) ys zs) (rz_series t)"
    and "rz_high t = 0" "rz_highIntermediate t = 1" "rz_lowIntermediate t = 2" "rz_low t = 3"
    and "rz_undefined t \<notin> {0, 1, 2, 3}"
  using assms unfolding rz_wf_def by (elim conjE; simp only: eq_commute)+

lemma rz_wf_lengths:
  assumes "rz_wf t" "i < length (rz_series t)"
  shows "length (rz_series t ! i) = length (rz_series t ! 0)"
  using rz_wfD(5) [OF assms(1)] assms(2) by (simp add: list_all_length)

lemma riskZone_exceeds_before:
  "hours < rz_startsAt t \<Longrightarrow> riskZone_exceeds t hours level = rz_undefined t"
  by (simp add: riskZone_exceeds_def)

lemma riskZone_exceeds_in_table:
  assumes wf: "rz_wf t"
    and h: "in_table (length (rz_series t ! 0)) (rz_startsAt t) (rz_interval t) h"
  shows "riskZone_exceeds t h l =
           (case first_from (\<lambda>i. rz_curve t i h \<le> l) 4 1 of
              Some i \<Rightarrow> int i - 1 | None \<Rightarrow> rz_low t)"
proof -
  let ?s = "rz_startsAt t" and ?d = "rz_interval t" and ?S = "rz_series t"
  have d: "0 < ?d" and five: "length ?S = 5"
    using rz_wfD(1,3,4) [OF wf] by simp_all
  have idx: "0 \<le> \<lfloor>(h - ?s) / ?d\<rfloor>" "\<lfloor>(h - ?s) / ?d\<rfloor> + 1 < int (length (?S ! 0))"
    using in_table_index [OF d h] by simp_all
  have th: "series_threshold ?S i \<lfloor>(h - ?s) / ?d\<rfloor> (of_int \<lfloor>h / ?d\<rfloor> * ?d) ?d h =
              Some (rz_curve t i h)" if "i < 4" for i
    using series_threshold_pl [OF d rz_wfD(2) [OF wf], of i ?S h] that five
      rz_wf_lengths [OF wf, of i] h
    by (simp add: rz_curve_def)
  have "first_from (\<lambda>i. js_ge l (series_threshold ?S i \<lfloor>(h - ?s) / ?d\<rfloor>
            (of_int \<lfloor>h / ?d\<rfloor> * ?d) ?d h)) 4 1 =
        first_from (\<lambda>i. rz_curve t i h \<le> l) 4 1"
    by (rule first_from_cong) (simp add: th)
  moreover have "\<not> h < ?s"
    using h by (simp add: in_table_def)
  ultimately show ?thesis
    using idx five by (simp add: riskZone_exceeds_def Let_def)
qed

lemma riskZone_exceeds_right_edge:
  assumes wf: "rz_wf t"
    and h: "rz_startsAt t + rz_interval t * of_nat (length (rz_series t ! 0) - 1) \<le> h"
  shows "riskZone_exceeds t h l = rz_low t"
proof -
  let ?s = "rz_startsAt t" and ?d = "rz_interval t" and ?S = "rz_series t"
  let ?n = "length (?S ! 0)"
  have d: "0 < ?d" and five: "length ?S = 5" and n2: "2 \<le> ?n"
    using rz_wfD(1,3,4) [OF wf] by simp_all
  have "of_nat (?n - 1) \<le> (h - ?s) / ?d"
    using h d by (simp add: pos_le_divide_eq mult.commute)
  then have "int (?n - 1) \<le> \<lfloor>(h - ?s) / ?d\<rfloor>"
    by (simp add: le_floor_iff)
  then have edge: "int ?n - 1 \<le> \<lfloor>(h - ?s) / ?d\<rfloor>"
    using n2 by linarith
  have "\<not> h < ?s"
    using h d n2 by (smt (verit) mult_nonneg_nonneg of_nat_0_le_iff)
  moreover
  let ?X = "\<lfloor>(h - ?s) / ?d\<rfloor>"
  have clamp: "int ?n - 1 \<le> (if int ?n \<le> ?X then int ?n - 1 else ?X)"
    using edge by simp
  have "first_from (\<lambda>i. js_ge l (series_threshold ?S i (if int ?n \<le> ?X then int ?n - 1 else ?X)
          (of_int \<lfloor>h / ?d\<rfloor> * ?d) ?d h)) 4 1 = None"
    unfolding first_from_None_iff
    using series_threshold_right_edge [OF rz_wf_lengths [OF wf] clamp] five by simp
  ultimately show ?thesis
    using five by (simp add: riskZone_exceeds_def Let_def)
qed

lemma zone_placement_code:
  assumes "rz_wf t" "0 \<le> c" "c \<le> 3"
  shows "\<exists>z. zone_placement t c = Some z \<and> int (risk_rank z) = 3 - c"
proof -
  have "c = 0 \<or> c = 1 \<or> c = 2 \<or> c = 3" using assms(2,3) by linarith
  then show ?thesis
    using rz_wfD(7-10) [OF assms(1)] by (auto simp: zone_placement_def)
qed

lemma zone_placement_code_mono:
  assumes wf: "rz_wf t" and c: "c' \<le> c" "0 \<le> c'" "c \<le> 3"
  shows "zone_placement t c \<le> zone_placement t c'"
proof -
  from c have "0 \<le> c" "c' \<le> 3" by simp_all
  then obtain z z' where z: "zone_placement t c = Some z" "int (risk_rank z) = 3 - c"
    and z': "zone_placement t c' = Some z'" "int (risk_rank z') = 3 - c'"
    using zone_placement_code [OF wf, of c] zone_placement_code [OF wf, of c'] c by blast
  from z z' c(1) show ?thesis by (simp add: less_eq_risk_level_def)
qed

lemma riskZone_exceeds_scan:
  assumes "\<not> hours < rz_startsAt t"
  obtains T where "\<And>level. riskZone_exceeds t hours level =
    rz_scan_code t (first_from (\<lambda>i. js_ge level (T i)) (length (rz_series t) - 1) 1)"
proof -
  let ?X = "\<lfloor>(hours - rz_startsAt t) / rz_interval t\<rfloor>" and ?n = "int (length (rz_series t ! 0))"
  show thesis
    by (rule that [of "\<lambda>i. series_threshold (rz_series t) i (if ?n \<le> ?X then ?n - 1 else ?X)
        (of_int \<lfloor>hours / rz_interval t\<rfloor> * rz_interval t) (rz_interval t) hours"])
       (use assms in \<open>simp add: riskZone_exceeds_def rz_scan_code_def Let_def split del: if_split\<close>)
qed

lemma rz_scan_code_range:
  assumes "rz_wf t"
  shows "0 \<le> rz_scan_code t (first_from P 4 1) \<and> rz_scan_code t (first_from P 4 1) \<le> 3"
proof (cases "first_from P 4 1")
  case None
  then show ?thesis using rz_wfD(10) [OF assms] by (simp add: rz_scan_code_def)
next
  case (Some k)
  then have "1 \<le> k \<and> k < 4" unfolding first_from_Some_iff by blast
  with Some show ?thesis by (simp add: rz_scan_code_def)
qed

lemma rz_scan_code_None_max:
  assumes "rz_wf t" and None: "first_from P 4 1 = None"
  shows "rz_scan_code t (first_from Q 4 1) \<le> rz_scan_code t (first_from P 4 1)"
proof -
  have "rz_scan_code t (first_from Q 4 1) \<le> 3"
    using rz_scan_code_range [OF assms(1), of Q] by (rule conjunct2)
  moreover have "rz_scan_code t (first_from P 4 1) = 3"
    using None rz_wfD(10) [OF assms(1)] by (simp add: rz_scan_code_def)
  ultimately show ?thesis by simp
qed

lemma rz_scan_code_mono:
  assumes wf: "rz_wf t" and PQ: "\<And>j. P j \<Longrightarrow> Q j"
  shows "rz_scan_code t (first_from Q 4 1) \<le> rz_scan_code t (first_from P 4 1)"
proof (cases "first_from P 4 1")
  case None
  with wf show ?thesis by (rule rz_scan_code_None_max)
next
  case (Some k)
  then obtain k' where "first_from Q 4 1 = Some k'" "k' \<le> k"
    using first_from_mono [of P Q, OF PQ Some] by blast
  with Some show ?thesis by (simp add: rz_scan_code_def)
qed

lemma riskZone_exceeds_mono:
  assumes wf: "rz_wf t" and l: "l \<le> l'"
  shows "zone_placement t (riskZone_exceeds t h l) \<le> zone_placement t (riskZone_exceeds t h l')"
proof (cases "h < rz_startsAt t")
  case True
  then show ?thesis by (simp add: riskZone_exceeds_before)
next
  case False
  obtain T where T: "\<And>level. riskZone_exceeds t h level =
      rz_scan_code t (first_from (\<lambda>i. js_ge level (T i)) (length (rz_series t) - 1) 1)"
    using riskZone_exceeds_scan [OF False] by blast
  have b: "length (rz_series t) - 1 = 4" using rz_wfD(3) [OF wf] by simp
  let ?P = "\<lambda>lv i. js_ge lv (T i)"
  have "rz_scan_code t (first_from (?P l') 4 1) \<le> rz_scan_code t (first_from (?P l) 4 1)"
    by (rule rz_scan_code_mono [OF wf]) (rule js_ge_mono [OF _ l])
  moreover have "0 \<le> rz_scan_code t (first_from (?P l') 4 1)"
    and "rz_scan_code t (first_from (?P l) 4 1) \<le> 3"
    using rz_scan_code_range [OF wf, of "?P l'"] rz_scan_code_range [OF wf, of "?P l"]
    by simp_all
  ultimately show ?thesis
    unfolding T b by (rule zone_placement_code_mono [OF wf])
qed

lemma rz_curve_ordered:
  assumes wf: "rz_wf t"
    and h: "in_table (length (rz_series t ! 0)) (rz_startsAt t) (rz_interval t) h"
    and ij: "i \<le> j" "j < length (rz_series t)"
  shows "rz_curve t j h \<le> rz_curve t i h"
  unfolding rz_curve_def
  by (rule pl_curves_ordered [OF rz_wfD(1) [OF wf] h rz_wfD(6) [OF wf] rz_wfD(5) [OF wf] ij])

lemma bhutani_zone_scan:
  assumes wf: "rz_wf t"
  shows "zone_placement t (rz_scan_code t (first_from (\<lambda>i. rz_curve t i h \<le> l) 4 1)) =
           Some (bhutani_zone t h l)"
  using rz_wfD(7-11) [OF wf]
  by (simp add: first_from.simps rz_scan_code_def zone_placement_def bhutani_zone_def
      numeral_2_eq_2 numeral_3_eq_3)

lemma riskZone_in_table_iff: "in_table 35 12 4 h \<longleftrightarrow> 12 \<le> h \<and> h < 148"
  by (simp add: in_table_def)

section \<open>Properties of the risk-zone table\<close>

text \<open>
  C1. Inside the tabulated range (12 to 148 hours of life) the code's
  classification is exactly the Bhutani zone of the level with respect to the
  interpolated 95th, 75th and 40th percentile curves (curves 1, 2 and 3 of
  \<open>riskZone.series\<close>).
\<close>

theorem riskZone_refines_bhutani:
  assumes "12 \<le> h" "h < 148"
  shows "zone_placement riskZone (riskZone_exceeds riskZone h l) = Some (bhutani_zone riskZone h l)"
proof -
  have "in_table (length (rz_series riskZone ! 0)) (rz_startsAt riskZone) (rz_interval riskZone) h"
    using assms by (simp add: riskZone_in_table_iff)
  then have "riskZone_exceeds riskZone h l =
               rz_scan_code riskZone (first_from (\<lambda>i. rz_curve riskZone i h \<le> l) 4 1)"
    using riskZone_exceeds_in_table [OF riskZone_wf_lemma] by (simp add: rz_scan_code_def)
  then show ?thesis
    using bhutani_zone_scan [OF riskZone_wf_lemma, of h l] by simp
qed

theorem riskZone_refines_bhutani_witness:
  "12 \<le> (29::real) \<and> (29::real) < 148 \<and>
   zone_placement riskZone (riskZone_exceeds riskZone 29 12.2) = Some (bhutani_zone riskZone 29 12.2) \<and>
   bhutani_zone riskZone 29 12.2 = High"
  using riskZone_refines_bhutani [of 29 "12.2"]
  by (simp add: bhutani_zone_def rz_curve_def pl_curve_def pl_knot_def pl_frac_def riskZone_def)

text \<open>
  C2. Before 12 hours of life the table is not defined: \<open>exceeds\<close> returns
  \<open>riskZone.undefined\<close> (\<open>-2\<close>) whatever the level.
\<close>

theorem riskZone_undefined_before_start:
  "hours < 12 \<Longrightarrow> riskZone_exceeds riskZone hours level = rz_undefined riskZone"
  by (simp add: riskZone_exceeds_before)

theorem riskZone_undefined_before_start_witness:
  "(11.9::real) < 12 \<and> riskZone_exceeds riskZone 11.9 30 = -2"
  using riskZone_undefined_before_start [of "11.9" 30] by simp

text \<open>
  C3. From 148 hours on (the last sample) the code does not extrapolate the
  curves flat, as its comment says: the right neighbour of the clamped index
  is read past the end of the array, the threshold is \<open>NaN\<close>, no comparison
  succeeds, and every level, however high, is classified as low risk.
\<close>

theorem riskZone_past_table_is_low:
  "148 \<le> h \<Longrightarrow> riskZone_exceeds riskZone h l = rz_low riskZone"
  using riskZone_exceeds_right_edge [OF riskZone_wf_lemma, of h l] by simp

theorem riskZone_past_table_is_low_witness:
  "(148::real) \<le> 200 \<and> riskZone_exceeds riskZone 200 30 = 3 \<and>
   zone_placement riskZone (riskZone_exceeds riskZone 200 30) = Some Low"
  using riskZone_past_table_is_low [of 200 30] by (simp add: zone_placement_def)

text \<open>
  C4. For a fixed age, a higher bilirubin level never yields a lower risk zone
  (\<open>None\<close>, the undefined zone before 12 hours, is below every zone).
\<close>

theorem riskZone_monotone_in_level:
  "l \<le> l' \<Longrightarrow>
   zone_placement riskZone (riskZone_exceeds riskZone h l)
     \<le> zone_placement riskZone (riskZone_exceeds riskZone h l')"
  by (rule riskZone_exceeds_mono [OF riskZone_wf_lemma])

theorem riskZone_monotone_in_level_witness:
  "(5::real) \<le> 30 \<and>
   zone_placement riskZone (riskZone_exceeds riskZone 29 5)
     \<le> zone_placement riskZone (riskZone_exceeds riskZone 29 30)"
  using riskZone_monotone_in_level [of 5 30 29] by simp

text \<open>
  The table constant is well formed: a positive interval, a start aligned
  with it, five series of one length (35 samples, 12 to 148 hours), pointwise
  non-increasing from series 0 to series 4, and the zone codes the \<open>switch\<close>
  of \<open>getBiliResults\<close> reads.
\<close>

theorem riskZone_table_wf: "rz_wf riskZone"
  by (simp add: rz_wf_def riskZone_def)

text \<open>
  C6. Inside the tabulated range the interpolated curves never cross: curve
  \<open>j\<close> lies below curve \<open>i\<close> whenever \<open>i \<le> j\<close>, so the four zones are the
  disjoint bands the chart draws.
\<close>

theorem riskZone_curves_ordered:
  "12 \<le> h \<Longrightarrow> h < 148 \<Longrightarrow> i \<le> j \<Longrightarrow> j < 5 \<Longrightarrow> rz_curve riskZone j h \<le> rz_curve riskZone i h"
  by (rule rz_curve_ordered [OF riskZone_wf_lemma]) (simp_all add: in_table_def)

theorem riskZone_curves_ordered_witness:
  "12 \<le> (29::real) \<and> (29::real) < 148 \<and> (1::nat) \<le> 3 \<and> (3::nat) < 5 \<and>
   rz_curve riskZone 3 29 \<le> rz_curve riskZone 1 29"
  using riskZone_curves_ordered [of 29 1 3] by simp

text \<open>
  The specification's worked scenario, 29 hours and 12.2 mg/dL: the
  level exceeds the interpolated curve 1 (9.175 mg/dL between the 28 and 32
  hour samples 8.9 and 10.0), so \<open>exceeds\<close> returns \<open>riskZone.high\<close> and
  the measurement is in the high-risk zone, not the low-intermediate zone the
  specification expects.
\<close>

theorem riskZone_scenario_29h:
  "zone_placement riskZone (riskZone_exceeds riskZone 29 12.2) = Some High"
  by (simp add: riskZone_exceeds_def riskZone_def series_threshold_def js_at_def
      first_from.simps zone_placement_def)

end
