(* ===== verification/Treatment_Zone.thy ===== *)
theory Treatment_Zone
  imports Curve_Scan
begin

text \<open>
  The phototherapy and exchange-transfusion thresholds, \<open>var treatmentZone\<close>
  of \<open>src/biligram.js\<close> (lines 108--200).  The object literal is the record
  \<open>tz_table\<close> with the constant \<open>treatmentZone\<close>; its two mutable fields
  \<open>phototherapyVisible\<close> and \<open>transfusiontherapyVisible\<close> are state, so
  \<open>treatmentZone_exceeds\<close> returns the result object together with the
  updated table.  The colours and line width of the literal only configure the
  chart and are left out.  Both loops are \<open>tz_scan\<close>: the curves from index 0
  (the highest line, for infants at low risk) down, the last curve skipped
  when the gestational age is 38 weeks or more.  \<open>tier_placement\<close> is the
  \<open>switch\<close> of \<open>getBiliResults\<close> that reads a result (lines 637--693).
  The specification \<open>tz_tier_spec\<close> counts the curves the level stays
  below; the scan computes it on the tabulated range.
\<close>

section \<open>Data\<close>

record tz_table =
  tz_interval :: real
  tz_startsAt :: real
  phototherapySeries :: "real list list"
  transfusionSeries :: "real list list"
  phototherapyVisible :: bool
  transfusiontherapyVisible :: bool
  tz_high :: int
  tz_medium :: int
  tz_low :: int
  tz_none :: int
  tz_undefined :: int

record tz_result =
  phototherapy :: int
  transfusion :: int

definition treatmentZone :: tz_table where
  "treatmentZone = \<lparr>tz_interval = 12, tz_startsAt = 0,
     phototherapySeries = [
       [6.7, 9, 11.5, 13.5, 15.2, 16.4, 17.6, 18.8, 19.8, 20.3, 21, 21, 21],
       [5, 7.6, 9.8, 11.7, 13.1, 14.5, 15.4, 16.4, 17.2, 18, 18, 18, 18],
       [3.8, 6.0, 7.8, 9.5, 11.1, 12.4, 13.4, 14, 14.5, 14.9, 15, 15, 15]],
     transfusionSeries = [
       [16, 17.7, 19, 20.8, 22.1, 23, 23.9, 24.4, 24.9, 24.9, 24.9, 24.9, 24.9],
       [13.8, 15.1, 16.5, 17.9, 19.1, 20.1, 21.2, 22, 22.4, 22.4, 22.4, 22.4, 22.4],
       [12, 13.5, 15, 16, 17.1, 18, 18.5, 18.8, 19, 19, 19, 19, 19]],
     phototherapyVisible = False, transfusiontherapyVisible = False,
     tz_high = 2, tz_medium = 1, tz_low = 0, tz_none = -1, tz_undefined = -2\<rparr>"

datatype tier = TierLow | TierMedium | TierHigh

section \<open>Operations\<close>

definition tz_scan ::
  "real list list \<Rightarrow> int \<Rightarrow> real \<Rightarrow> real \<Rightarrow> hours \<Rightarrow> mg_dl \<Rightarrow> real \<Rightarrow> nat option" where
  "tz_scan series x1Index x1 interval hours level gaBirth =
     first_from (\<lambda>i. js_ge level (series_threshold series i x1Index x1 interval hours))
       (length series - (if 38 \<le> gaBirth then 1 else 0)) 0"

definition treatmentZone_exceeds ::
  "tz_table \<Rightarrow> hours \<Rightarrow> mg_dl \<Rightarrow> real \<Rightarrow> tz_result \<times> tz_table" where
  "treatmentZone_exceeds this hours level gaBirth =
     (let x1Index = \<lfloor>(hours - tz_startsAt this) / tz_interval this\<rfloor>;
          x1 = of_int \<lfloor>hours / tz_interval this\<rfloor> * tz_interval this;
          n = int (length (phototherapySeries this ! 0));
          x1Index = (if n < x1Index then n - 1 else x1Index);
          p = tz_scan (phototherapySeries this) x1Index x1 (tz_interval this) hours level gaBirth;
          t = tz_scan (transfusionSeries this) x1Index x1 (tz_interval this) hours level gaBirth;
          returnValue = \<lparr>phototherapy = (case p of Some i \<Rightarrow> int i | None \<Rightarrow> tz_none this),
                         transfusion = (case t of Some i \<Rightarrow> int i | None \<Rightarrow> tz_none this)\<rparr>
      in (returnValue,
          this\<lparr>phototherapyVisible := (if p \<noteq> None then True else phototherapyVisible this),
               transfusiontherapyVisible :=
                 (if t \<noteq> None then True else transfusiontherapyVisible this)\<rparr>))"

definition tier_placement :: "tz_table \<Rightarrow> int \<Rightarrow> tier option" where
  "tier_placement this c =
     (if c = tz_high this then Some TierHigh
      else if c = tz_medium this then Some TierMedium
      else if c = tz_low this then Some TierLow
      else None)"

section \<open>Specification\<close>

definition tz_family_wf :: "real list list \<Rightarrow> nat \<Rightarrow> bool" where
  "tz_family_wf S n \<longleftrightarrow>
     length S = 3 \<and> list_all (\<lambda>ys. length ys = n) S \<and>
     sorted_wrt (\<lambda>ys zs. list_all2 (\<lambda>a b. b \<le> a) ys zs) S"

definition tz_wf :: "tz_table \<Rightarrow> bool" where
  "tz_wf t \<longleftrightarrow>
     0 < tz_interval t \<and> of_int \<lfloor>tz_startsAt t / tz_interval t\<rfloor> * tz_interval t = tz_startsAt t \<and>
     2 \<le> length (phototherapySeries t ! 0) \<and>
     tz_family_wf (phototherapySeries t) (length (phototherapySeries t ! 0)) \<and>
     tz_family_wf (transfusionSeries t) (length (phototherapySeries t ! 0)) \<and>
     tz_low t = 0 \<and> tz_medium t = 1 \<and> tz_high t = 2 \<and> tz_none t = -1"

definition tz_curve :: "tz_table \<Rightarrow> real list list \<Rightarrow> nat \<Rightarrow> hours \<Rightarrow> mg_dl" where
  "tz_curve t S i h = pl_curve (S ! i) (tz_startsAt t) (tz_interval t) h"

definition tz_tier_spec :: "tz_table \<Rightarrow> real list list \<Rightarrow> hours \<Rightarrow> mg_dl \<Rightarrow> real \<Rightarrow> int" where
  "tz_tier_spec t S h l ga =
     (let b = (if 38 \<le> ga then 2 else 3);
          c = count_below (\<lambda>i. tz_curve t S i h \<le> l) b
      in if c < b then int c else tz_none t)"

section \<open>Lemmas\<close>

lemma treatmentZone_wf_lemma: "tz_wf treatmentZone"
  by (simp add: tz_wf_def tz_family_wf_def treatmentZone_def)

lemma treatmentZone_fields [simp]:
  "tz_interval treatmentZone = 12" "tz_startsAt treatmentZone = 0"
  "tz_low treatmentZone = 0" "tz_medium treatmentZone = 1" "tz_high treatmentZone = 2"
  "tz_none treatmentZone = -1"
  "length (phototherapySeries treatmentZone ! 0) = 13"
  by (simp_all add: treatmentZone_def)

lemma tz_wfD:
  assumes "tz_wf t"
  shows "0 < tz_interval t"
    and "tz_startsAt t = of_int \<lfloor>tz_startsAt t / tz_interval t\<rfloor> * tz_interval t"
    and "2 \<le> length (phototherapySeries t ! 0)"
    and "tz_family_wf (phototherapySeries t) (length (phototherapySeries t ! 0))"
    and "tz_family_wf (transfusionSeries t) (length (phototherapySeries t ! 0))"
    and "tz_low t = 0" "tz_medium t = 1" "tz_high t = 2" "tz_none t = -1"
  using assms unfolding tz_wf_def by (elim conjE; simp only: eq_commute)+

lemma tz_family_wfD:
  assumes "tz_family_wf S n"
  shows "length S = 3" and "list_all (\<lambda>ys. length ys = n) S"
    and "sorted_wrt (\<lambda>ys zs. list_all2 (\<lambda>a b. b \<le> a) ys zs) S"
    and "i < length S \<Longrightarrow> length (S ! i) = n"
  using assms by (simp_all add: tz_family_wf_def list_all_length)

lemma tz_scan_bound:
  "tz_scan S X x1 d h l ga = Some i \<Longrightarrow> i < length S - (if 38 \<le> ga then 1 else 0)"
  by (simp add: tz_scan_def first_from_Some_iff)

lemma tz_scan_in_table:
  assumes wf: "tz_wf t" and S: "tz_family_wf S (length (phototherapySeries t ! 0))"
    and h: "in_table (length (phototherapySeries t ! 0)) (tz_startsAt t) (tz_interval t) h"
  shows "tz_scan S \<lfloor>(h - tz_startsAt t) / tz_interval t\<rfloor>
           (of_int \<lfloor>h / tz_interval t\<rfloor> * tz_interval t) (tz_interval t) h l ga =
         first_from (\<lambda>i. tz_curve t S i h \<le> l) (if 38 \<le> ga then 2 else 3) 0"
proof -
  let ?n = "length (phototherapySeries t ! 0)"
  have three: "length S = 3" and lens: "\<And>i. i < length S \<Longrightarrow> length (S ! i) = ?n"
    using tz_family_wfD [OF S] by blast+
  have h0: "in_table (length (S ! 0)) (tz_startsAt t) (tz_interval t) h"
    using h lens [of 0] three by simp
  have th: "series_threshold S i \<lfloor>(h - tz_startsAt t) / tz_interval t\<rfloor>
              (of_int \<lfloor>h / tz_interval t\<rfloor> * tz_interval t) (tz_interval t) h =
            Some (tz_curve t S i h)" if "i < 3" for i
    using series_threshold_pl [OF tz_wfD(1) [OF wf] tz_wfD(2) [OF wf], of i S h] that three
      lens [of i] lens [of 0] h0
    by (simp add: tz_curve_def)
  have b: "3 - (if 38 \<le> ga then 1 else 0) = (if 38 \<le> ga then 2 else (3::nat))"
    by simp
  show ?thesis
    unfolding tz_scan_def three b
    by (rule first_from_cong) (simp add: th split: if_splits)
qed

lemma tz_scan_spec:
  assumes wf: "tz_wf t" and S: "tz_family_wf S (length (phototherapySeries t ! 0))"
    and h: "in_table (length (phototherapySeries t ! 0)) (tz_startsAt t) (tz_interval t) h"
  shows "(case first_from (\<lambda>i. tz_curve t S i h \<le> l) (if 38 \<le> ga then 2 else 3) 0 of
            Some i \<Rightarrow> int i | None \<Rightarrow> tz_none t) = tz_tier_spec t S h l ga"
proof -
  let ?b = "if 38 \<le> (ga::real) then 2 else (3::nat)"
  let ?P = "\<lambda>i. tz_curve t S i h \<le> l"
  have up: "?P k" if "j \<le> k" "k < ?b" "?P j" for j k
  proof -
    have "k < length S" using that tz_family_wfD(1) [OF S] by (simp split: if_splits)
    then have "tz_curve t S k h \<le> tz_curve t S j h"
      unfolding tz_curve_def
      using pl_curves_ordered [OF tz_wfD(1) [OF wf] h tz_family_wfD(3) [OF S]
          tz_family_wfD(2) [OF S] that(1)] by blast
    with that(3) show ?thesis by simp
  qed
  show ?thesis
    using first_from_upward_count [of ?b ?P, OF up]
    by (simp add: tz_tier_spec_def Let_def)
qed

lemma treatmentZone_exceeds_in_table:
  assumes wf: "tz_wf t"
    and h: "in_table (length (phototherapySeries t ! 0)) (tz_startsAt t) (tz_interval t) h"
  shows "phototherapy (fst (treatmentZone_exceeds t h l ga)) =
           tz_tier_spec t (phototherapySeries t) h l ga"
    and "transfusion (fst (treatmentZone_exceeds t h l ga)) =
           tz_tier_spec t (transfusionSeries t) h l ga"
proof -
  let ?n = "length (phototherapySeries t ! 0)"
  have idx: "\<not> int ?n < \<lfloor>(h - tz_startsAt t) / tz_interval t\<rfloor>"
    using in_table_index [OF tz_wfD(1) [OF wf] h] by simp
  show "phototherapy (fst (treatmentZone_exceeds t h l ga)) =
          tz_tier_spec t (phototherapySeries t) h l ga"
    using tz_scan_in_table [OF wf tz_wfD(4) [OF wf] h] tz_scan_spec [OF wf tz_wfD(4) [OF wf] h] idx
    by (simp add: treatmentZone_exceeds_def Let_def)
  show "transfusion (fst (treatmentZone_exceeds t h l ga)) =
          tz_tier_spec t (transfusionSeries t) h l ga"
    using tz_scan_in_table [OF wf tz_wfD(5) [OF wf] h] tz_scan_spec [OF wf tz_wfD(5) [OF wf] h] idx
    by (simp add: treatmentZone_exceeds_def Let_def)
qed

lemma tz_scan_None_outside:
  assumes S: "tz_family_wf S n" and x: "X < 0 \<or> int n - 1 \<le> X"
  shows "tz_scan S X x1 d h l ga = None"
proof -
  have "series_threshold S i X x1 d h = None" if "i < length S" for i
    using x
  proof
    assume "X < 0"
    then show ?thesis by (rule series_threshold_negative)
  next
    assume "int n - 1 \<le> X"
    moreover have "length (S ! i) = length (S ! 0)" "length (S ! 0) = n"
      using tz_family_wfD(1,4) [OF S] that by simp_all
    ultimately show ?thesis
      by (intro series_threshold_right_edge) simp_all
  qed
  then show ?thesis
    by (simp add: tz_scan_def first_from_None_iff)
qed

lemma treatmentZone_exceeds_outside:
  assumes wf: "tz_wf t"
    and h: "h < tz_startsAt t \<or>
            tz_startsAt t + tz_interval t * of_nat (length (phototherapySeries t ! 0) - 1) \<le> h"
  shows "phototherapy (fst (treatmentZone_exceeds t h l ga)) = tz_none t \<and>
         transfusion (fst (treatmentZone_exceeds t h l ga)) = tz_none t"
proof -
  let ?s = "tz_startsAt t" and ?d = "tz_interval t" and ?n = "length (phototherapySeries t ! 0)"
  let ?X = "\<lfloor>(h - ?s) / ?d\<rfloor>"
  have d: "0 < ?d" and n2: "2 \<le> ?n" using tz_wfD(1,3) [OF wf] by simp_all
  have "?X < 0 \<or> int ?n - 1 \<le> ?X"
    using h
  proof
    assume "h < ?s"
    then have "(h - ?s) / ?d < 0" using d by (simp add: divide_less_0_iff)
    then show ?thesis by (simp add: floor_less_iff)
  next
    assume "?s + ?d * of_nat (?n - 1) \<le> h"
    then have "of_nat (?n - 1) \<le> (h - ?s) / ?d"
      using d by (simp add: pos_le_divide_eq mult.commute)
    then have "int (?n - 1) \<le> ?X" by (simp add: le_floor_iff)
    then show ?thesis using n2 by linarith
  qed
  then have x: "(if int ?n < ?X then int ?n - 1 else ?X) < 0 \<or>
                int ?n - 1 \<le> (if int ?n < ?X then int ?n - 1 else ?X)"
    by auto
  show ?thesis
    using tz_scan_None_outside [OF tz_wfD(4) [OF wf] x] tz_scan_None_outside [OF tz_wfD(5) [OF wf] x]
    by (simp add: treatmentZone_exceeds_def Let_def)
qed

lemma treatmentZone_exceeds_ga38:
  assumes wf: "tz_wf t" and ga: "38 \<le> ga"
  shows "phototherapy (fst (treatmentZone_exceeds t h l ga)) \<noteq> tz_high t \<and>
         transfusion (fst (treatmentZone_exceeds t h l ga)) \<noteq> tz_high t"
proof -
  have "(case tz_scan S X x1 d h l ga of Some i \<Rightarrow> int i | None \<Rightarrow> tz_none t) \<noteq> tz_high t"
    if "tz_family_wf S n" for S X x1 d n
  proof (cases "tz_scan S X x1 d h l ga")
    case (Some i)
    then have "i < 2" using tz_scan_bound [OF Some] ga tz_family_wfD(1) [OF that] by simp
    with Some show ?thesis using tz_wfD(8) [OF wf] by simp
  qed (use tz_wfD(8,9) [OF wf] in simp)
  from this [OF tz_wfD(4) [OF wf]] this [OF tz_wfD(5) [OF wf]] show ?thesis
    by (simp add: treatmentZone_exceeds_def Let_def)
qed

lemma tz_scan_mono:
  assumes "l \<le> l'" "tz_scan S X x1 d h l ga = Some i"
  shows "\<exists>i'. tz_scan S X x1 d h l' ga = Some i' \<and> i' \<le> i"
  using first_from_mono [of "\<lambda>i. js_ge l (series_threshold S i X x1 d h)"
      "\<lambda>i. js_ge l' (series_threshold S i X x1 d h)", OF js_ge_mono [OF _ assms(1)]]
    assms(2)
  unfolding tz_scan_def by blast

lemma tz_code_mono:
  assumes "l \<le> l'" and none: "tz_none t < 0"
    and c: "(case tz_scan S X x1 d h l ga of Some i \<Rightarrow> int i | None \<Rightarrow> tz_none t) \<noteq> tz_none t"
  shows "(case tz_scan S X x1 d h l' ga of Some i \<Rightarrow> int i | None \<Rightarrow> tz_none t) \<noteq> tz_none t \<and>
         (case tz_scan S X x1 d h l' ga of Some i \<Rightarrow> int i | None \<Rightarrow> tz_none t)
           \<le> (case tz_scan S X x1 d h l ga of Some i \<Rightarrow> int i | None \<Rightarrow> tz_none t)"
proof -
  obtain i where i: "tz_scan S X x1 d h l ga = Some i"
    using c by (cases "tz_scan S X x1 d h l ga") auto
  obtain i' where "tz_scan S X x1 d h l' ga = Some i'" "i' \<le> i"
    using tz_scan_mono [OF assms(1) i] by blast
  with i none show ?thesis by simp
qed

lemma treatmentZone_exceeds_mono:
  assumes wf: "tz_wf t" and l: "l \<le> l'"
  shows "phototherapy (fst (treatmentZone_exceeds t h l ga)) \<noteq> tz_none t \<Longrightarrow>
           phototherapy (fst (treatmentZone_exceeds t h l' ga)) \<noteq> tz_none t \<and>
           phototherapy (fst (treatmentZone_exceeds t h l' ga))
             \<le> phototherapy (fst (treatmentZone_exceeds t h l ga))"
    and "transfusion (fst (treatmentZone_exceeds t h l ga)) \<noteq> tz_none t \<Longrightarrow>
           transfusion (fst (treatmentZone_exceeds t h l' ga)) \<noteq> tz_none t \<and>
           transfusion (fst (treatmentZone_exceeds t h l' ga))
             \<le> transfusion (fst (treatmentZone_exceeds t h l ga))"
proof -
  have none: "tz_none t < 0" using tz_wfD(9) [OF wf] by simp
  show "phototherapy (fst (treatmentZone_exceeds t h l ga)) \<noteq> tz_none t \<Longrightarrow>
           phototherapy (fst (treatmentZone_exceeds t h l' ga)) \<noteq> tz_none t \<and>
           phototherapy (fst (treatmentZone_exceeds t h l' ga))
             \<le> phototherapy (fst (treatmentZone_exceeds t h l ga))"
    unfolding treatmentZone_exceeds_def Let_def fst_conv tz_result.select_convs
    by (rule tz_code_mono [OF l none])
  show "transfusion (fst (treatmentZone_exceeds t h l ga)) \<noteq> tz_none t \<Longrightarrow>
           transfusion (fst (treatmentZone_exceeds t h l' ga)) \<noteq> tz_none t \<and>
           transfusion (fst (treatmentZone_exceeds t h l' ga))
             \<le> transfusion (fst (treatmentZone_exceeds t h l ga))"
    unfolding treatmentZone_exceeds_def Let_def fst_conv tz_result.select_convs
    by (rule tz_code_mono [OF l none])
qed

lemma treatmentZone_exceeds_flags:
  assumes wf: "tz_wf t"
  shows "phototherapyVisible (snd (treatmentZone_exceeds t h l ga)) \<longleftrightarrow>
           phototherapyVisible t \<or> phototherapy (fst (treatmentZone_exceeds t h l ga)) \<noteq> tz_none t"
    and "transfusiontherapyVisible (snd (treatmentZone_exceeds t h l ga)) \<longleftrightarrow>
           transfusiontherapyVisible t \<or> transfusion (fst (treatmentZone_exceeds t h l ga)) \<noteq> tz_none t"
  using tz_wfD(9) [OF wf]
  by (auto simp: treatmentZone_exceeds_def Let_def split: option.splits)

lemma treatmentZone_exceeds_frame:
  "(snd (treatmentZone_exceeds t h l ga))\<lparr>phototherapyVisible := phototherapyVisible t,
      transfusiontherapyVisible := transfusiontherapyVisible t\<rparr> = t"
  by (simp add: treatmentZone_exceeds_def Let_def)

lemma treatmentZone_exceeds_flag_independent:
  "fst (treatmentZone_exceeds (t\<lparr>phototherapyVisible := a, transfusiontherapyVisible := b\<rparr>) h l ga) =
   fst (treatmentZone_exceeds t h l ga)"
  by (simp add: treatmentZone_exceeds_def Let_def cong: option.case_cong)

lemma treatmentZone_exceeds_wf:
  "tz_wf t \<Longrightarrow> tz_wf (snd (treatmentZone_exceeds t h l ga))"
  by (simp add: tz_wf_def treatmentZone_exceeds_def Let_def)

lemma treatmentZone_in_table_iff: "in_table 13 0 12 h \<longleftrightarrow> 0 \<le> h \<and> h < 144"
  by (simp add: in_table_def)

section \<open>Properties of the treatment-zone table\<close>

text \<open>
  C8. Inside the tabulated range (0 to 144 hours of life) each family's result
  is its counting specification: the number of scanned curves (all three, or
  the first two from 38 weeks of gestational age) that the level stays below,
  or \<open>treatmentZone.none\<close> when it stays below all of them.
\<close>

theorem treatmentZone_refines_spec:
  assumes "0 \<le> h" "h < 144"
  shows "phototherapy (fst (treatmentZone_exceeds treatmentZone h l ga)) =
           tz_tier_spec treatmentZone (phototherapySeries treatmentZone) h l ga \<and>
         transfusion (fst (treatmentZone_exceeds treatmentZone h l ga)) =
           tz_tier_spec treatmentZone (transfusionSeries treatmentZone) h l ga"
proof -
  have "in_table (length (phototherapySeries treatmentZone ! 0)) (tz_startsAt treatmentZone)
          (tz_interval treatmentZone) h"
    using assms by (simp add: treatmentZone_in_table_iff)
  then show ?thesis
    using treatmentZone_exceeds_in_table [OF treatmentZone_wf_lemma] by blast
qed

theorem treatmentZone_refines_spec_witness:
  "0 \<le> (48::real) \<and> (48::real) < 144 \<and>
   phototherapy (fst (treatmentZone_exceeds treatmentZone 48 12 36)) =
     tz_tier_spec treatmentZone (phototherapySeries treatmentZone) 48 12 36 \<and>
   transfusion (fst (treatmentZone_exceeds treatmentZone 48 12 36)) =
     tz_tier_spec treatmentZone (transfusionSeries treatmentZone) 48 12 36 \<and>
   tz_tier_spec treatmentZone (phototherapySeries treatmentZone) 48 12 36 = 2"
  using treatmentZone_refines_spec [of 48 12 36]
  by (simp add: tz_tier_spec_def count_below_def tz_curve_def pl_curve_def pl_knot_def upt_conv_Cons
      pl_frac_def treatmentZone_def)

text \<open>
  C9. From 38 weeks of gestational age neither family ever reports
  \<open>treatmentZone.high\<close>, the curve for infants of 35 to 37 weeks 6 days with
  risk factors: the loops stop one curve early.
\<close>

theorem treatmentZone_ga38_never_high:
  "38 \<le> ga \<Longrightarrow>
   phototherapy (fst (treatmentZone_exceeds treatmentZone h l ga)) \<noteq> tz_high treatmentZone \<and>
   transfusion (fst (treatmentZone_exceeds treatmentZone h l ga)) \<noteq> tz_high treatmentZone"
  by (rule treatmentZone_exceeds_ga38 [OF treatmentZone_wf_lemma])

theorem treatmentZone_ga38_never_high_witness:
  "38 \<le> (39::real) \<and>
   phototherapy (fst (treatmentZone_exceeds treatmentZone 48 12 39)) \<noteq> 2 \<and>
   transfusion (fst (treatmentZone_exceeds treatmentZone 48 12 39)) \<noteq> 2"
  using treatmentZone_ga38_never_high [of 39 48 12] by simp

text \<open>
  C10. Before birth and from 144 hours on, no threshold is ever reported as
  exceeded: the right-edge guard \<open>x1Index > length\<close> leaves indices 12 and 13
  unclamped, the sample read past the end is \<open>undefined\<close>, and the threshold
  is \<open>NaN\<close>; there is no flat extrapolation.
\<close>

theorem treatmentZone_outside_table_none:
  "h < 0 \<or> 144 \<le> h \<Longrightarrow>
   phototherapy (fst (treatmentZone_exceeds treatmentZone h l ga)) = tz_none treatmentZone \<and>
   transfusion (fst (treatmentZone_exceeds treatmentZone h l ga)) = tz_none treatmentZone"
  using treatmentZone_exceeds_outside [OF treatmentZone_wf_lemma, of h l ga] by simp

theorem treatmentZone_outside_table_none_witness:
  "((150::real) < 0 \<or> 144 \<le> (150::real)) \<and>
   fst (treatmentZone_exceeds treatmentZone 150 40 36) = \<lparr>phototherapy = -1, transfusion = -1\<rparr>"
  using treatmentZone_outside_table_none [of 150 40 36] by simp

text \<open>
  C11. A higher level never loses an exceedance and never reports a lower
  curve: if the level exceeds some curve of a family, a higher level exceeds
  that curve or one above it (a smaller index).
\<close>

theorem treatmentZone_monotone_in_level:
  assumes "l \<le> l'"
  shows "(phototherapy (fst (treatmentZone_exceeds treatmentZone h l ga)) \<noteq> tz_none treatmentZone \<longrightarrow>
           phototherapy (fst (treatmentZone_exceeds treatmentZone h l' ga)) \<noteq> tz_none treatmentZone \<and>
           phototherapy (fst (treatmentZone_exceeds treatmentZone h l' ga))
             \<le> phototherapy (fst (treatmentZone_exceeds treatmentZone h l ga))) \<and>
         (transfusion (fst (treatmentZone_exceeds treatmentZone h l ga)) \<noteq> tz_none treatmentZone \<longrightarrow>
           transfusion (fst (treatmentZone_exceeds treatmentZone h l' ga)) \<noteq> tz_none treatmentZone \<and>
           transfusion (fst (treatmentZone_exceeds treatmentZone h l' ga))
             \<le> transfusion (fst (treatmentZone_exceeds treatmentZone h l ga)))"
  using treatmentZone_exceeds_mono [OF treatmentZone_wf_lemma assms] by blast

theorem treatmentZone_monotone_in_level_witness:
  "(12::real) \<le> 30 \<and>
   phototherapy (fst (treatmentZone_exceeds treatmentZone 48 12 36)) = 2 \<and>
   phototherapy (fst (treatmentZone_exceeds treatmentZone 48 30 36)) = 0 \<and>
   transfusion (fst (treatmentZone_exceeds treatmentZone 48 30 36)) \<le> 0"
  using treatmentZone_monotone_in_level [of 12 30 48 36]
  by (simp add: treatmentZone_exceeds_def treatmentZone_def tz_scan_def series_threshold_def
      js_at_def first_from.simps)

text \<open>
  C12. The flags are sticky and record exceedance: after a call a flag is set
  exactly when it was set before or the call reported an exceedance of its
  family; no other field of the table changes.
\<close>

theorem treatmentZone_flags_record_exceedance:
  assumes "tz_wf t"
  shows "(phototherapyVisible (snd (treatmentZone_exceeds t h l ga)) \<longleftrightarrow>
            phototherapyVisible t \<or> phototherapy (fst (treatmentZone_exceeds t h l ga)) \<noteq> tz_none t) \<and>
         (transfusiontherapyVisible (snd (treatmentZone_exceeds t h l ga)) \<longleftrightarrow>
            transfusiontherapyVisible t \<or> transfusion (fst (treatmentZone_exceeds t h l ga)) \<noteq> tz_none t) \<and>
         (snd (treatmentZone_exceeds t h l ga))\<lparr>phototherapyVisible := phototherapyVisible t,
            transfusiontherapyVisible := transfusiontherapyVisible t\<rparr> = t"
  using treatmentZone_exceeds_flags [OF assms] treatmentZone_exceeds_frame by blast

theorem treatmentZone_flags_record_exceedance_witness:
  "tz_wf treatmentZone \<and>
   phototherapyVisible (snd (treatmentZone_exceeds treatmentZone 48 16 36)) \<and>
   \<not> transfusiontherapyVisible (snd (treatmentZone_exceeds treatmentZone 48 16 36))"
  using treatmentZone_flags_record_exceedance [of treatmentZone 48 16 36]
  by (simp add: tz_wf_def tz_family_wf_def treatmentZone_def treatmentZone_exceeds_def tz_scan_def
      series_threshold_def js_at_def first_from.simps)

end
