(* ===== verification/Result_Classifier.thy ===== *)
theory Result_Classifier
  imports Risk_Zone Treatment_Zone "HOL-Library.Multiset" "HOL-Library.While_Combinator"
begin

text \<open>
  The classification pass of \<open>getBiliResults\<close> in \<open>src/biligram.js\<close>
  (lines 217--696), without its HTML: the three result lists tagged with
  their method (\<open>addMethod2\<close>), merged and sorted by draw time
  (\<open>sortedResults\<close>), the applicability advisory, and the loop that walks the
  sorted list from the newest result back, computes the age with
  \<open>toFixed(1)\<close>, classifies it with both tables and picks the follow-up
  advice (\<open>addRiskToTableRow\<close>).  The treatment table is threaded through the
  loop as state, since \<open>treatmentZone.exceeds\<close> writes its visibility flags.
  A row of the result table is the record \<open>result_row\<close>; the chart point
  the same loop builds is modelled in \<open>Chart_Series\<close>, the HTML of the
  row is not.
\<close>

section \<open>Data\<close>

datatype bili_method = Serum | POC | Transcut

record lab_result =
  lr_drawtime :: millis
  lr_level :: mg_dl

record measurement =
  m_drawtime :: millis
  m_level :: mg_dl
  m_method :: bili_method

record advice =
  highRisk :: string
  highIntRisk :: string
  lowIntRisk :: string
  lowRisk :: string

record advice_pair =
  noRiskFactors :: advice
  withRiskFactors :: advice

record followup_recs =
  young :: advice_pair
  notYoung :: advice_pair

definition followupRecommendations :: followup_recs where
  "followupRecommendations = \<lparr>
     young = \<lparr>
       noRiskFactors = \<lparr>
         highRisk = ''Evaluate for phototherapy, TSB in 4-24 h (inpatient or outpatient)'',
         highIntRisk = ''Evaluate for phototherapy, TcB/TSB within 24 h (inpatient or outpatient)'',
         lowIntRisk = ''If discharging < 72 h of age, follow up within 2 d'',
         lowRisk = ''If discharging in < 72 h of age, follow up within 2-3 d''\<rparr>,
       withRiskFactors = \<lparr>
         highRisk = ''Evaluate for phototherapy, TSB in 4-8 h (inpatient)'',
         highIntRisk = ''Evaluate for phototherapy, TSB in 4-24 h (inpatient or outpatient)'',
         lowIntRisk = ''If discharging < 72 h of age, follow-up within 2 d, consider TSB/TcB at follow-up'',
         lowRisk = ''If discharging < 72 h of age, follow up within 2 d''\<rparr>\<rparr>,
     notYoung = \<lparr>
       noRiskFactors = \<lparr>
         highRisk = ''Evaluate for phototherapy, TSB in 4-24 h (inpatient or outpatient)'',
         highIntRisk = ''Follow up within 2 d, consider TcB/TSB at follow-up'',
         lowIntRisk = ''If discharging < 72 h of age, follow up within 2-3 d'',
         lowRisk = ''If discharging < 72 h of age, time follow-up according to age at discharge or concerns other than jaundice (e.g., breastfeeding)''\<rparr>,
       withRiskFactors = \<lparr>
         highRisk = ''Evaluate for phototherapy, TSB in 4-24 h (inpatient or outpatient)'',
         highIntRisk = ''Evaluate for phototherapy, TcB/TSB within 24 h (inpatient or outpatient)'',
         lowIntRisk = ''If discharging < 72 h of age, follow up within 2 d'',
         lowRisk = ''If discharging in < 72 h of age, follow up within 2-3 d''\<rparr>\<rparr>\<rparr>"

datatype followup = FollowUp (without_rf: string) (with_rf: string) | NotApplicable

datatype advisory = NotValidated | UndefinedBelow35

record patient =
  birthDateTime :: millis
  birthGA :: real
  birthWeight :: real

record result_row =
  row_drawtime :: millis
  row_hours :: hours
  row_level :: mg_dl
  row_method :: bili_method
  row_zone :: "risk_level option"
  row_followup :: "followup option"
  row_photo :: "tier option"
  row_transfusion :: "tier option"

definition tz_strip :: "tz_table \<Rightarrow> tz_table" where
  "tz_strip t = t\<lparr>phototherapyVisible := False, transfusiontherapyVisible := False\<rparr>"

section \<open>Operations\<close>

definition addMethod :: "bili_method \<Rightarrow> lab_result \<Rightarrow> measurement" where
  "addMethod method element =
     \<lparr>m_drawtime = lr_drawtime element, m_level = lr_level element, m_method = method\<rparr>"

fun addMethod2 :: "lab_result list \<Rightarrow> bili_method \<Rightarrow> measurement list" where
  "addMethod2 [] method = []"
| "addMethod2 (r # rs) method =
     \<lparr>m_drawtime = lr_drawtime r, m_level = lr_level r, m_method = method\<rparr> # addMethod2 rs method"

definition sortedResults ::
  "lab_result list \<Rightarrow> lab_result list \<Rightarrow> lab_result list \<Rightarrow> measurement list" where
  "sortedResults serum poc tclab =
     sort_key m_drawtime (addMethod2 serum Serum @ addMethod2 poc POC @ addMethod2 tclab Transcut)"

definition js_toFixed1 :: "real \<Rightarrow> real" where
  "js_toFixed1 x =
     (if x < 0 then - (of_int \<lfloor>- x * 10 + 1 / 2\<rfloor> / 10) else of_int \<lfloor>x * 10 + 1 / 2\<rfloor> / 10)"

definition age_hours :: "millis \<Rightarrow> millis \<Rightarrow> hours" where
  "age_hours birth drawtime = js_toFixed1 (of_int (drawtime - birth) / 3600000)"

definition bhutani_advisory :: "real \<Rightarrow> real \<Rightarrow> advisory option" where
  "bhutani_advisory ga weight =
     (if \<not> ((36 \<le> ga \<and> 2 < weight) \<or> (35 \<le> ga \<and> 2.5 < weight)) then Some NotValidated
      else if ga < 35 then Some UndefinedBelow35
      else None)"

primrec pick_advice :: "advice \<Rightarrow> risk_level \<Rightarrow> string" where
  "pick_advice a Low = lowRisk a"
| "pick_advice a LowIntermediate = lowIntRisk a"
| "pick_advice a HighIntermediate = highIntRisk a"
| "pick_advice a High = highRisk a"

definition addRiskToTableRow :: "risk_level \<Rightarrow> real \<Rightarrow> followup" where
  "addRiskToTableRow description ga =
     (if 35 \<le> ga \<and> ga < 38 then
        FollowUp (pick_advice (noRiskFactors (young followupRecommendations)) description)
                 (pick_advice (withRiskFactors (young followupRecommendations)) description)
      else if 38 < ga then
        FollowUp (pick_advice (noRiskFactors (notYoung followupRecommendations)) description)
                 (pick_advice (withRiskFactors (notYoung followupRecommendations)) description)
      else NotApplicable)"

definition classify_row :: "tz_table \<Rightarrow> millis \<Rightarrow> real \<Rightarrow> measurement \<Rightarrow> result_row \<times> tz_table" where
  "classify_row tz birth ga m =
     (let hours = age_hours birth (m_drawtime m);
          riskZonePlacement = riskZone_exceeds riskZone hours (m_level m);
          (treatmentZoneExceeded, tz') = treatmentZone_exceeds tz hours (m_level m) ga;
          zone = zone_placement riskZone riskZonePlacement
      in (\<lparr>row_drawtime = m_drawtime m, row_hours = hours, row_level = m_level m,
           row_method = m_method m, row_zone = zone,
           row_followup = map_option (\<lambda>z. addRiskToTableRow z ga) zone,
           row_photo = tier_placement tz' (phototherapy treatmentZoneExceeded),
           row_transfusion = tier_placement tz' (transfusion treatmentZoneExceeded)\<rparr>, tz'))"

fun result_rows :: "tz_table \<Rightarrow> millis \<Rightarrow> real \<Rightarrow> measurement list \<Rightarrow> result_row list \<times> tz_table" where
  "result_rows tz birth ga [] = ([], tz)"
| "result_rows tz birth ga (m # ms) =
     (let (row, tz') = classify_row tz birth ga m;
          (rows, tz'') = result_rows tz' birth ga ms
      in (row # rows, tz''))"

text \<open>The loop itself, \<open>for (var i = sortedResults.length - 1; i >= 0; i--)\<close>,
  kept as a loop over the index: \<open>result_rows\<close> above is its structural
  form over the reversed list.\<close>

definition classify_loop ::
  "tz_table \<Rightarrow> millis \<Rightarrow> real \<Rightarrow> measurement list \<Rightarrow> (result_row list \<times> tz_table) option" where
  "classify_loop tz birth ga sr =
     map_option (\<lambda>(i, rows, tz). (rows, tz))
       (while_option (\<lambda>(i, rows, tz). 0 \<le> i)
          (\<lambda>(i, rows, tz). let (row, tz') = classify_row tz birth ga (sr ! nat i) in (i - 1, rows @ [row], tz'))
          (int (length sr) - 1, [], tz))"

definition getBiliResults ::
  "tz_table \<Rightarrow> patient \<Rightarrow> lab_result list \<Rightarrow> lab_result list \<Rightarrow> lab_result list \<Rightarrow>
     (advisory option \<times> result_row list) \<times> tz_table" where
  "getBiliResults tz p serum poc tclab =
     (let sorted = sortedResults serum poc tclab;
          (rows, tz') = result_rows tz (birthDateTime p) (birthGA p) (rev sorted)
      in ((bhutani_advisory (birthGA p) (birthWeight p), rows), tz'))"

section \<open>Lemmas\<close>

lemma addMethod2_map:
  "addMethod2 rs method =
     map (\<lambda>r. \<lparr>m_drawtime = lr_drawtime r, m_level = lr_level r, m_method = method\<rparr>) rs"
  by (induction rs) simp_all

lemma addMethod2_addMethod: "addMethod2 rs method = map (addMethod method) rs"
  by (simp add: addMethod2_map addMethod_def)

lemma classify_row_fields:
  "row_drawtime (fst (classify_row tz birth ga m)) = m_drawtime m"
  "row_level (fst (classify_row tz birth ga m)) = m_level m"
  "row_method (fst (classify_row tz birth ga m)) = m_method m"
  "row_hours (fst (classify_row tz birth ga m)) = age_hours birth (m_drawtime m)"
  "row_zone (fst (classify_row tz birth ga m)) =
     zone_placement riskZone (riskZone_exceeds riskZone (age_hours birth (m_drawtime m)) (m_level m))"
  "row_followup (fst (classify_row tz birth ga m)) =
     map_option (\<lambda>z. addRiskToTableRow z ga) (row_zone (fst (classify_row tz birth ga m)))"
  "snd (classify_row tz birth ga m) =
     snd (treatmentZone_exceeds tz (age_hours birth (m_drawtime m)) (m_level m) ga)"
  by (simp_all add: classify_row_def Let_def split: prod.split)

lemma result_rows_Cons:
  "result_rows tz birth ga (m # ms) =
     (fst (classify_row tz birth ga m) # fst (result_rows (snd (classify_row tz birth ga m)) birth ga ms),
      snd (result_rows (snd (classify_row tz birth ga m)) birth ga ms))"
  by (simp add: Let_def split: prod.split)

declare result_rows.simps(2) [simp del]

lemma result_rows_project:
  assumes "\<And>t m. f (fst (classify_row t birth ga m)) = g m"
  shows "map f (fst (result_rows tz birth ga ms)) = map g ms"
  by (induction ms arbitrary: tz) (simp_all add: result_rows_Cons assms)

lemma result_rows_all:
  assumes "\<And>t m. m \<in> set ms \<Longrightarrow> P (fst (classify_row t birth ga m))"
  shows "\<forall>r \<in> set (fst (result_rows tz birth ga ms)). P r"
  using assms by (induction ms arbitrary: tz) (simp_all add: result_rows_Cons)

lemma sortedResults_mset:
  "mset (sortedResults serum poc tclab) =
     mset (addMethod2 serum Serum @ addMethod2 poc POC @ addMethod2 tclab Transcut)"
  by (simp add: sortedResults_def)

lemma sortedResults_sorted: "sorted (map m_drawtime (sortedResults serum poc tclab))"
  by (simp add: sortedResults_def)

lemma getBiliResults_rows:
  "snd (fst (getBiliResults tz p serum poc tclab)) =
     fst (result_rows tz (birthDateTime p) (birthGA p) (rev (sortedResults serum poc tclab)))"
  by (simp add: getBiliResults_def Let_def split: prod.split)

lemma js_toFixed1_bound: "\<bar>js_toFixed1 x - x\<bar> \<le> 1 / 20"
proof (cases "x < 0")
  case True
  let ?F = "\<lfloor>- x * 10 + 1 / 2\<rfloor>"
  have eq: "js_toFixed1 x = - (of_int ?F / 10)"
    using True by (simp add: js_toFixed1_def)
  have "of_int ?F \<le> - x * 10 + 1 / 2" "- x * 10 + 1 / 2 < of_int ?F + 1"
    by linarith+
  then show ?thesis unfolding eq abs_le_iff by linarith
next
  case False
  let ?F = "\<lfloor>x * 10 + 1 / 2\<rfloor>"
  have eq: "js_toFixed1 x = of_int ?F / 10"
    using False by (simp add: js_toFixed1_def)
  have "of_int ?F \<le> x * 10 + 1 / 2" "x * 10 + 1 / 2 < of_int ?F + 1"
    by linarith+
  then show ?thesis unfolding eq abs_le_iff by linarith
qed

lemma tz_exceeds_codes [simp]:
  "tz_high (snd (treatmentZone_exceeds t h l ga)) = tz_high t"
  "tz_medium (snd (treatmentZone_exceeds t h l ga)) = tz_medium t"
  "tz_low (snd (treatmentZone_exceeds t h l ga)) = tz_low t"
  "tz_none (snd (treatmentZone_exceeds t h l ga)) = tz_none t"
  by (simp_all add: treatmentZone_exceeds_def Let_def)

lemma tz_exceeds_range:
  assumes "tz_wf t"
  shows "phototherapy (fst (treatmentZone_exceeds t h l ga)) \<in> {-1, 0, 1, 2}"
    and "transfusion (fst (treatmentZone_exceeds t h l ga)) \<in> {-1, 0, 1, 2}"
proof -
  have "(case tz_scan S X x1 d h l ga of Some i \<Rightarrow> int i | None \<Rightarrow> tz_none t) \<in> {-1, 0, 1, 2}"
    if "tz_family_wf S n" for S X x1 d n
  proof (cases "tz_scan S X x1 d h l ga")
    case (Some i)
    then have "i < 3" using tz_scan_bound [OF Some] tz_family_wfD(1) [OF that] by simp
    then have "i = 0 \<or> i = 1 \<or> i = 2" by linarith
    with Some show ?thesis by auto
  qed (use tz_wfD(9) [OF assms] in simp)
  from this [OF tz_wfD(4) [OF assms]] this [OF tz_wfD(5) [OF assms]]
  show "phototherapy (fst (treatmentZone_exceeds t h l ga)) \<in> {-1, 0, 1, 2}"
    and "transfusion (fst (treatmentZone_exceeds t h l ga)) \<in> {-1, 0, 1, 2}"
    by (simp_all add: treatmentZone_exceeds_def Let_def)
qed

lemma tier_placement_none_iff:
  assumes "tz_wf t" "c \<in> {-1, 0, 1, 2}"
  shows "tier_placement t c = None \<longleftrightarrow> c = tz_none t"
  using assms tz_wfD(6-9) [OF assms(1)] by (auto simp: tier_placement_def)

lemma classify_row_treatment:
  "row_photo (fst (classify_row tz birth ga m)) =
     tier_placement (snd (treatmentZone_exceeds tz (age_hours birth (m_drawtime m)) (m_level m) ga))
       (phototherapy (fst (treatmentZone_exceeds tz (age_hours birth (m_drawtime m)) (m_level m) ga)))"
  "row_transfusion (fst (classify_row tz birth ga m)) =
     tier_placement (snd (treatmentZone_exceeds tz (age_hours birth (m_drawtime m)) (m_level m) ga))
       (transfusion (fst (treatmentZone_exceeds tz (age_hours birth (m_drawtime m)) (m_level m) ga)))"
  by (simp_all add: classify_row_def Let_def split: prod.split)

lemma classify_row_flags:
  assumes wf: "tz_wf tz"
  shows "row_photo (fst (classify_row tz birth ga m)) \<noteq> None \<longleftrightarrow>
           phototherapy (fst (treatmentZone_exceeds tz (age_hours birth (m_drawtime m)) (m_level m) ga))
             \<noteq> tz_none tz"
    and "row_transfusion (fst (classify_row tz birth ga m)) \<noteq> None \<longleftrightarrow>
           transfusion (fst (treatmentZone_exceeds tz (age_hours birth (m_drawtime m)) (m_level m) ga))
             \<noteq> tz_none tz"
proof -
  let ?R = "treatmentZone_exceeds tz (age_hours birth (m_drawtime m)) (m_level m) ga"
  have wf': "tz_wf (snd ?R)" by (rule treatmentZone_exceeds_wf [OF wf])
  note classify_row_treatment [of tz birth ga m]
  then show "row_photo (fst (classify_row tz birth ga m)) \<noteq> None \<longleftrightarrow> phototherapy (fst ?R) \<noteq> tz_none tz"
    and "row_transfusion (fst (classify_row tz birth ga m)) \<noteq> None \<longleftrightarrow> transfusion (fst ?R) \<noteq> tz_none tz"
    using tier_placement_none_iff [OF wf'] tz_exceeds_range [OF wf] by simp_all
qed

lemma result_rows_flags:
  assumes "tz_wf tz"
  shows "(phototherapyVisible (snd (result_rows tz birth ga ms)) \<longleftrightarrow>
            phototherapyVisible tz \<or> (\<exists>r \<in> set (fst (result_rows tz birth ga ms)). row_photo r \<noteq> None)) \<and>
         (transfusiontherapyVisible (snd (result_rows tz birth ga ms)) \<longleftrightarrow>
            transfusiontherapyVisible tz \<or>
            (\<exists>r \<in> set (fst (result_rows tz birth ga ms)). row_transfusion r \<noteq> None))"
  using assms
proof (induction ms arbitrary: tz)
  case Nil
  then show ?case by simp
next
  case (Cons m ms)
  let ?R = "treatmentZone_exceeds tz (age_hours birth (m_drawtime m)) (m_level m) ga"
  have wf': "tz_wf (snd ?R)" by (rule treatmentZone_exceeds_wf [OF Cons.prems])
  have nxt: "snd (classify_row tz birth ga m) = snd ?R"
    by (simp add: classify_row_fields)
  show ?case
    using Cons.IH [OF wf'] treatmentZone_exceeds_flags [OF Cons.prems]
      classify_row_flags [OF Cons.prems, of birth ga m]
    by (simp add: result_rows_Cons nxt)
qed

lemma tz_strip_exceeds:
  "fst (treatmentZone_exceeds (tz_strip t) h l ga) = fst (treatmentZone_exceeds t h l ga)"
  "tz_strip (snd (treatmentZone_exceeds t h l ga)) = tz_strip t"
  "tier_placement (tz_strip t) c = tier_placement t c"
  "tz_strip (tz_strip t) = tz_strip t"
  "tz_strip (t\<lparr>phototherapyVisible := a, transfusiontherapyVisible := b\<rparr>) = tz_strip t"
  unfolding tz_strip_def
  by (simp_all add: treatmentZone_exceeds_flag_independent tier_placement_def)
     (simp add: treatmentZone_exceeds_def Let_def)

lemma classify_row_strip:
  "fst (classify_row (tz_strip t) birth ga m) = fst (classify_row t birth ga m)"
proof -
  have "tier_placement (snd (treatmentZone_exceeds t h l ga)) c =
        tier_placement (snd (treatmentZone_exceeds (tz_strip t) h l ga)) c" for h l c
    by (metis tz_strip_exceeds(2,3))
  then show ?thesis
    by (simp add: classify_row_def Let_def tz_strip_exceeds(1) case_prod_beta)
qed

lemma result_rows_strip:
  "fst (result_rows (tz_strip t) birth ga ms) = fst (result_rows t birth ga ms)"
proof (induction ms arbitrary: t)
  case Nil
  then show ?case by simp
next
  case (Cons m ms)
  have "tz_strip (snd (classify_row (tz_strip t) birth ga m)) = tz_strip (snd (classify_row t birth ga m))"
    by (simp add: classify_row_fields tz_strip_exceeds(2,4))
  then have "fst (result_rows (snd (classify_row (tz_strip t) birth ga m)) birth ga ms) =
             fst (result_rows (snd (classify_row t birth ga m)) birth ga ms)"
    by (metis Cons.IH)
  then show ?case
    by (simp add: result_rows_Cons classify_row_strip)
qed

lemma result_rows_all_strip:
  assumes "\<And>t m. m \<in> set ms \<Longrightarrow> tz_strip t = tz_strip tz \<Longrightarrow> P (fst (classify_row t birth ga m))"
  shows "\<forall>r \<in> set (fst (result_rows tz birth ga ms)). P r"
  using assms
proof (induction ms arbitrary: tz)
  case Nil
  then show ?case by simp
next
  case (Cons m ms)
  have "tz_strip (snd (classify_row tz birth ga m)) = tz_strip tz"
    by (simp add: classify_row_fields tz_strip_exceeds(2))
  with Cons.prems have "\<forall>r \<in> set (fst (result_rows (snd (classify_row tz birth ga m)) birth ga ms)). P r"
    by (intro Cons.IH) auto
  with Cons.prems show ?case
    by (simp add: result_rows_Cons)
qed

lemma classify_row_same_table:
  assumes "tz_strip t = tz_strip tz"
  shows "fst (treatmentZone_exceeds t h l ga) = fst (treatmentZone_exceeds tz h l ga)"
    and "tier_placement (snd (treatmentZone_exceeds t h l ga)) c = tier_placement tz c"
proof -
  show "fst (treatmentZone_exceeds t h l ga) = fst (treatmentZone_exceeds tz h l ga)"
    by (metis assms tz_strip_exceeds(1))
  show "tier_placement (snd (treatmentZone_exceeds t h l ga)) c = tier_placement tz c"
    by (metis assms tz_strip_exceeds(2,3))
qed

lemma getBiliResults_row_cases:
  assumes "r \<in> set (snd (fst (getBiliResults tz p serum poc tclab)))"
  obtains t m where "tz_strip t = tz_strip tz" "r = fst (classify_row t (birthDateTime p) (birthGA p) m)"
proof -
  have "\<forall>r \<in> set (fst (result_rows tz (birthDateTime p) (birthGA p) (rev (sortedResults serum poc tclab)))).
          \<exists>t m. tz_strip t = tz_strip tz \<and> r = fst (classify_row t (birthDateTime p) (birthGA p) m)"
    by (intro result_rows_all_strip) blast
  with assms that show ?thesis by (auto simp: getBiliResults_rows)
qed

lemma riskZone_zone_defined:
  "zone_placement riskZone (riskZone_exceeds riskZone h l) \<noteq> None \<longleftrightarrow> 12 \<le> h"
proof (cases "h < 12")
  case True
  then show ?thesis by (simp add: riskZone_exceeds_before zone_placement_def)
next
  case False
  then obtain T where T: "riskZone_exceeds riskZone h l =
      rz_scan_code riskZone (first_from (\<lambda>i. js_ge l (T i)) (length (rz_series riskZone) - 1) 1)"
    using riskZone_exceeds_scan [of h riskZone] by auto
  have "0 \<le> riskZone_exceeds riskZone h l \<and> riskZone_exceeds riskZone h l \<le> 3"
    unfolding T using rz_scan_code_range [OF riskZone_wf_lemma] by simp
  with False show ?thesis by (auto simp: zone_placement_def)
qed

lemma classify_loop_from:
  assumes "k \<le> length sr"
  shows "while_option (\<lambda>(i, rows, tz). 0 \<le> i)
          (\<lambda>(i, rows, tz). let (row, tz') = classify_row tz birth ga (sr ! nat i) in (i - 1, rows @ [row], tz'))
          (int k - 1, acc, t)
         = Some (-1, acc @ fst (result_rows t birth ga (rev (take k sr))),
                 snd (result_rows t birth ga (rev (take k sr))))"
  using assms
proof (induction k arbitrary: acc t)
  case 0
  then show ?case by (simp add: while_option_unfold [of _ _ "(-1, acc, t)"])
next
  case (Suc k)
  let ?b = "\<lambda>(i, rows, tz). 0 \<le> i"
  let ?c = "\<lambda>(i, rows, tz). let (row, tz') = classify_row tz birth ga (sr ! nat i) in (i - 1, rows @ [row], tz')"
  have k: "k < length sr" using Suc.prems by simp
  have r: "rev (take (Suc k) sr) = sr ! k # rev (take k sr)"
    using k by (simp add: take_Suc_conv_app_nth)
  have step: "while_option ?b ?c (int (Suc k) - 1, acc, t) =
      while_option ?b ?c (int k - 1, acc @ [fst (classify_row t birth ga (sr ! k))], snd (classify_row t birth ga (sr ! k)))"
    by (subst while_option_unfold) (simp add: case_prod_beta)
  show ?case
    unfolding step Suc.IH [OF Suc_leD [OF Suc.prems]] r result_rows_Cons by simp
qed

section \<open>Properties of the classification pass\<close>

text \<open>
  C15. The rows come out newest first: their draw times are non-increasing,
  whatever the order of the three input lists.
\<close>

theorem getBiliResults_newest_first:
  "sorted_wrt (\<ge>) (map row_drawtime (snd (fst (getBiliResults tz p serum poc tclab))))"
proof -
  have "map row_drawtime (snd (fst (getBiliResults tz p serum poc tclab))) =
        rev (map m_drawtime (sortedResults serum poc tclab))"
    by (simp add: getBiliResults_rows result_rows_project classify_row_fields rev_map)
  then show ?thesis
    using sortedResults_sorted [of serum poc tclab] by (simp add: sorted_wrt_rev)
qed

text \<open>
  C16. Every input result gives exactly one row, with its draw time, level and
  method: the rows are a permutation of the three lists tagged with their
  methods.
\<close>

theorem getBiliResults_rows_permutation:
  "mset (map (\<lambda>r. (row_drawtime r, row_level r, row_method r)) (snd (fst (getBiliResults tz p serum poc tclab)))) =
   mset (map (\<lambda>r. (lr_drawtime r, lr_level r, Serum)) serum @
         map (\<lambda>r. (lr_drawtime r, lr_level r, POC)) poc @
         map (\<lambda>r. (lr_drawtime r, lr_level r, Transcut)) tclab)"
proof -
  let ?g = "\<lambda>m. (m_drawtime m, m_level m, m_method m)"
  let ?ms = "addMethod2 serum Serum @ addMethod2 poc POC @ addMethod2 tclab Transcut"
  have "map (\<lambda>r. (row_drawtime r, row_level r, row_method r)) (snd (fst (getBiliResults tz p serum poc tclab))) =
        map ?g (rev (sortedResults serum poc tclab))"
    by (simp add: getBiliResults_rows result_rows_project classify_row_fields)
  then have "mset (map (\<lambda>r. (row_drawtime r, row_level r, row_method r)) (snd (fst (getBiliResults tz p serum poc tclab)))) =
        image_mset ?g (mset (sortedResults serum poc tclab))"
    by (simp only: mset_map mset_rev)
  also have "\<dots> = image_mset ?g (mset ?ms)"
    by (simp only: sortedResults_mset)
  also have "\<dots> = mset (map ?g ?ms)"
    by (simp only: mset_map)
  also have "map ?g ?ms = map (\<lambda>r. (lr_drawtime r, lr_level r, Serum)) serum @
         map (\<lambda>r. (lr_drawtime r, lr_level r, POC)) poc @
         map (\<lambda>r. (lr_drawtime r, lr_level r, Transcut)) tclab"
    by (simp add: addMethod2_map)
  finally show ?thesis .
qed

text \<open>
  C18. \<open>toFixed(1)\<close> moves the age by at most three minutes: the age used for
  classification is within 0.05 hours of the exact age.
\<close>

theorem age_hours_rounding:
  "\<bar>age_hours birth drawtime - of_int (drawtime - birth) / 3600000\<bar> \<le> 1 / 20"
  unfolding age_hours_def by (rule js_toFixed1_bound)

text \<open>
  C19. The advisory "the Bhutani nomogram does not define risk under 35
  weeks" is never emitted: every gestational age under 35 weeks already fails
  the first test, so the \<open>else if\<close> branch is dead.
\<close>

theorem bhutani_advisory_never_below35: "bhutani_advisory ga weight \<noteq> Some UndefinedBelow35"
  by (simp add: bhutani_advisory_def)

text \<open>
  C20. In every zone the follow-up cell is "(Not applicable under 35 weeks)"
  exactly for gestational ages under 35 weeks and for exactly 38 weeks: the
  young branch requires \<open>GA < 38\<close> and the other \<open>GA > 38\<close>, so an infant
  born at 38w0d falls through to the under-35 text.
\<close>

theorem followup_not_applicable_iff:
  "addRiskToTableRow z ga = NotApplicable \<longleftrightarrow> ga < 35 \<or> ga = 38"
  by (auto simp: addRiskToTableRow_def)

text \<open>
  C21. The advice with risk factors for infants over 38 weeks is the advice
  without risk factors for infants of 35 to 37 weeks 6 days, in every zone, as
  the comment on the table intends.
\<close>

theorem followup_risk_factors_shift:
  assumes "38 < ga" "35 \<le> ga'" "ga' < 38"
  shows "with_rf (addRiskToTableRow z ga) = without_rf (addRiskToTableRow z ga')"
  using assms by (cases z) (simp_all add: addRiskToTableRow_def followupRecommendations_def)

theorem followup_risk_factors_shift_witness:
  "38 < (39::real) \<and> 35 \<le> (36::real) \<and> (36::real) < 38 \<and>
   with_rf (addRiskToTableRow High 39) = without_rf (addRiskToTableRow High 36)"
  using followup_risk_factors_shift [of 39 36 High] by simp

text \<open>
  C22. The classification loop, which counts its index down from the last
  sorted result to 0, always terminates, and the rows and the table it leaves
  are exactly those of \<open>result_rows\<close> over the reversed sorted list.
\<close>

theorem classify_loop_terminates:
  "classify_loop tz birth ga sr = Some (result_rows tz birth ga (rev sr))"
  using classify_loop_from [of "length sr" sr birth ga "[]" tz]
  by (simp add: classify_loop_def)

text \<open>
  C23. The zone switch of the loop is exhaustive on what \<open>riskZone.exceeds\<close>
  returns: every row of \<open>getBiliResults\<close> has a risk zone exactly when its
  age is 12 hours or more (before, \<open>exceeds\<close> returns \<open>undefined\<close>, which no
  case decodes, and the zone cells are left out).
\<close>

theorem getBiliResults_zone_defined:
  "list_all (\<lambda>r. row_zone r \<noteq> None \<longleftrightarrow> 12 \<le> row_hours r) (snd (fst (getBiliResults tz p serum poc tclab)))"
proof -
  have "\<forall>r \<in> set (fst (result_rows tz (birthDateTime p) (birthGA p) (rev (sortedResults serum poc tclab)))).
          row_zone r \<noteq> None \<longleftrightarrow> 12 \<le> row_hours r"
    by (rule result_rows_all_strip) (simp only: classify_row_fields riskZone_zone_defined)
  then show ?thesis by (simp add: getBiliResults_rows list_all_iff)
qed

end
