(* ===== verification/Input_Format.thy ===== *)
theory Input_Format
  imports Bili_Prelude
begin

text \<open>
  The text conversions \<open>getBiliResults\<close> applies to the EMR page
  (\<open>src/biligram.js\<close> lines 273--398): \<open>translateData\<close> turns the rows of a
  lab table into draw-time strings and \<open>parseFloat\<close> levels,
  \<open>translatePhotoTherapy\<close> returns the phototherapy periods (none),
  \<open>stickAColonInIt\<close> turns a birth time such as \<open>0023\<close> into \<open>00:23\<close>, and
  \<open>convertWholePlusFrac\<close> turns a gestational age such as \<open>36 6/7\<close> into
  the number \<open>36.857...\<close>.  The JavaScript built-ins they call are modelled as
  far as they use them: \<open>String.prototype.split\<close> on one character
  (\<open>js_split\<close>), \<open>slice\<close> (\<open>take\<close>/\<open>drop\<close>, which clamp as \<open>slice\<close>
  does), \<open>parseInt\<close> without a radix (leading white space, a sign, the
  \<open>0x\<close> prefix, the longest digit prefix, \<open>NaN\<close> when there is none),
  \<open>parseFloat\<close> (sign, \<open>Infinity\<close>, digits, fraction, exponent) and the
  \<open>+\<close> and \<open>/\<close> of numbers with \<open>NaN\<close> and the infinities (\<open>jsnum\<close>).  Strings are byte strings: only
  ASCII white space is recognised.  \<open>string_of_nat\<close> prints a number in
  decimal; it is the specification side of the parse/print round trip.
\<close>

section \<open>Data\<close>

datatype jsnum = Num real | NaN | Infinity bool

section \<open>JavaScript built-ins\<close>

fun js_split :: "char \<Rightarrow> string \<Rightarrow> string list" where
  "js_split c [] = [[]]"
| "js_split c (x # xs) =
     (if x = c then [] # js_split c xs
      else (case js_split c xs of w # ws \<Rightarrow> (x # w) # ws | [] \<Rightarrow> [[x]]))"

definition js_whitespace :: "char \<Rightarrow> bool" where
  "js_whitespace c \<longleftrightarrow> c \<in> {CHR '' '', CHR 0x09, CHR 0x0A, CHR 0x0B, CHR 0x0C, CHR 0x0D}"

definition dec_digit :: "char \<Rightarrow> nat option" where
  "dec_digit c = (let n = of_char c in if 48 \<le> n \<and> n \<le> 57 then Some (n - 48) else None)"

definition hex_digit :: "char \<Rightarrow> nat option" where
  "hex_digit c =
     (let n = of_char c in
      if 48 \<le> n \<and> n \<le> 57 then Some (n - 48)
      else if 97 \<le> n \<and> n \<le> 102 then Some (n - 87)
      else if 65 \<le> n \<and> n \<le> 70 then Some (n - 55)
      else None)"

fun digit_run :: "(char \<Rightarrow> nat option) \<Rightarrow> string \<Rightarrow> nat list" where
  "digit_run val [] = []"
| "digit_run val (c # cs) = (case val c of Some d \<Rightarrow> d # digit_run val cs | None \<Rightarrow> [])"

definition digits_value :: "nat \<Rightarrow> nat list \<Rightarrow> nat" where
  "digits_value base ds = foldl (\<lambda>acc d. acc * base + d) 0 ds"

definition parseInt :: "string \<Rightarrow> jsnum" where
  "parseInt str =
     (let s = dropWhile js_whitespace str;
          sign = (if s \<noteq> [] \<and> hd s = CHR ''-'' then -1 else 1 :: real);
          s = (if s \<noteq> [] \<and> (hd s = CHR ''-'' \<or> hd s = CHR ''+'') then tl s else s);
          hex = (take 2 s = ''0x'' \<or> take 2 s = ''0X'');
          ds = (if hex then digit_run hex_digit (drop 2 s) else digit_run dec_digit s)
      in if ds = [] then NaN else Num (sign * of_nat (digits_value (if hex then 16 else 10) ds)))"

fun js_add :: "jsnum \<Rightarrow> jsnum \<Rightarrow> jsnum" where
  "js_add (Num a) (Num b) = Num (a + b)"
| "js_add (Num a) (Infinity s) = Infinity s"
| "js_add (Infinity s) (Num b) = Infinity s"
| "js_add (Infinity s) (Infinity s') = (if s = s' then Infinity s else NaN)"
| "js_add _ _ = NaN"

fun js_div :: "jsnum \<Rightarrow> jsnum \<Rightarrow> jsnum" where
  "js_div (Num a) (Num b) =
     (if b = 0 then (if a = 0 then NaN else Infinity (0 < a)) else Num (a / b))"
| "js_div (Num a) (Infinity s) = Num 0"
| "js_div (Infinity s) (Num b) = (if b = 0 then Infinity s else Infinity (s = (0 < b)))"
| "js_div _ _ = NaN"

definition exponent_part :: "string \<Rightarrow> int" where
  "exponent_part r =
     (if r \<noteq> [] \<and> (hd r = CHR ''e'' \<or> hd r = CHR ''E'') then
        (let t = tl r;
             neg = (t \<noteq> [] \<and> hd t = CHR ''-'');
             t = (if t \<noteq> [] \<and> (hd t = CHR ''-'' \<or> hd t = CHR ''+'') then tl t else t);
             ds = digit_run dec_digit t
         in if ds = [] then 0
            else if neg then - int (digits_value 10 ds) else int (digits_value 10 ds))
      else 0)"

definition parseFloat :: "string \<Rightarrow> jsnum" where
  "parseFloat str =
     (let s = dropWhile js_whitespace str;
          neg = (s \<noteq> [] \<and> hd s = CHR ''-'');
          s = (if s \<noteq> [] \<and> (hd s = CHR ''-'' \<or> hd s = CHR ''+'') then tl s else s);
          sign = (if neg then -1 else 1 :: real)
      in if take 8 s = ''Infinity'' then Infinity (\<not> neg)
         else
           (let ip = digit_run dec_digit s;
                r = drop (length ip) s;
                dot = (r \<noteq> [] \<and> hd r = CHR ''.'');
                fp = (if dot then digit_run dec_digit (tl r) else []);
                r = (if dot then drop (length fp) (tl r) else r)
            in if ip = [] \<and> fp = [] then NaN
               else Num (sign * (of_nat (digits_value 10 ip) + of_nat (digits_value 10 fp) / 10 ^ length fp)
                         * 10 powi exponent_part r)))"

section \<open>Operations of \<open>getBiliResults\<close>\<close>

text \<open>\<open>translateData\<close> (lines 271--284): the rows of a lab table, each the
  \<open>innerText\<close> of its cells; a row without two cells makes \<open>cells[k].innerText\<close>
  throw a \<open>TypeError\<close> (\<open>None\<close>).\<close>

record raw_result =
  raw_drawtime :: string
  raw_level :: jsnum

fun translate_rows :: "nat \<Rightarrow> string list list \<Rightarrow> raw_result list option" where
  "translate_rows index [] = Some []"
| "translate_rows index (cells # rows) =
     (if 1 < index then
        (if 2 \<le> length cells
         then map_option (\<lambda>data. \<lparr>raw_drawtime = cells ! 0, raw_level = parseFloat (cells ! 1)\<rparr> # data)
                (translate_rows (Suc index) rows)
         else None)
      else translate_rows (Suc index) rows)"

definition translateData :: "string list list \<Rightarrow> raw_result list option" where
  "translateData rows = translate_rows 0 rows"

text \<open>\<open>translatePhotoTherapy\<close> (lines 292--325) returns \<open>undefined\<close> when the
  text area is missing and otherwise its local \<open>data\<close> array, which nothing
  is ever pushed onto (the push is commented out); the regular-expression
  rewriting of the text only changes a local variable and is not part of the
  result.\<close>

record phototherapy_entry =
  starttime :: string
  pt_method :: string

definition translatePhotoTherapy :: "string option \<Rightarrow> phototherapy_entry list option" where
  "translatePhotoTherapy phototherapyOutput =
     (case phototherapyOutput of None \<Rightarrow> None | Some _ \<Rightarrow> Some [])"

definition stickAColonInIt :: "string \<Rightarrow> string" where
  "stickAColonInIt time =
     (if CHR '':'' \<in> set time then time
      else if length time = 4 then take 2 time @ '':'' @ take 2 (drop 2 time)
      else take 1 time @ '':'' @ take 2 (drop 1 time))"

definition convertWholePlusFrac :: "string \<Rightarrow> string + jsnum" where
  "convertWholePlusFrac birthGA =
     (let wholePlusFrac = js_split CHR '' '' birthGA
      in if 1 < length wholePlusFrac then
           (let frac = js_split CHR ''/'' (wholePlusFrac ! 1);
                whole = parseInt (wholePlusFrac ! 0)
            in Inr (js_add whole
                     (js_div (parseInt (frac ! 0))
                        (parseInt (if 1 < length frac then frac ! 1 else ''undefined'')))))
         else Inl birthGA)"

section \<open>Specification: decimal printing\<close>

definition digit_char :: "nat \<Rightarrow> char" where
  "digit_char d = ''0123456789'' ! d"

fun nat_digits :: "nat \<Rightarrow> nat list" where
  "nat_digits n = (if n < 10 then [n] else nat_digits (n div 10) @ [n mod 10])"

fun string_of_nat :: "nat \<Rightarrow> string" where
  "string_of_nat n = (if n < 10 then [digit_char n] else string_of_nat (n div 10) @ [digit_char (n mod 10)])"

declare nat_digits.simps [simp del] string_of_nat.simps [simp del]

section \<open>Specification: the end of a printed number\<close>

text \<open>What may follow a printed number so that it is not continued: no
  digit, and no \<open>x\<close> that would make \<open>0x\<close> a hex prefix (\<open>parseInt\<close>),
  or no exponent marker (\<open>parseFloat\<close>).\<close>

definition num_end :: "string \<Rightarrow> bool" where
  "num_end r \<longleftrightarrow> r = [] \<or> (dec_digit (hd r) = None \<and> hd r \<noteq> CHR ''x'' \<and> hd r \<noteq> CHR ''X'')"

definition float_end :: "string \<Rightarrow> bool" where
  "float_end r \<longleftrightarrow> r = [] \<or> (dec_digit (hd r) = None \<and> hd r \<noteq> CHR ''e'' \<and> hd r \<noteq> CHR ''E'')"

section \<open>Lemmas\<close>

lemma digit_lt10_cases:
  "d < (10::nat) \<Longrightarrow> d = 0 \<or> d = 1 \<or> d = 2 \<or> d = 3 \<or> d = 4 \<or> d = 5 \<or> d = 6 \<or> d = 7 \<or> d = 8 \<or> d = 9"
  by presburger

lemma dec_digit_char: "d < 10 \<Longrightarrow> dec_digit (digit_char d) = Some d"
  using digit_lt10_cases [of d] by (auto simp: dec_digit_def digit_char_def)

lemma digit_char_props:
  assumes "d < 10"
  shows "\<not> js_whitespace (digit_char d)" "digit_char d \<noteq> CHR ''-''" "digit_char d \<noteq> CHR ''+''"
    "digit_char d \<noteq> CHR '' ''" "digit_char d \<noteq> CHR ''/''" "digit_char d \<noteq> CHR ''x''"
    "digit_char d \<noteq> CHR ''X''" "digit_char d \<noteq> CHR '':''"
  using digit_lt10_cases [OF assms] by (auto simp: js_whitespace_def digit_char_def)

lemma string_of_nat_unfold:
  "n < 10 \<Longrightarrow> string_of_nat n = [digit_char n]"
  "\<not> n < 10 \<Longrightarrow> string_of_nat n = string_of_nat (n div 10) @ [digit_char (n mod 10)]"
  by (simp_all add: string_of_nat.simps [of n])

lemma nat_digits_unfold:
  "n < 10 \<Longrightarrow> nat_digits n = [n]"
  "\<not> n < 10 \<Longrightarrow> nat_digits n = nat_digits (n div 10) @ [n mod 10]"
  by (simp_all add: nat_digits.simps [of n])

lemma string_of_nat_ne: "string_of_nat n \<noteq> []"
  by (cases "n < 10") (simp_all add: string_of_nat_unfold)

lemma string_of_nat_chars: "c \<in> set (string_of_nat n) \<Longrightarrow> \<exists>d<10. c = digit_char d"
proof (induction n rule: string_of_nat.induct)
  case (1 n)
  show ?case
  proof (cases "n < 10")
    case True
    with "1.prems" show ?thesis by (auto simp: string_of_nat_unfold)
  next
    case False
    with "1.prems" have "c \<in> set (string_of_nat (n div 10)) \<or> c = digit_char (n mod 10)"
      by (auto simp: string_of_nat_unfold)
    then show ?thesis
    proof
      assume "c = digit_char (n mod 10)"
      then show ?thesis by (intro exI [of _ "n mod 10"]) simp
    qed (rule "1.IH" [OF False])
  qed
qed

lemma digit_run_string_of_nat:
  "digit_run dec_digit (string_of_nat n @ r) = nat_digits n @ digit_run dec_digit r"
proof (induction n arbitrary: r rule: string_of_nat.induct)
  case (1 n)
  show ?case
  proof (cases "n < 10")
    case True
    then show ?thesis by (simp add: dec_digit_char string_of_nat_unfold nat_digits_unfold)
  next
    case False
    then show ?thesis using "1.IH" [OF False, of "digit_char (n mod 10) # r"]
      by (simp add: dec_digit_char string_of_nat_unfold nat_digits_unfold)
  qed
qed

lemma digits_value_snoc: "digits_value b (xs @ [x]) = digits_value b xs * b + x"
  by (simp add: digits_value_def)

lemma digits_value_nat_digits: "digits_value 10 (nat_digits n) = n"
proof (induction n rule: nat_digits.induct)
  case (1 n)
  then show ?case
    by (cases "n < 10") (simp_all add: nat_digits_unfold digits_value_snoc, simp add: digits_value_def)
qed

lemma nat_digits_ne: "nat_digits n \<noteq> []"
  by (cases "n < 10") (simp_all add: nat_digits_unfold)

lemma string_of_nat_hd: "\<exists>d<10. \<exists>cs. string_of_nat n = digit_char d # cs"
  using string_of_nat_ne string_of_nat_chars by (metis list.set_intros(1) neq_Nil_conv)

lemma js_split_free: "c \<notin> set s \<Longrightarrow> js_split c s = [s]"
  by (induction s) auto

lemma js_split_append: "c \<notin> set s1 \<Longrightarrow> js_split c (s1 @ c # s2) = s1 # js_split c s2"
  by (induction s1) (auto split: list.split)

lemma take2_second: "take 2 xs = [a, b] \<Longrightarrow> xs ! 1 = b"
  by (metis One_nat_def lessI nth_Cons_0 nth_Cons_Suc nth_take numeral_2_eq_2)

lemma string_of_nat_second:
  assumes "num_end r" "take 2 (string_of_nat n @ r) = [a, b]"
  shows "b \<noteq> CHR ''x'' \<and> b \<noteq> CHR ''X''"
proof -
  obtain d cs where d: "d < 10" and s: "string_of_nat n = digit_char d # cs"
    using string_of_nat_hd by blast
  have b: "(digit_char d # cs @ r) ! 1 = b"
    using take2_second [OF assms(2)] s by simp
  show ?thesis
  proof (cases cs)
    case Nil
    with b assms(2) s have "r \<noteq> []" "hd r = b"
      by (cases r; simp)+
    with assms(1) show ?thesis by (auto simp: num_end_def)
  next
    case (Cons c cs')
    then have "c \<in> set (string_of_nat n)" using s by simp
    then obtain e where "e < 10" "c = digit_char e" using string_of_nat_chars by blast
    with b Cons show ?thesis using digit_char_props(6,7) [of e] by simp
  qed
qed

lemma digit_run_num_end: "num_end r \<Longrightarrow> digit_run dec_digit r = []"
  by (cases r) (auto simp: num_end_def)

lemma string_of_nat_head:
  "string_of_nat n @ r \<noteq> [] \<and> \<not> js_whitespace (hd (string_of_nat n @ r))
   \<and> hd (string_of_nat n @ r) \<noteq> CHR ''-'' \<and> hd (string_of_nat n @ r) \<noteq> CHR ''+''"
proof -
  obtain d cs where "d < 10" and "string_of_nat n = digit_char d # cs"
    using string_of_nat_hd by blast
  then show ?thesis by (simp add: digit_char_props)
qed

lemma string_of_nat_not_hex:
  "num_end r \<Longrightarrow> take 2 (string_of_nat n @ r) \<noteq> ''0x'' \<and> take 2 (string_of_nat n @ r) \<noteq> ''0X''"
  using string_of_nat_second [of r n "CHR ''0''"] by auto

lemma dropWhile_string_of_nat: "dropWhile js_whitespace (string_of_nat n @ r) = string_of_nat n @ r"
  using string_of_nat_head [of n r] by (cases "string_of_nat n @ r") auto

lemma parseInt_string_of_nat:
  assumes "num_end r"
  shows "parseInt (string_of_nat n @ r) = Num (of_nat n)"
  unfolding parseInt_def Let_def dropWhile_string_of_nat
  using string_of_nat_not_hex [OF assms, of n] string_of_nat_head [of n r]
  by (simp add: digit_run_string_of_nat digit_run_num_end [OF assms] nat_digits_ne
      digits_value_nat_digits)

lemma string_of_nat_no_sep: "CHR '' '' \<notin> set (string_of_nat n)" "CHR ''/'' \<notin> set (string_of_nat n)"
    "CHR '':'' \<notin> set (string_of_nat n)"
proof -
  have "c \<noteq> CHR '' '' \<and> c \<noteq> CHR ''/'' \<and> c \<noteq> CHR '':''" if "c \<in> set (string_of_nat n)" for c
  proof -
    from string_of_nat_chars [OF that] obtain d where "d < 10" "c = digit_char d" by blast
    then show ?thesis by (simp add: digit_char_props)
  qed
  then show "CHR '' '' \<notin> set (string_of_nat n)" "CHR ''/'' \<notin> set (string_of_nat n)"
    "CHR '':'' \<notin> set (string_of_nat n)" by blast+
qed

lemma num_float_end_Nil: "float_end []"
  by (simp add: float_end_def)

lemma num_end_Nil: "num_end []"
  by (simp add: num_end_def)

lemma translate_rows_data:
  "1 < index \<Longrightarrow> \<forall>cells\<in>set rows. 2 \<le> length cells \<Longrightarrow>
   translate_rows index rows = Some (map (\<lambda>cells. \<lparr>raw_drawtime = cells ! 0, raw_level = parseFloat (cells ! 1)\<rparr>) rows)"
  by (induction rows arbitrary: index) auto

lemma translate_rows_short:
  "1 < index \<Longrightarrow> k < length rows \<Longrightarrow> length (rows ! k) < 2 \<Longrightarrow> translate_rows index rows = None"
proof (induction rows arbitrary: index k)
  case (Cons cells rows)
  then show ?case by (cases k) auto
qed simp

lemma length_nat_digits: "length (nat_digits n) = length (string_of_nat n)"
proof (induction n rule: nat_digits.induct)
  case (1 n)
  then show ?case by (cases "n < 10") (simp_all add: nat_digits_unfold string_of_nat_unfold)
qed

lemma float_end_digit_run: "float_end r \<Longrightarrow> digit_run dec_digit r = []"
  by (cases r) (auto simp: float_end_def)

lemma float_end_exponent: "float_end r \<Longrightarrow> exponent_part r = 0"
  by (auto simp: float_end_def exponent_part_def)

lemma parseFloat_string_of_nat:
  assumes "float_end r" and "sg = [] \<or> sg = ''-''"
  shows "parseFloat (sg @ string_of_nat w @ CHR ''.'' # string_of_nat f @ r)
           = Num ((if sg = [] then 1 else -1) * (of_nat w + of_nat f / 10 ^ length (string_of_nat f)))"
proof -
  obtain d cs where d: "d < 10" and s: "string_of_nat w = digit_char d # cs"
    using string_of_nat_hd by blast
  let ?s = "string_of_nat w @ CHR ''.'' # string_of_nat f @ r"
  have dot: "dec_digit CHR ''.'' = None" by (simp add: dec_digit_def)
  have inf: "take 8 ?s \<noteq> ''Infinity''"
    using s d digit_lt10_cases [of d] by (auto simp: digit_char_def)
  have ip: "digit_run dec_digit ?s = nat_digits w"
    by (simp add: digit_run_string_of_nat dot)
  have fp: "digit_run dec_digit (string_of_nat f @ r) = nat_digits f"
    by (simp add: digit_run_string_of_nat float_end_digit_run [OF assms(1)])
  have rest: "drop (length (nat_digits w)) ?s = CHR ''.'' # string_of_nat f @ r"
    by (simp add: length_nat_digits)
  have rest2: "drop (length (nat_digits f)) (string_of_nat f @ r) = r"
    by (simp add: length_nat_digits)
  have neg: "dropWhile js_whitespace (CHR ''-'' # ?s) = CHR ''-'' # ?s"
    by (simp add: js_whitespace_def)
  from assms(2) show ?thesis
  proof
    assume sg: "sg = []"
    have "parseFloat ?s = Num (of_nat w + of_nat f / 10 ^ length (string_of_nat f))"
      unfolding parseFloat_def Let_def dropWhile_string_of_nat
      using string_of_nat_head [of w] inf nat_digits_ne [of w]
      by (simp add: ip rest fp rest2 float_end_exponent [OF assms(1)] digits_value_nat_digits
          length_nat_digits)
    with sg show ?thesis by simp
  next
    assume sg: "sg = ''-''"
    have "parseFloat (CHR ''-'' # ?s) = Num (- (of_nat w + of_nat f / 10 ^ length (string_of_nat f)))"
      unfolding parseFloat_def Let_def neg
      using inf nat_digits_ne [of w]
      by (simp add: ip rest fp rest2 float_end_exponent [OF assms(1)] digits_value_nat_digits
          length_nat_digits)
    with sg show ?thesis by simp
  qed
qed

lemma parseFloat_leading_ws: "\<forall>c\<in>set ws. js_whitespace c \<Longrightarrow> parseFloat (ws @ s) = parseFloat s"
  by (simp add: parseFloat_def)

lemma js_split_ne: "js_split c s \<noteq> []"
  by (induction s) (auto split: list.split)

lemma js_add_NaN: "js_add NaN x = NaN"
  by (cases x) simp_all

lemma translatePhotoTherapy_no_data: "translatePhotoTherapy v = None \<or> translatePhotoTherapy v = Some []"
  by (cases v) (simp_all add: translatePhotoTherapy_def)

section \<open>Properties\<close>

text \<open>
  C25. \<open>translateData\<close> skips the first two rows of a lab table, whatever
  they hold (its comment says only the header row is skipped), and turns each
  further row into its first cell as the draw time and \<open>parseFloat\<close> of its
  second cell as the level.
\<close>

theorem translateData_skips_two_rows:
  assumes "\<forall>cells\<in>set rows. 2 \<le> length cells"
  shows "translateData (h1 # h2 # rows)
           = Some (map (\<lambda>cells. \<lparr>raw_drawtime = cells ! 0, raw_level = parseFloat (cells ! 1)\<rparr>) rows)"
  using translate_rows_data [of 2 rows] assms by (simp add: translateData_def numeral_2_eq_2)

theorem translateData_skips_two_rows_witness:
  "translateData [[''Component''], [''Date'', ''Value''], [''6/4/16 12:02'', ''11.1*'']]
       = Some [\<lparr>raw_drawtime = ''6/4/16 12:02'', raw_level = parseFloat ''11.1*''\<rparr>]"
  using translateData_skips_two_rows [of "[[''6/4/16 12:02'', ''11.1*'']]" "[''Component'']" "[''Date'', ''Value'']"]
  by simp

text \<open>
  C26. A data row (from the third on) with fewer than two cells makes
  \<open>translateData\<close> fail: \<open>cells[1].innerText\<close> throws, modelled as \<open>None\<close>.
\<close>

theorem translateData_short_row:
  assumes "2 \<le> k" "k < length rows" "length (rows ! k) < 2"
  shows "translateData rows = None"
proof -
  have "Suc (Suc 0) \<le> length rows" using assms(1,2) by linarith
  then obtain h1 h2 rest where r: "rows = h1 # h2 # rest"
    by (auto simp: Suc_le_length_iff)
  have "translate_rows 2 rest = None"
  proof (rule translate_rows_short)
    show "k - 2 < length rest" "length (rest ! (k - 2)) < 2"
      using assms r by (simp_all add: nth_Cons' numeral_2_eq_2)
  qed simp
  then show ?thesis by (simp add: translateData_def r numeral_2_eq_2)
qed

theorem translateData_short_row_witness:
  "2 \<le> (2::nat) \<and> 2 < length [[''h''], [''h''], [''6/4/16'']] \<and> length ([[''h''], [''h''], [''6/4/16'']] ! 2) < 2
   \<and> translateData [[''h''], [''h''], [''6/4/16'']] = None"
  using translateData_short_row [of 2 "[[''h''], [''h''], [''6/4/16'']]"] by simp

text \<open>
  \<open>stickAColonInIt\<close> on a colon-free time of three or four characters
  inserts exactly one colon, before the last two characters (the minutes), and
  keeps every character of the input.
\<close>

theorem stickAColonInIt_colon:
  assumes "CHR '':'' \<notin> set t" "length t = 3 \<or> length t = 4"
  shows "filter (\<lambda>c. c \<noteq> CHR '':'') (stickAColonInIt t) = t
         \<and> drop (length t - 2) (stickAColonInIt t) = CHR '':'' # drop (length t - 2) t"
proof -
  have f: "filter (\<lambda>c. c \<noteq> CHR '':'') xs = xs" if "set xs \<subseteq> set t" for xs
    using assms(1) that by (auto simp: filter_id_conv)
  from assms(2) show ?thesis
  proof
    assume l: "length t = 3"
    then obtain a b c where "t = [a, b, c]"
      by (metis (no_types) length_0_conv length_Suc_conv numeral_3_eq_3)
    with assms(1) show ?thesis by (auto simp: stickAColonInIt_def)
  next
    assume l: "length t = 4"
    then obtain a b c e where "t = [a, b, c, e]"
      by (auto simp: numeral_eq_Suc length_Suc_conv)
    with assms(1) show ?thesis by (auto simp: stickAColonInIt_def)
  qed
qed

theorem stickAColonInIt_colon_witness:
  "CHR '':'' \<notin> set ''0023'' \<and> (length ''0023'' = 3 \<or> length ''0023'' = 4)
   \<and> filter (\<lambda>c. c \<noteq> CHR '':'') (stickAColonInIt ''0023'') = ''0023''
   \<and> drop (length ''0023'' - 2) (stickAColonInIt ''0023'') = CHR '':'' # drop (length ''0023'' - 2) ''0023''"
  using stickAColonInIt_colon [of "''0023''"] by simp

text \<open>
  C28. Parse/print round trip of the gestational age: the text
  \<open>w n/d\<close> printed in decimal is converted to the number w + n/d
  (e.g. \<open>36 6/7\<close> to 36.857...), for every positive denominator.
\<close>

theorem convertWholePlusFrac_roundtrip:
  assumes "0 < d"
  shows "convertWholePlusFrac (string_of_nat w @ '' '' @ string_of_nat n @ ''/'' @ string_of_nat d)
           = Inr (Num (of_nat w + of_nat n / of_nat d))"
proof -
  have sp: "js_split CHR '' '' (string_of_nat w @ CHR '' '' # string_of_nat n @ CHR ''/'' # string_of_nat d)
            = [string_of_nat w, string_of_nat n @ CHR ''/'' # string_of_nat d]"
    using js_split_append [of "CHR '' ''" "string_of_nat w"] js_split_free [of "CHR '' ''"]
    by (simp add: string_of_nat_no_sep)
  have sl: "js_split CHR ''/'' (string_of_nat n @ CHR ''/'' # string_of_nat d) = [string_of_nat n, string_of_nat d]"
    using js_split_append [of "CHR ''/''" "string_of_nat n"] js_split_free [of "CHR ''/''"]
    by (simp add: string_of_nat_no_sep)
  have p: "parseInt (string_of_nat k) = Num (of_nat k)" for k
    using parseInt_string_of_nat [OF num_end_Nil, of k] by simp
  show ?thesis
    unfolding convertWholePlusFrac_def Let_def append_Cons append_Nil sp
    using assms by (simp only: sl p nth_Cons_0 nth_Cons_Suc One_nat_def list.size; simp add: p)
qed

theorem convertWholePlusFrac_roundtrip_witness:
  "0 < (7::nat) \<and> convertWholePlusFrac (string_of_nat 36 @ '' '' @ string_of_nat 6 @ ''/'' @ string_of_nat 7)
     = Inr (Num (of_nat 36 + of_nat 6 / of_nat 7))"
  using convertWholePlusFrac_roundtrip [of 7 36 6] by simp

text \<open>
  C29. A gestational age with a leading space is always \<open>NaN\<close>: the split
  puts the empty string first, and \<open>parseInt('')\<close> is \<open>NaN\<close>.
\<close>

theorem convertWholePlusFrac_leading_space: "convertWholePlusFrac (CHR '' '' # s) = Inr NaN"
proof -
  obtain w ws where "js_split CHR '' '' s = w # ws"
    using js_split_ne [of "CHR '' ''" s] by (cases "js_split CHR '' '' s") auto
  then show ?thesis
    by (simp add: convertWholePlusFrac_def parseInt_def js_add_NaN)
qed

text \<open>
  C30. Print/parse round trip of the lab levels read by \<open>translateData\<close>:
  every data row whose level cell is a printed \<open>w.f\<close>, after any leading
  white space and followed by a non-numeric suffix (such as the asterisk of an
  out-of-range value), is read as the level w + f / 10^(digits of f).
\<close>

theorem translateData_levels_roundtrip:
  assumes "\<forall>c\<in>set ws. js_whitespace c" and "float_end r"
  shows "translateData (h1 # h2 # map (\<lambda>(dt, w, f). [dt, ws @ string_of_nat w @ CHR ''.'' # string_of_nat f @ r]) xs)
           = Some (map (\<lambda>(dt, w, f). \<lparr>raw_drawtime = dt,
                     raw_level = Num (of_nat w + of_nat f / 10 ^ length (string_of_nat f))\<rparr>) xs)"
proof -
  have "translate_rows 2 (map (\<lambda>(dt, w, f). [dt, ws @ string_of_nat w @ CHR ''.'' # string_of_nat f @ r]) xs)
          = Some (map (\<lambda>cells. \<lparr>raw_drawtime = cells ! 0, raw_level = parseFloat (cells ! 1)\<rparr>)
                   (map (\<lambda>(dt, w, f). [dt, ws @ string_of_nat w @ CHR ''.'' # string_of_nat f @ r]) xs))"
    by (rule translate_rows_data) auto
  also have "\<dots> = Some (map (\<lambda>(dt, w, f). \<lparr>raw_drawtime = dt,
                     raw_level = Num (of_nat w + of_nat f / 10 ^ length (string_of_nat f))\<rparr>) xs)"
    using parseFloat_leading_ws [OF assms(1)] parseFloat_string_of_nat [OF assms(2), of "[]"]
    by (auto simp: case_prod_beta)
  finally show ?thesis by (simp add: translateData_def numeral_2_eq_2)
qed

theorem translateData_levels_roundtrip_witness:
  "float_end ''*'' \<and>
   translateData ([''Component''] # [''Date'', ''Value''] # map (\<lambda>(dt, w, f). [dt, '' '' @ string_of_nat w @ CHR ''.'' # string_of_nat f @ ''*''])
       [(''6/4/16 12:02'', 11, 1)])
     = Some (map (\<lambda>(dt, w, f). \<lparr>raw_drawtime = dt,
                  raw_level = Num (of_nat w + of_nat f / 10 ^ length (string_of_nat f))\<rparr>) [(''6/4/16 12:02'', 11::nat, 1::nat)])"
  using translateData_levels_roundtrip [of "'' ''" "''*''" "[''Component'']" "[''Date'', ''Value'']" "[(''6/4/16 12:02'', 11, 1)]"]
  by (simp add: js_whitespace_def float_end_def dec_digit_def)

text \<open>
  A gestational age with a space but no fraction (\<open>36 6\<close>) divides by
  \<open>parseInt(undefined)\<close> and becomes \<open>NaN\<close>; reading the page adds no
  warning for it (see \<open>read_page\<close>).
\<close>

theorem convertWholePlusFrac_no_fraction: "convertWholePlusFrac ''36 6'' = Inr NaN"
  by (simp add: convertWholePlusFrac_def parseInt_def js_whitespace_def dec_digit_def)

end
