(* ===== verification/Chart_Series.thy ===== *)
theory Chart_Series
  imports Result_Classifier Input_Format
begin

text \<open>
  What \<open>src/biligram.js\<close> hands to Highcharts.  The classification loop of
  \<open>getBiliResults\<close> (lines 555--696) builds, beside each table row, a chart
  point (\<open>dataPoint\<close>, pushed onto the global \<open>resultsSeries\<close>): its \<open>x\<close> is
  the \<open>toFixed(1)\<close> age string, its marker shape follows the method, its
  outline colour and tooltip the risk zone (\<open>decorateDataPoint\<close>), its fill
  colour, radius and tooltip tail the treatment thresholds exceeded.
  \<open>renderChart\<close> (lines 810--1020) then builds \<open>chartOptions\<close> (titles, axes,
  the tooltip formatter, the default of no mouse tracking) and its series:
  the four risk-zone bands
  (\<open>addXCoordinatesWithRange\<close>), the six treatment lines
  (\<open>addXCoordinates\<close>), visible when the treatment table's flags were set by
  the loop, and the result points.  The main entry (lines 755--767) decides
  whether to render the chart.  Number-to-string conversion of a level
  (\<open>Number.prototype.toString\<close>) is a parameter \<open>num_str\<close> of the model;
  \<open>toFixed(1)\<close> is modelled for ages below 10^21 (larger ones print in
  exponent notation).
\<close>

section \<open>JavaScript built-ins\<close>

definition toFixed1 :: "real \<Rightarrow> string" where
  "toFixed1 x =
     (let n = nat \<lfloor>\<bar>x\<bar> * 10 + 1 / 2\<rfloor>
      in (if x < 0 then ''-'' else []) @ string_of_nat (n div 10) @ CHR ''.'' # [digit_char (n mod 10)])"

fun js_indexOf :: "string \<Rightarrow> string \<Rightarrow> int" where
  "js_indexOf [] pat = (if pat = [] then 0 else -1)"
| "js_indexOf (c # cs) pat =
     (if take (length pat) (c # cs) = pat then 0
      else (let r = js_indexOf cs pat in if r < 0 then -1 else r + 1))"

definition js_str_append :: "string option \<Rightarrow> string \<Rightarrow> string option" where
  "js_str_append s t = Some ((case s of None \<Rightarrow> ''undefined'' | Some u \<Rightarrow> u) @ t)"

section \<open>Data\<close>

record marker =
  mk_lineColor :: string
  mk_fillColor :: string
  mk_symbol :: string
  mk_radius :: "nat option"

record data_point =
  dp_x :: string
  dp_y :: mg_dl
  dp_marker :: marker
  dp_customTooltip :: "string option"
  dp_label_suffix :: string

record xy_point =
  pt_x :: hours
  pt_y :: mg_dl

record range_point =
  rp_x :: hours
  rp_low :: "mg_dl option"
  rp_high :: mg_dl

datatype series_data = RangeData "range_point list" | LineData "xy_point list" | PointData "data_point list"

record chart_series =
  cs_id :: "string option"
  cs_visible :: bool
  cs_enableMouseTracking :: "bool option"
  cs_data :: series_data

record chart_options =
  co_title_text :: string
  co_tickInterval :: hours
  co_minorTickInterval :: hours
  co_day_label :: "hours \<Rightarrow> real"
  co_yAxis_floor :: mg_dl
  co_tooltip :: "data_point \<Rightarrow> string option"
  co_enableMouseTracking :: bool
  co_series :: "chart_series list"

definition phototherapylineColor :: string where
  "phototherapylineColor = ''#1016FF''"

definition transfusionLineColor :: string where
  "transfusionLineColor = ''DarkViolet''"

section \<open>The chart point of a result\<close>

definition sickKidWarning :: string where
  \<open>sickKidWarning = ''with these risk factors: isoimmune disease, G6PD deficiency,<br> asphysxia, lethargy, temp instability, sepis, albumin < 3.0 g/dL (if measured)</span>''\<close>

definition youngKidWarning :: "real \<Rightarrow> string" where
  "youngKidWarning ga = (if ga < 38 then ''for infants 35w-37w6d GA'' else [])"

definition decorateDataPoint ::
  "(real \<Rightarrow> string) \<Rightarrow> data_point \<Rightarrow> string \<Rightarrow> mg_dl \<Rightarrow> string \<Rightarrow> string \<Rightarrow> string \<Rightarrow> data_point" where
  \<open>decorateDataPoint num_str dataPoint hours level method color description =
     dataPoint\<lparr>dp_customTooltip := Some (''<span style="font-size: 0.85em"><b>'' @ hours @
                  ''</b> hours of age &mdash; <b>'' @ num_str level @ ''</b> mg/dL ('' @ method @ '')</span><br/>'' @
                  ''<span style="color: '' @ color @ ''"> &#9673; </span>'' @ description @ '' risk zone''),
               dp_marker := (dp_marker dataPoint)\<lparr>mk_lineColor := color\<rparr>,
               dp_label_suffix := '' ('' @ description @ '' risk)''\<rparr>\<close>

primrec method_name :: "bili_method \<Rightarrow> string" where
  "method_name Serum = ''serum''"
| "method_name POC = ''POC''"
| "method_name Transcut = ''transcut''"

primrec markerShape :: "bili_method \<Rightarrow> string" where
  "markerShape Serum = ''circle''"
| "markerShape POC = ''diamond''"
| "markerShape Transcut = ''square''"

definition new_dataPoint :: "string \<Rightarrow> mg_dl \<Rightarrow> bili_method \<Rightarrow> data_point" where
  "new_dataPoint hours level method =
     \<lparr>dp_x = hours, dp_y = level,
      dp_marker = \<lparr>mk_lineColor = ''black'', mk_fillColor = ''black'', mk_symbol = markerShape method,
                   mk_radius = None\<rparr>,
      dp_customTooltip = None, dp_label_suffix = '' (low risk)''\<rparr>"

definition zone_decoration :: "rz_table \<Rightarrow> int \<Rightarrow> (string \<times> string) option" where
  "zone_decoration t placement =
     (if placement = rz_low t then Some (''green'', ''Low'')
      else if placement = rz_lowIntermediate t then Some (''yellow'', ''Low-intermediate'')
      else if placement = rz_highIntermediate t then Some (''orange'', ''High-intermediate'')
      else if placement = rz_high t then Some (''red'', ''High'')
      else None)"

definition photo_text :: "tz_table \<Rightarrow> real \<Rightarrow> int \<Rightarrow> string option" where
  \<open>photo_text t ga code =
     (if code = tz_high t then
        Some (''<br><span style="color: '' @ phototherapylineColor @ '';"> &#9673; </span>Exceeds phototherapy threshold for '' @
              youngKidWarning ga @ '' '' @ sickKidWarning)
      else if code = tz_medium t then
        Some (''<br><span style="color: '' @ phototherapylineColor @ '';"> &#9673; </span>Exceeds phototherapy threshold for 35-37w6d healthy, or 38w+ GA infants '' @
              sickKidWarning)
      else if code = tz_low t then
        Some (''<br><span style="color: '' @ phototherapylineColor @ '';"> &#9673; </span>Exceeds phototherapy threshold for 38+ infants who are well'')
      else None)\<close>

definition transfusion_text :: "tz_table \<Rightarrow> real \<Rightarrow> int \<Rightarrow> string option" where
  \<open>transfusion_text t ga code =
     (if code = tz_high t then
        Some (''<br><span style="color: '' @ transfusionLineColor @ ''"> &#9673; </span>Exceeds transfusion threshold for '' @
              youngKidWarning ga @ '' '' @ sickKidWarning)
      else if code = tz_medium t then
        Some (''<br><span style="color: '' @ transfusionLineColor @ ''"> &#9673; </span>Exceeds transfusion threshold for 35-37w6d healthy, or 38w+ GA infants with '' @
              sickKidWarning)
      else if code = tz_low t then
        Some (''<br><span style="color: '' @ transfusionLineColor @ ''"> &#9673; </span>Exceeds transfusion threshold for 38+ GA infants who are well'')
      else None)\<close>

definition mark_treatment :: "string \<Rightarrow> nat \<Rightarrow> string option \<Rightarrow> data_point \<Rightarrow> data_point" where
  "mark_treatment color radius text dataPoint =
     (case text of
        None \<Rightarrow> dataPoint
      | Some s \<Rightarrow> dataPoint\<lparr>dp_marker := (dp_marker dataPoint)\<lparr>mk_fillColor := color, mk_radius := Some radius\<rparr>,
                            dp_customTooltip := js_str_append (dp_customTooltip dataPoint) s\<rparr>)"

definition result_point ::
  "(real \<Rightarrow> string) \<Rightarrow> tz_table \<Rightarrow> millis \<Rightarrow> real \<Rightarrow> measurement \<Rightarrow> data_point \<times> tz_table" where
  "result_point num_str tz birth ga m =
     (let hoursStr = toFixed1 (of_int (m_drawtime m - birth) / 3600000);
          hours = age_hours birth (m_drawtime m);
          level = m_level m;
          riskZonePlacement = riskZone_exceeds riskZone hours level;
          (treatmentZoneExceeded, tz') = treatmentZone_exceeds tz hours level ga;
          dataPoint = new_dataPoint hoursStr level (m_method m);
          dataPoint = (case zone_decoration riskZone riskZonePlacement of
                         None \<Rightarrow> dataPoint
                       | Some (color, description) \<Rightarrow>
                           decorateDataPoint num_str dataPoint hoursStr level (method_name (m_method m))
                             color description);
          dataPoint = mark_treatment phototherapylineColor 5
                        (photo_text tz' ga (phototherapy treatmentZoneExceeded)) dataPoint;
          dataPoint = mark_treatment transfusionLineColor 6
                        (transfusion_text tz' ga (transfusion treatmentZoneExceeded)) dataPoint
      in (dataPoint, tz'))"

fun results_series ::
  "(real \<Rightarrow> string) \<Rightarrow> tz_table \<Rightarrow> millis \<Rightarrow> real \<Rightarrow> measurement list \<Rightarrow> data_point list \<times> tz_table" where
  "results_series num_str tz birth ga [] = ([], tz)"
| "results_series num_str tz birth ga (m # ms) =
     (let (dataPoint, tz') = result_point num_str tz birth ga m;
          (points, tz'') = results_series num_str tz' birth ga ms
      in (dataPoint # points, tz''))"

section \<open>The series of the chart\<close>

fun range_loop :: "mg_dl list \<Rightarrow> mg_dl list \<Rightarrow> hours \<Rightarrow> nat \<Rightarrow> hours \<Rightarrow> range_point list" where
  "range_loop lows [] interval i x = []"
| "range_loop lows (high # highs) interval i x =
     \<lparr>rp_x = x, rp_low = js_at lows (int i), rp_high = high\<rparr> # range_loop lows highs interval (Suc i) (x + interval)"

definition addXCoordinatesWithRange :: "mg_dl list \<Rightarrow> mg_dl list \<Rightarrow> hours \<Rightarrow> hours \<Rightarrow> range_point list" where
  "addXCoordinatesWithRange yLow yHigh interval startsAt = range_loop yLow yHigh interval 0 startsAt"

fun xy_loop :: "mg_dl list \<Rightarrow> hours \<Rightarrow> hours \<Rightarrow> xy_point list" where
  "xy_loop [] interval x = []"
| "xy_loop (y # ys) interval x = \<lparr>pt_x = x, pt_y = y\<rparr> # xy_loop ys interval (x + interval)"

definition addXCoordinates :: "mg_dl list \<Rightarrow> hours \<Rightarrow> hours \<Rightarrow> xy_point list" where
  "addXCoordinates yCoordinates interval startsAt = xy_loop yCoordinates interval startsAt"

definition zone_band :: "rz_table \<Rightarrow> string \<Rightarrow> int \<Rightarrow> int \<Rightarrow> chart_series" where
  "zone_band t name lo hi =
     \<lparr>cs_id = Some name, cs_visible = True, cs_enableMouseTracking = None,
      cs_data = RangeData (addXCoordinatesWithRange (rz_series t ! nat lo) (rz_series t ! nat hi)
                  (rz_interval t) (rz_startsAt t))\<rparr>"

definition treatment_line :: "tz_table \<Rightarrow> string \<Rightarrow> bool \<Rightarrow> mg_dl list \<Rightarrow> chart_series" where
  "treatment_line t name visible ys =
     \<lparr>cs_id = Some name, cs_visible = visible, cs_enableMouseTracking = None,
      cs_data = LineData (addXCoordinates ys (tz_interval t) (tz_startsAt t))\<rparr>"

definition renderChart :: "tz_table \<Rightarrow> data_point list \<Rightarrow> chart_series list" where
  "renderChart tz points =
     [zone_band riskZone ''HRZ'' (rz_highIntermediate riskZone) (rz_high riskZone),
      zone_band riskZone ''HIRZ'' (rz_lowIntermediate riskZone) (rz_highIntermediate riskZone),
      zone_band riskZone ''LIRZ'' (rz_low riskZone) (rz_lowIntermediate riskZone),
      zone_band riskZone ''LRZ'' (rz_zero riskZone) (rz_low riskZone),
      treatment_line tz ''photoHighRisk'' (phototherapyVisible tz) (phototherapySeries tz ! nat (tz_high tz)),
      treatment_line tz ''photoMediumRisk'' (phototherapyVisible tz) (phototherapySeries tz ! nat (tz_medium tz)),
      treatment_line tz ''photoLowRisk'' (phototherapyVisible tz) (phototherapySeries tz ! nat (tz_low tz)),
      treatment_line tz ''transfusionHighRisk'' (transfusiontherapyVisible tz) (transfusionSeries tz ! nat (tz_high tz)),
      treatment_line tz ''transfusionMediumRisk'' (transfusiontherapyVisible tz) (transfusionSeries tz ! nat (tz_medium tz)),
      treatment_line tz ''transfusionLowRisk'' (transfusiontherapyVisible tz) (transfusionSeries tz ! nat (tz_low tz)),
      \<lparr>cs_id = None, cs_visible = True, cs_enableMouseTracking = Some True, cs_data = PointData points\<rparr>]"

definition chartOptions :: "tz_table \<Rightarrow> data_point list \<Rightarrow> chart_options" where
  "chartOptions tz points =
     \<lparr>co_title_text = [], co_tickInterval = 24, co_minorTickInterval = 12,
      co_day_label = (\<lambda>value. value / 24), co_yAxis_floor = 0,
      co_tooltip = dp_customTooltip, co_enableMouseTracking = False,
      co_series = renderChart tz points\<rparr>"

section \<open>The main entry\<close>

definition renders_chart :: "string \<Rightarrow> bool" where
  "renders_chart pathname =
     (let notIndex = (js_indexOf pathname ''table-only.html'' = 0)
      in 0 \<le> (if notIndex then 1 else 0 :: int))"

definition biligram_main ::
  "(real \<Rightarrow> string) \<Rightarrow> string \<Rightarrow> patient \<Rightarrow> lab_result list \<Rightarrow> lab_result list \<Rightarrow> lab_result list \<Rightarrow>
     (advisory option \<times> result_row list) \<times> chart_options option" where
  "biligram_main num_str pathname p serum poc tclab =
     (let (table, tz') = getBiliResults treatmentZone p serum poc tclab;
          points = fst (results_series num_str treatmentZone (birthDateTime p) (birthGA p)
                          (rev (sortedResults serum poc tclab)))
      in (table, if renders_chart pathname then Some (chartOptions tz' points) else None))"

section \<open>Specification: what Highcharts shows\<close>

text \<open>Highcharts calls the tooltip formatter for a point only when mouse
  tracking is enabled for its series, by the series' own option or else by
  \<open>plotOptions.series\<close>.\<close>

definition tooltip_shown :: "chart_options \<Rightarrow> chart_series \<Rightarrow> data_point \<Rightarrow> string option" where
  "tooltip_shown opts s p =
     (if (case cs_enableMouseTracking s of Some b \<Rightarrow> b | None \<Rightarrow> co_enableMouseTracking opts)
      then co_tooltip opts p else None)"

declare results_series.simps(2) [simp del]

section \<open>Lemmas\<close>

lemma string_of_nat_digit: "d < 10 \<Longrightarrow> string_of_nat d = [digit_char d]"
  by (simp add: string_of_nat_unfold)

lemma toFixed1_parse: "parseFloat (toFixed1 x) = Num (js_toFixed1 x)"
proof -
  define n where "n = nat \<lfloor>\<bar>x\<bar> * 10 + 1 / 2\<rfloor>"
  have sd: "[digit_char (n mod 10)] = string_of_nat (n mod 10)"
    by (simp add: string_of_nat_digit)
  have val: "real (n div 10) + real (n mod 10) / 10 ^ length (string_of_nat (n mod 10)) = real n / 10"
  proof -
    have "real n = real (n div 10) * 10 + real (n mod 10)"
      by (metis div_mult_mod_eq of_nat_add of_nat_mult of_nat_numeral)
    then show ?thesis by (simp add: string_of_nat_digit)
  qed
  have nn: "real n = of_int \<lfloor>\<bar>x\<bar> * 10 + 1 / 2\<rfloor>"
    unfolding n_def by (simp add: abs_ge_zero)
  have t: "toFixed1 x = (if x < 0 then ''-'' else []) @ string_of_nat (n div 10) @ CHR ''.'' # string_of_nat (n mod 10) @ []"
    unfolding toFixed1_def Let_def n_def [symmetric] sd by simp
  show ?thesis
  proof (cases "x < 0")
    case True
    then show ?thesis
      using parseFloat_string_of_nat [OF num_float_end_Nil, of "''-''" "n div 10" "n mod 10"]
      unfolding t val
      by (simp add: js_toFixed1_def nn)
  next
    case False
    then show ?thesis
      using parseFloat_string_of_nat [OF num_float_end_Nil, of "[]" "n div 10" "n mod 10"]
      unfolding t val
      by (simp add: js_toFixed1_def nn)
  qed
qed

lemma mark_treatment_fields:
  "dp_x (mark_treatment c r txt p) = dp_x p"
  "dp_y (mark_treatment c r txt p) = dp_y p"
  "mk_fillColor (dp_marker (mark_treatment c r txt p)) = (if txt = None then mk_fillColor (dp_marker p) else c)"
  "dp_customTooltip (mark_treatment c r txt p) =
     (case txt of None \<Rightarrow> dp_customTooltip p | Some s \<Rightarrow> js_str_append (dp_customTooltip p) s)"
  by (simp_all add: mark_treatment_def split: option.split)

lemma decorated_fields:
  "dp_x (case z of None \<Rightarrow> p | Some (color, d) \<Rightarrow> decorateDataPoint f p h l me color d) = dp_x p"
  "dp_y (case z of None \<Rightarrow> p | Some (color, d) \<Rightarrow> decorateDataPoint f p h l me color d) = dp_y p"
  "mk_fillColor (dp_marker (case z of None \<Rightarrow> p | Some (color, d) \<Rightarrow> decorateDataPoint f p h l me color d))
     = mk_fillColor (dp_marker p)"
  "z = None \<Longrightarrow> dp_customTooltip (case z of None \<Rightarrow> p | Some (color, d) \<Rightarrow> decorateDataPoint f p h l me color d)
     = dp_customTooltip p"
  by (simp_all add: decorateDataPoint_def split: option.split prod.split)

lemma result_point_fields:
  fixes num_str tz birth ga m
  defines "X \<equiv> treatmentZone_exceeds tz (age_hours birth (m_drawtime m)) (m_level m) ga"
  shows "dp_x (fst (result_point num_str tz birth ga m)) = toFixed1 (of_int (m_drawtime m - birth) / 3600000)"
    and "dp_y (fst (result_point num_str tz birth ga m)) = m_level m"
    and "mk_fillColor (dp_marker (fst (result_point num_str tz birth ga m))) =
           (if transfusion_text (snd X) ga (transfusion (fst X)) \<noteq> None then transfusionLineColor
            else if photo_text (snd X) ga (phototherapy (fst X)) \<noteq> None then phototherapylineColor
            else ''black'')"
    and "snd (result_point num_str tz birth ga m) = snd X"
  unfolding result_point_def Let_def X_def
  by (simp_all add: case_prod_beta mark_treatment_fields decorated_fields new_dataPoint_def)

lemma results_series_Cons:
  "results_series num_str tz birth ga (m # ms) =
     (fst (result_point num_str tz birth ga m) # fst (results_series num_str (snd (result_point num_str tz birth ga m)) birth ga ms),
      snd (results_series num_str (snd (result_point num_str tz birth ga m)) birth ga ms))"
  by (simp add: results_series.simps(2) case_prod_beta)

lemma results_series_rows:
  "snd (results_series num_str tz birth ga ms) = snd (result_rows tz birth ga ms) \<and>
   list_all2 (\<lambda>p r. \<exists>t m. tz_strip t = tz_strip tz \<and> m \<in> set ms \<and>
                  p = fst (result_point num_str t birth ga m) \<and> r = fst (classify_row t birth ga m))
     (fst (results_series num_str tz birth ga ms)) (fst (result_rows tz birth ga ms))"
proof (induction ms arbitrary: tz)
  case Nil
  then show ?case by simp
next
  case (Cons m ms)
  let ?t = "snd (classify_row tz birth ga m)"
  have same: "snd (result_point num_str tz birth ga m) = ?t"
    by (simp add: result_point_fields classify_row_fields)
  have strip: "tz_strip ?t = tz_strip tz"
    by (simp add: classify_row_fields tz_strip_exceeds)
  have IH: "snd (results_series num_str ?t birth ga ms) = snd (result_rows ?t birth ga ms)"
    "list_all2 (\<lambda>p r. \<exists>t' m'. tz_strip t' = tz_strip ?t \<and> m' \<in> set ms \<and>
                  p = fst (result_point num_str t' birth ga m') \<and> r = fst (classify_row t' birth ga m'))
       (fst (results_series num_str ?t birth ga ms)) (fst (result_rows ?t birth ga ms))"
    using Cons.IH [of ?t] by simp_all
  have IH': "list_all2 (\<lambda>p r. \<exists>t' m'. tz_strip t' = tz_strip tz \<and> m' \<in> set (m # ms) \<and>
                  p = fst (result_point num_str t' birth ga m') \<and> r = fst (classify_row t' birth ga m'))
       (fst (results_series num_str ?t birth ga ms)) (fst (result_rows ?t birth ga ms))"
    using IH(2) strip by (auto elim!: list_all2_mono)
  show ?case
    unfolding results_series_Cons result_rows_Cons same
    using IH(1) IH' by auto
qed

lemma range_loop_nth:
  "k < length highs \<Longrightarrow>
   range_loop lows highs d i x ! k = \<lparr>rp_x = x + of_nat k * d, rp_low = js_at lows (int (i + k)), rp_high = highs ! k\<rparr>"
proof (induction highs arbitrary: i x k)
  case (Cons h hs)
  then show ?case by (cases k) (simp_all add: algebra_simps)
qed simp

lemma riskZone_knot_in_table: "k < 34 \<Longrightarrow> in_table 35 12 4 (12 + of_nat k * 4)"
  by (simp add: riskZone_in_table_iff)

lemma riskZone_knot_zone:
  assumes "k < 34"
  shows "zone_placement riskZone (riskZone_exceeds riskZone (12 + of_nat k * 4) l) =
           Some (bhutani_zone riskZone (12 + of_nat k * 4) l)"
  using riskZone_exceeds_in_table [OF riskZone_wf_lemma, of "12 + of_nat k * 4" l]
    bhutani_zone_scan [OF riskZone_wf_lemma, of "12 + of_nat k * 4" l] riskZone_knot_in_table [OF assms]
  by (simp add: rz_scan_code_def)

lemma riskZone_knot_curve:
  "rz_curve riskZone i (12 + of_nat k * 4) = rz_series riskZone ! i ! k"
  using pl_curve_knot [of 4 "rz_series riskZone ! i" 12 k] by (simp add: rz_curve_def)

lemma riskZone_knot_order:
  assumes "k < 34" "i \<le> j" "j < 5"
  shows "rz_series riskZone ! j ! k \<le> rz_series riskZone ! i ! k"
  using rz_curve_ordered [OF riskZone_wf_lemma _ assms(2), of "12 + of_nat k * 4"] assms
    riskZone_knot_in_table [OF assms(1)]
  by (simp add: riskZone_knot_curve)

lemma riskZone_series_length: "i < 5 \<Longrightarrow> length (rz_series riskZone ! i) = 35"
  using rz_wf_lengths [OF riskZone_wf_lemma, of i] by simp

lemma renderChart_band:
  assumes "j < 4" "k < 35"
  shows "cs_data (renderChart tz pts ! j) =
           RangeData (addXCoordinatesWithRange (rz_series riskZone ! Suc j) (rz_series riskZone ! j) 4 12)
         \<and> addXCoordinatesWithRange (rz_series riskZone ! Suc j) (rz_series riskZone ! j) 4 12 ! k =
           \<lparr>rp_x = 12 + of_nat k * 4, rp_low = Some (rz_series riskZone ! Suc j ! k),
            rp_high = rz_series riskZone ! j ! k\<rparr>"
proof
  have z: "rz_zero riskZone = 4" by (simp add: riskZone_def)
  show "cs_data (renderChart tz pts ! j) =
          RangeData (addXCoordinatesWithRange (rz_series riskZone ! Suc j) (rz_series riskZone ! j) 4 12)"
    using assms(1) z by (auto simp: renderChart_def zone_band_def less_Suc_eq numeral_eq_Suc)
  show "addXCoordinatesWithRange (rz_series riskZone ! Suc j) (rz_series riskZone ! j) 4 12 ! k =
          \<lparr>rp_x = 12 + of_nat k * 4, rp_low = Some (rz_series riskZone ! Suc j ! k),
           rp_high = rz_series riskZone ! j ! k\<rparr>"
    using assms riskZone_series_length [of j] riskZone_series_length [of "Suc j"]
    by (simp add: addXCoordinatesWithRange_def range_loop_nth js_at_nat)
qed

lemma bhutani_zone_knot:
  "bhutani_zone riskZone (12 + of_nat k * 4) l =
     (if rz_series riskZone ! 1 ! k \<le> l then High
      else if rz_series riskZone ! 2 ! k \<le> l then HighIntermediate
      else if rz_series riskZone ! 3 ! k \<le> l then LowIntermediate else Low)"
  by (simp add: bhutani_zone_def riskZone_knot_curve)

lemma photo_text_None: "photo_text t ga c = None \<longleftrightarrow> tier_placement t c = None"
  by (simp add: photo_text_def tier_placement_def)

lemma transfusion_text_None: "transfusion_text t ga c = None \<longleftrightarrow> tier_placement t c = None"
  by (simp add: transfusion_text_def tier_placement_def)

lemma zone_decoration_undefined: "zone_decoration riskZone (rz_undefined riskZone) = None"
  by (simp add: zone_decoration_def)

lemma renders_chart_always: "renders_chart pathname"
  by (simp add: renders_chart_def)

lemma tooltip_shown_chart:
  "tooltip_shown (chartOptions tz pts) (last (co_series (chartOptions tz pts))) p = dp_customTooltip p"
  "j < 10 \<Longrightarrow> tooltip_shown (chartOptions tz pts) (co_series (chartOptions tz pts) ! j) p = None"
  by (simp_all add: tooltip_shown_def chartOptions_def renderChart_def zone_band_def treatment_line_def
      less_Suc_eq numeral_eq_Suc, auto simp: zone_band_def treatment_line_def)

section \<open>Properties\<close>

text \<open>
  C33. The risk-zone bands of the chart agree with the classification: at
  every sample time inside the table (12 to 144 hours), a level between the
  lower and upper edge of a band (at or above the lower edge of the top band)
  is classified into that band's zone (high, high-intermediate,
  low-intermediate, low).
\<close>

theorem chart_zone_bands_agree:
  assumes "k < 34" "j < 4" and ps: "cs_data (renderChart tz pts ! j) = RangeData ps"
    and lo: "rp_low (ps ! k) = Some lo" "lo \<le> l" and hi: "j = 0 \<or> l < rp_high (ps ! k)"
  shows "zone_placement riskZone (riskZone_exceeds riskZone (rp_x (ps ! k)) l) =
           Some ([High, HighIntermediate, LowIntermediate, Low] ! j)"
proof -
  let ?s = "\<lambda>i. rz_series riskZone ! i ! k"
  have k35: "k < 35" using assms(1) by simp
  have p: "ps ! k = \<lparr>rp_x = 12 + of_nat k * 4, rp_low = Some (?s (Suc j)), rp_high = ?s j\<rparr>"
    using renderChart_band [OF assms(2) k35, of tz pts] ps by simp
  have bounds: "?s (Suc j) \<le> l" "j = 0 \<or> l < ?s j" using lo hi p by simp_all
  have o: "?s 2 \<le> ?s 1" "?s 3 \<le> ?s 2" "?s 4 \<le> ?s 3"
    using riskZone_knot_order [OF assms(1)] by simp_all
  have "bhutani_zone riskZone (12 + of_nat k * 4) l = [High, HighIntermediate, LowIntermediate, Low] ! j"
    using assms(2) bounds o unfolding bhutani_zone_knot
    by (auto simp: less_Suc_eq numeral_eq_Suc)
  then show ?thesis
    using riskZone_knot_zone [OF assms(1)] p by simp
qed

theorem chart_zone_bands_agree_witness:
  "cs_data (renderChart treatmentZone [] ! 0) =
     RangeData (addXCoordinatesWithRange (rz_series riskZone ! 1) (rz_series riskZone ! 0) 4 12) \<and>
   rp_low (addXCoordinatesWithRange (rz_series riskZone ! 1) (rz_series riskZone ! 0) 4 12 ! 0) = Some 7.1 \<and>
   zone_placement riskZone
     (riskZone_exceeds riskZone (rp_x (addXCoordinatesWithRange (rz_series riskZone ! 1) (rz_series riskZone ! 0) 4 12 ! 0)) 20)
     = Some High"
proof -
  have b: "cs_data (renderChart treatmentZone [] ! 0) =
             RangeData (addXCoordinatesWithRange (rz_series riskZone ! 1) (rz_series riskZone ! 0) 4 12)"
    and p: "addXCoordinatesWithRange (rz_series riskZone ! 1) (rz_series riskZone ! 0) 4 12 ! 0 =
             \<lparr>rp_x = 12, rp_low = Some (rz_series riskZone ! 1 ! 0), rp_high = rz_series riskZone ! 0 ! 0\<rparr>"
    using renderChart_band [of 0 0 treatmentZone "[]"] by simp_all
  have s: "rz_series riskZone ! 1 ! 0 = 7.1" by (simp add: riskZone_def)
  show ?thesis
    using chart_zone_bands_agree [of 0 0 treatmentZone "[]" "addXCoordinatesWithRange (rz_series riskZone ! 1) (rz_series riskZone ! 0) 4 12" "7.1" 20] b p s
    by simp
qed

text \<open>
  C34. A point's fill colour shows the treatment thresholds of its row:
  violet when a transfusion threshold is exceeded, blue when only a
  phototherapy threshold is, black otherwise.
\<close>

theorem results_series_marker_colours:
  "list_all2 (\<lambda>pt r. mk_fillColor (dp_marker pt) =
       (if row_transfusion r \<noteq> None then transfusionLineColor
        else if row_photo r \<noteq> None then phototherapylineColor else ''black''))
     (fst (results_series num_str tz birth ga ms)) (fst (result_rows tz birth ga ms))"
  using conjunct2 [OF results_series_rows [of num_str tz birth ga ms]]
  by (rule list_all2_mono)
    (auto simp: result_point_fields classify_row_treatment photo_text_None transfusion_text_None)

text \<open>
  C35. After a run from the initial treatment table, the three phototherapy
  lines of the chart are shown exactly when some row exceeds a phototherapy
  threshold, and the three transfusion lines exactly when some row exceeds a
  transfusion threshold.
\<close>

theorem chart_treatment_lines_visible:
  "map cs_visible (take 6 (drop 4 (renderChart (snd (getBiliResults treatmentZone p serum poc tclab)) pts))) =
     replicate 3 (list_ex (\<lambda>r. row_photo r \<noteq> None) (snd (fst (getBiliResults treatmentZone p serum poc tclab)))) @
     replicate 3 (list_ex (\<lambda>r. row_transfusion r \<noteq> None) (snd (fst (getBiliResults treatmentZone p serum poc tclab))))"
proof -
  let ?ms = "rev (sortedResults serum poc tclab)"
  have g: "getBiliResults treatmentZone p serum poc tclab =
             ((bhutani_advisory (birthGA p) (birthWeight p), fst (result_rows treatmentZone (birthDateTime p) (birthGA p) ?ms)),
              snd (result_rows treatmentZone (birthDateTime p) (birthGA p) ?ms))"
    by (simp add: getBiliResults_def Let_def case_prod_beta)
  have f0: "\<not> phototherapyVisible treatmentZone" "\<not> transfusiontherapyVisible treatmentZone"
    by (simp_all add: treatmentZone_def)
  show ?thesis
    using result_rows_flags [OF treatmentZone_wf_lemma, of "birthDateTime p" "birthGA p" ?ms] f0
    unfolding g by (simp add: renderChart_def treatment_line_def list_ex_iff numeral_3_eq_3)
qed

text \<open>
  C36. A result drawn before 12 hours of life that exceeds a phototherapy
  threshold gets a tooltip beginning with the text \<open>undefined\<close>: no risk
  zone decorates the point, so \<open>customTooltip\<close> is still undefined when the
  threshold text is appended to it, and it is this text that the chart shows
  when the point is hovered.
\<close>

theorem result_point_undefined_tooltip:
  assumes "age_hours birth (m_drawtime m) < 12"
    and "row_photo (fst (classify_row tz birth ga m)) \<noteq> None"
  shows "\<exists>s. dp_customTooltip (fst (result_point num_str tz birth ga m)) = Some (''undefined'' @ s) \<and>
             tooltip_shown (chartOptions tz2 pts) (last (co_series (chartOptions tz2 pts)))
               (fst (result_point num_str tz birth ga m)) = Some (''undefined'' @ s)"
proof -
  let ?h = "age_hours birth (m_drawtime m)"
  let ?X = "treatmentZone_exceeds tz ?h (m_level m) ga"
  have z: "zone_decoration riskZone (riskZone_exceeds riskZone ?h (m_level m)) = None"
    using assms(1) riskZone_exceeds_before [of ?h riskZone "m_level m"] zone_decoration_undefined by simp
  obtain s1 where s1: "photo_text (snd ?X) ga (phototherapy (fst ?X)) = Some s1"
    using assms(2) photo_text_None by (cases "photo_text (snd ?X) ga (phototherapy (fst ?X))")
      (auto simp: classify_row_treatment)
  have "\<exists>s. dp_customTooltip (fst (result_point num_str tz birth ga m)) = Some (''undefined'' @ s)"
    unfolding result_point_def Let_def case_prod_beta
    using z s1
    by (auto simp: mark_treatment_fields decorated_fields new_dataPoint_def js_str_append_def split: option.split)
  then show ?thesis by (simp add: tooltip_shown_chart)
qed

theorem result_point_undefined_tooltip_witness:
  "age_hours 0 (m_drawtime \<lparr>m_drawtime = 0, m_level = 10, m_method = Serum\<rparr>) < 12 \<and>
   row_photo (fst (classify_row treatmentZone 0 36 \<lparr>m_drawtime = 0, m_level = 10, m_method = Serum\<rparr>)) \<noteq> None \<and>
   (\<exists>s. dp_customTooltip (fst (result_point (\<lambda>x. ''10'') treatmentZone 0 36 \<lparr>m_drawtime = 0, m_level = 10, m_method = Serum\<rparr>))
      = Some (''undefined'' @ s) \<and>
      tooltip_shown (chartOptions treatmentZone []) (last (co_series (chartOptions treatmentZone [])))
        (fst (result_point (\<lambda>x. ''10'') treatmentZone 0 36 \<lparr>m_drawtime = 0, m_level = 10, m_method = Serum\<rparr>))
      = Some (''undefined'' @ s))"
proof -
  have h: "age_hours 0 0 = 0" by (simp add: age_hours_def js_toFixed1_def)
  have p: "row_photo (fst (classify_row treatmentZone 0 36 \<lparr>m_drawtime = 0, m_level = 10, m_method = Serum\<rparr>)) \<noteq> None"
    by (simp add: classify_row_treatment h treatmentZone_exceeds_def tz_scan_def first_from.simps
        series_threshold_def js_at_def treatmentZone_def tier_placement_def)
  show ?thesis
    using result_point_undefined_tooltip [of 0 "\<lparr>m_drawtime = 0, m_level = 10, m_method = Serum\<rparr>" treatmentZone 36 "\<lambda>x. ''10''" treatmentZone "[]"] h p
    by simp
qed

text \<open>
  C37. The main entry always renders the chart, also on the table-only page:
  \<open>!(location.pathname).indexOf('table-only.html') >= 0\<close> compares a
  boolean with 0 and is always true, so the table-only branch is dead.
\<close>

theorem biligram_main_always_renders:
  "snd (biligram_main num_str pathname p serum poc tclab) =
     Some (chartOptions (snd (getBiliResults treatmentZone p serum poc tclab))
       (fst (results_series num_str treatmentZone (birthDateTime p) (birthGA p) (rev (sortedResults serum poc tclab)))))"
  by (simp add: biligram_main_def Let_def case_prod_beta renders_chart_def)

end
