(* ===== verification/Table_Display.thy ===== *)
theory Table_Display
  imports Chart_Series
begin

text \<open>
  The display of the result table (\<open>src/biligram.js\<close> lines 699--745 and the
  main entry, lines 757--767): after \<open>getBiliResults\<close> only the rows of
  class \<open>result-row-first\<close> (the header and the newest result, together with
  the radio buttons, which sit in a header cell of that class) are shown.  Two
  jQuery handlers then react to the user: choosing a radio button (all,
  latest, none) shows or hides the rows, and choosing none hides everything but
  a "Show table" checkbox, whose handler brings the table back.  The display is
  the record \<open>display\<close> (what is shown and what is checked); the slide
  animations are modelled by their end state.  A user can only click a control
  that is shown, and a change event fires only when the control's state
  changes: \<open>ui_step\<close> is the step relation, \<open>ui_reachable\<close> the states
  reachable from the page as loaded.
\<close>

section \<open>Data\<close>

datatype radio = RadioAll | RadioLatest | RadioNone

record display =
  firstShown :: bool
  rowsShown :: bool
  checkboxShown :: bool
  checkedRadio :: radio
  showTableChecked :: bool

primrec radio_id :: "radio \<Rightarrow> string" where
  "radio_id RadioAll = ''all''"
| "radio_id RadioLatest = ''latest''"
| "radio_id RadioNone = ''none''"

section \<open>Operations\<close>

definition display_init :: display where
  "display_init =
     \<lparr>firstShown = True, rowsShown = False, checkboxShown = False, checkedRadio = RadioLatest,
      showTableChecked = False\<rparr>"

definition display_after_load :: "string \<Rightarrow> display" where
  "display_after_load pathname =
     (if renders_chart pathname then display_init
      else display_init\<lparr>firstShown := True, rowsShown := True, checkedRadio := RadioAll\<rparr>)"

definition checkbox_change :: "string \<Rightarrow> string \<Rightarrow> display \<Rightarrow> display" where
  "checkbox_change pathname this_id d =
     (if this_id = ''showTable'' then
        (let d = d\<lparr>firstShown := True\<rparr>;
             d = (if 0 \<le> js_indexOf pathname ''table-only.html''
                  then d\<lparr>rowsShown := True, checkedRadio := RadioAll\<rparr>
                  else d\<lparr>rowsShown := False, checkedRadio := RadioLatest\<rparr>)
         in d\<lparr>checkboxShown := False, showTableChecked := False\<rparr>)
      else d)"

definition radio_change :: "string \<Rightarrow> display \<Rightarrow> display" where
  "radio_change this_id d =
     (if this_id = ''all'' then d\<lparr>firstShown := True, rowsShown := True\<rparr>
      else if this_id = ''latest'' then d\<lparr>firstShown := True, rowsShown := False, checkboxShown := False\<rparr>
      else if this_id = ''none'' then d\<lparr>firstShown := False, rowsShown := False, checkboxShown := True\<rparr>
      else d)"

inductive ui_step :: "string \<Rightarrow> display \<Rightarrow> display \<Rightarrow> bool" where
  check_showTable:
    "checkboxShown d \<Longrightarrow> \<not> showTableChecked d \<Longrightarrow>
     ui_step pathname d (checkbox_change pathname ''showTable'' (d\<lparr>showTableChecked := True\<rparr>))"
| select_radio:
    "firstShown d \<Longrightarrow> checkedRadio d \<noteq> r \<Longrightarrow>
     ui_step pathname d (radio_change (radio_id r) (d\<lparr>checkedRadio := r\<rparr>))"

inductive ui_reachable :: "string \<Rightarrow> display \<Rightarrow> bool" where
  loaded: "ui_reachable pathname (display_after_load pathname)"
| step: "ui_reachable pathname d \<Longrightarrow> ui_step pathname d d' \<Longrightarrow> ui_reachable pathname d'"

section \<open>Specification\<close>

text \<open>A consistent display: the checkbox is shown exactly when the table is
  hidden, the other rows only with the first, and the checked radio button
  names what is shown.\<close>

definition display_ok :: "display \<Rightarrow> bool" where
  "display_ok d \<longleftrightarrow>
     (checkboxShown d \<longleftrightarrow> \<not> firstShown d) \<and> (rowsShown d \<longrightarrow> firstShown d) \<and>
     (checkedRadio d = RadioAll \<longleftrightarrow> rowsShown d) \<and> (checkedRadio d = RadioNone \<longleftrightarrow> \<not> firstShown d) \<and>
     \<not> showTableChecked d"

inductive_cases ui_stepE: "ui_step pathname d d'"

section \<open>Lemmas\<close>

lemma display_after_load_init: "display_after_load pathname = display_init"
  by (simp add: display_after_load_def renders_chart_always)

lemma display_init_ok: "display_ok display_init"
  by (simp add: display_ok_def display_init_def)

lemma ui_step_ok: "ui_step pathname d d' \<Longrightarrow> display_ok d \<Longrightarrow> display_ok d'"
proof (induction rule: ui_step.induct)
  case (check_showTable d pathname)
  then show ?case by (auto simp: display_ok_def checkbox_change_def Let_def)
next
  case (select_radio d r pathname)
  then show ?case by (cases r) (auto simp: display_ok_def radio_change_def)
qed

lemma ui_reachable_ok: "ui_reachable pathname d \<Longrightarrow> display_ok d"
  by (induction rule: ui_reachable.induct) (auto simp: display_after_load_init display_init_ok ui_step_ok)

lemma ui_step_all:
  "display_ok d \<Longrightarrow> firstShown d \<Longrightarrow> \<exists>d'. (ui_step pathname)\<^sup>*\<^sup>* d d' \<and> rowsShown d'"
proof (cases "checkedRadio d = RadioAll")
  case True
  assume "display_ok d"
  with True show ?thesis by (auto simp: display_ok_def)
next
  case False
  assume "firstShown d"
  then have "ui_step pathname d (radio_change (radio_id RadioAll) (d\<lparr>checkedRadio := RadioAll\<rparr>))"
    using False by (rule select_radio)
  then show ?thesis by (intro exI [of _ "radio_change (radio_id RadioAll) (d\<lparr>checkedRadio := RadioAll\<rparr>)"])
    (auto simp: radio_change_def)
qed

section \<open>Properties\<close>

text \<open>
  C13. Whatever the user clicks, the table display stays consistent: the "Show
  table" checkbox is shown exactly when the table is hidden, the older rows
  are never shown without the newest, and the checked radio button names what
  is shown.
\<close>

theorem table_display_consistent: "ui_reachable pathname d \<Longrightarrow> display_ok d"
  by (induction rule: ui_reachable.induct) (auto simp: display_after_load_init display_init_ok ui_step_ok)

theorem table_display_consistent_witness:
  "ui_reachable ''/biligram.html'' display_init \<and> display_ok display_init"
proof -
  have r: "ui_reachable ''/biligram.html'' display_init"
    using ui_reachable.loaded [of "''/biligram.html''"] by (simp add: display_after_load_init)
  show ?thesis using table_display_consistent [OF r] r by simp
qed

text \<open>
  C31. From every display the user can reach, some sequence of clicks shows
  all result rows (through the checkbox when the table is hidden, then the
  "all" radio button).
\<close>

theorem table_display_can_show_all:
  assumes "ui_reachable pathname d"
  shows "\<exists>d'. (ui_step pathname)\<^sup>*\<^sup>* d d' \<and> rowsShown d'"
proof -
  have ok: "display_ok d" using ui_reachable_ok [OF assms] .
  show ?thesis
  proof (cases "firstShown d")
    case True
    then show ?thesis using ui_step_all [OF ok] by blast
  next
    case False
    let ?d1 = "checkbox_change pathname ''showTable'' (d\<lparr>showTableChecked := True\<rparr>)"
    have s1: "ui_step pathname d ?d1"
      using ok False by (intro check_showTable) (auto simp: display_ok_def)
    have ok1: "display_ok ?d1" using ui_step_ok [OF s1 ok] .
    have "firstShown ?d1" by (simp add: checkbox_change_def Let_def)
    then obtain d' where "(ui_step pathname)\<^sup>*\<^sup>* ?d1 d'" "rowsShown d'"
      using ui_step_all [OF ok1] by blast
    with s1 show ?thesis by (meson converse_rtranclp_into_rtranclp)
  qed
qed

theorem table_display_can_show_all_witness:
  "ui_reachable ''/biligram.html'' display_init \<and>
   (\<exists>d'. (ui_step ''/biligram.html'')\<^sup>*\<^sup>* display_init d' \<and> rowsShown d')"
proof -
  have r: "ui_reachable ''/biligram.html'' display_init"
    using ui_reachable.loaded [of "''/biligram.html''"] by (simp add: display_after_load_init)
  show ?thesis using table_display_can_show_all [OF r] r by simp
qed

end
