(* ===== verification/Page_Input.thy ===== *)
theory Page_Input
  imports Input_Format Result_Classifier
begin

text \<open>
  The first part of \<open>getBiliResults\<close> (\<open>src/biligram.js\<close> lines 399--449): it
  reads the EMR page into the global \<open>results\<close> object.  The three lab tables
  go through \<open>translateData\<close> and \<open>convertDateTime\<close>, the phototherapy text
  through \<open>translatePhotoTherapy\<close>, the birth time through \<open>stickAColonInIt\<close>
  and \<open>Date.parse\<close>, the gestational age through \<open>convertWholePlusFrac\<close> and
  the weight through \<open>parseFloat\<close>; two warnings may be appended to the page.
  The page is the record \<open>page\<close> of the texts the code reads.
  \<open>Date.parse\<close> is the one of the datejs library, which the page loads (the
  code calls \<open>getMonth\<close> on its results, line 562, and the datejs
  \<open>days().ago()\<close> in \<open>addHours\<close>, line 333): it returns a \<open>Date\<close> or
  \<open>null\<close> for a text it cannot read.  Its accepted formats are not modelled:
  it is a parameter \<open>date_parse\<close> returning \<open>None\<close> (\<open>null\<close>) or the
  date in milliseconds.  A \<open>translateData\<close> that throws
  aborts the whole reading (\<open>None\<close>).  \<open>lab_of\<close> is the bridge to the
  classification model, whose draw times are milliseconds and levels reals:
  it is defined when the draw time is a date and the level a number (on a
  \<open>null\<close> draw time the loop's \<open>drawtime.getMonth()\<close>, line 562, throws).
\<close>

section \<open>Data\<close>

record page =
  pg_biliSerum :: "string list list"
  pg_biliPOC :: "string list list"
  pg_biliTCLab :: "string list list"
  pg_photoTherapy :: "string option"
  pg_birthDay :: string
  pg_birthTime :: string
  pg_birthGA :: string
  pg_birthWeight :: string

record js_lab =
  jl_drawtime :: "millis option"
  jl_level :: jsnum

record js_results =
  res_serum :: "js_lab list"
  res_POC :: "js_lab list"
  res_TCLab :: "js_lab list"
  res_photoTherapy :: "phototherapy_entry list option"
  res_birthDay :: string
  res_birthTime :: string
  res_birthGA :: "string + jsnum"
  res_birthWeight :: jsnum

datatype page_warning = BirthDateWarning "millis option" | BirthWeightWarning jsnum

section \<open>JavaScript built-ins\<close>

text \<open>\<open>a == null\<close> on the result of datejs' \<open>Date.parse\<close>: true for \<open>null\<close>,
  false for a \<open>Date\<close> object.\<close>

definition js_eq_null :: "millis option \<Rightarrow> bool" where
  "js_eq_null v = (case v of None \<Rightarrow> True | Some _ \<Rightarrow> False)"

fun js_lt :: "jsnum \<Rightarrow> jsnum \<Rightarrow> bool" where
  "js_lt (Num a) (Num b) = (a < b)"
| "js_lt (Infinity s) (Num b) = (\<not> s)"
| "js_lt (Num a) (Infinity s) = s"
| "js_lt (Infinity s) (Infinity s') = (\<not> s \<and> s')"
| "js_lt _ _ = False"

section \<open>Operations\<close>

definition convertDateTime :: "(string \<Rightarrow> millis option) \<Rightarrow> raw_result \<Rightarrow> js_lab" where
  "convertDateTime date_parse element =
     \<lparr>jl_drawtime = date_parse (raw_drawtime element), jl_level = raw_level element\<rparr>"

definition read_page ::
  "(string \<Rightarrow> millis option) \<Rightarrow> page \<Rightarrow> (js_results \<times> millis option \<times> page_warning list) option" where
  "read_page date_parse pg =
     (case (translateData (pg_biliSerum pg), translateData (pg_biliPOC pg), translateData (pg_biliTCLab pg)) of
        (Some serum, Some poc, Some tclab) \<Rightarrow>
          (let photoTherapy = translatePhotoTherapy (pg_photoTherapy pg);
               birthTime = stickAColonInIt (pg_birthTime pg);
               birthDateTime = date_parse (pg_birthDay pg @ '' '' @ birthTime);
               dateWarning = (if js_eq_null birthDateTime then [BirthDateWarning birthDateTime] else []);
               birthGA = convertWholePlusFrac (pg_birthGA pg);
               birthWeight = parseFloat (pg_birthWeight pg);
               weightWarning = (if js_lt birthWeight (Num 0.5) then [BirthWeightWarning birthWeight] else [])
           in Some (\<lparr>res_serum = map (convertDateTime date_parse) serum,
                     res_POC = map (convertDateTime date_parse) poc,
                     res_TCLab = map (convertDateTime date_parse) tclab,
                     res_photoTherapy = photoTherapy, res_birthDay = pg_birthDay pg,
                     res_birthTime = birthTime, res_birthGA = birthGA, res_birthWeight = birthWeight\<rparr>,
                    birthDateTime, dateWarning @ weightWarning))
      | _ \<Rightarrow> None)"

section \<open>Specification: the bridge to the classification model\<close>

definition lab_of :: "js_lab \<Rightarrow> lab_result option" where
  "lab_of l =
     (case (jl_drawtime l, jl_level l) of
        (Some d, Num v) \<Rightarrow> Some \<lparr>lr_drawtime = d, lr_level = v\<rparr>
      | _ \<Rightarrow> None)"

section \<open>Lemmas\<close>

lemma js_eq_null_iff [simp]: "js_eq_null v \<longleftrightarrow> v = None"
  by (cases v) (simp_all add: js_eq_null_def)

lemma read_page_Some:
  "read_page date_parse pg = Some (res, bdt, ws) \<longleftrightarrow>
     (\<exists>serum poc tclab. translateData (pg_biliSerum pg) = Some serum \<and> translateData (pg_biliPOC pg) = Some poc \<and>
        translateData (pg_biliTCLab pg) = Some tclab \<and>
        res = \<lparr>res_serum = map (convertDateTime date_parse) serum,
               res_POC = map (convertDateTime date_parse) poc,
               res_TCLab = map (convertDateTime date_parse) tclab,
               res_photoTherapy = translatePhotoTherapy (pg_photoTherapy pg), res_birthDay = pg_birthDay pg,
               res_birthTime = stickAColonInIt (pg_birthTime pg), res_birthGA = convertWholePlusFrac (pg_birthGA pg),
               res_birthWeight = parseFloat (pg_birthWeight pg)\<rparr> \<and>
        bdt = date_parse (pg_birthDay pg @ '' '' @ stickAColonInIt (pg_birthTime pg)) \<and>
        ws = (if bdt = None then [BirthDateWarning None] else []) @
             (if js_lt (parseFloat (pg_birthWeight pg)) (Num 0.5)
              then [BirthWeightWarning (parseFloat (pg_birthWeight pg))] else []))"
  by (auto simp: read_page_def Let_def split: option.splits)


lemma translate_rows_length:
  "translate_rows i rows = Some xs \<Longrightarrow> length xs = length (drop (2 - i) rows)"
proof (induction rows arbitrary: i xs)
  case Nil
  then show ?case by simp
next
  case (Cons cells rows)
  show ?case
  proof (cases "1 < i")
    case True
    with Cons show ?thesis by (auto split: if_splits)
  next
    case False
    then have "2 - i = Suc (2 - Suc i)" by simp
    with False Cons show ?thesis by simp
  qed
qed

lemma translateData_length: "translateData rows = Some xs \<Longrightarrow> length xs = length rows - 2"
  using translate_rows_length [of 0 rows xs] by (simp add: translateData_def)

lemma those_length: "those xs = Some ys \<Longrightarrow> length ys = length xs"
  by (induction xs arbitrary: ys) (auto split: option.splits)

lemma getBiliResults_length:
  "length (snd (fst (getBiliResults tz p serum poc tclab))) = length serum + length poc + length tclab"
proof -
  have "map (\<lambda>_. ()) (snd (fst (getBiliResults tz p serum poc tclab))) =
        map (\<lambda>_. ()) (rev (sortedResults serum poc tclab))"
    unfolding getBiliResults_rows by (rule result_rows_project) simp
  then have "length (snd (fst (getBiliResults tz p serum poc tclab))) = length (sortedResults serum poc tclab)"
    by (metis length_map length_rev)
  also have "\<dots> = length serum + length poc + length tclab"
    using arg_cong [OF sortedResults_mset [of serum poc tclab], of size] by (simp add: addMethod2_map)
  finally show ?thesis .
qed

section \<open>Properties\<close>

text \<open>
  C7. Reading the page warns about the birth date exactly when datejs'
  \<open>Date.parse\<close> cannot read the birth day and the colon-fixed birth time
  joined by a space (it returns \<open>null\<close>), and the birth date/time it
  returns is that parse; a weight text that does not start with a number
  (\<open>parseFloat\<close> gives \<open>NaN\<close>, which is not below 0.5) gets no warning, although
  the message says it is shown when the weight could not be figured out.
\<close>

theorem read_page_warnings:
  "read_page date_parse pg = Some (res, bdt, ws) \<Longrightarrow>
   bdt = date_parse (pg_birthDay pg @ '' '' @ stickAColonInIt (pg_birthTime pg))
   \<and> (BirthDateWarning None \<in> set ws \<longleftrightarrow> bdt = None)
   \<and> (parseFloat (pg_birthWeight pg) = NaN \<longrightarrow> (\<forall>w. BirthWeightWarning w \<notin> set ws))"
  by (auto simp: read_page_Some)

theorem read_page_warnings_witness:
  "read_page (\<lambda>_. None) \<lparr>pg_biliSerum = [[''h''], [''h'']], pg_biliPOC = [[''h''], [''h'']], pg_biliTCLab = [[''h''], [''h'']],
      pg_photoTherapy = None, pg_birthDay = ''?'', pg_birthTime = ''0023'', pg_birthGA = ''39'',
      pg_birthWeight = ''unknown''\<rparr> =
     Some (\<lparr>res_serum = [], res_POC = [], res_TCLab = [], res_photoTherapy = None, res_birthDay = ''?'',
             res_birthTime = ''00:23'', res_birthGA = Inl ''39'', res_birthWeight = NaN\<rparr>, None, [BirthDateWarning None])
   \<and> parseFloat ''unknown'' = NaN"
proof -
  have pf: "parseFloat ''unknown'' = NaN"
    by (simp add: parseFloat_def js_whitespace_def dec_digit_def)
  have r: "read_page (\<lambda>_. None) \<lparr>pg_biliSerum = [[''h''], [''h'']], pg_biliPOC = [[''h''], [''h'']], pg_biliTCLab = [[''h''], [''h'']],
      pg_photoTherapy = None, pg_birthDay = ''?'', pg_birthTime = ''0023'', pg_birthGA = ''39'',
      pg_birthWeight = ''unknown''\<rparr> =
     Some (\<lparr>res_serum = [], res_POC = [], res_TCLab = [], res_photoTherapy = None, res_birthDay = ''?'',
             res_birthTime = ''00:23'', res_birthGA = Inl ''39'', res_birthWeight = NaN\<rparr>, None,
           [BirthDateWarning None] @
           (if js_lt (parseFloat ''unknown'') (Num 0.5) then [BirthWeightWarning (parseFloat ''unknown'')] else []))"
    by (simp add: read_page_def translateData_def translatePhotoTherapy_def stickAColonInIt_def
        convertWholePlusFrac_def pf)
  show ?thesis
    using read_page_warnings [OF r] r pf by simp
qed

text \<open>
  C14. End to end from the page to the result table: when the three lab
  tables are read and every draw time and level is a number, the result
  table has one row per data row of the three tables (each table's first two
  rows are skipped).
\<close>

theorem read_page_rows:
  assumes "read_page date_parse pg = Some (res, bdt, ws)"
    and "those (map lab_of (res_serum res)) = Some serum"
    and "those (map lab_of (res_POC res)) = Some poc"
    and "those (map lab_of (res_TCLab res)) = Some tclab"
  shows "length (snd (fst (getBiliResults tz p serum poc tclab))) =
           (length (pg_biliSerum pg) - 2) + (length (pg_biliPOC pg) - 2) + (length (pg_biliTCLab pg) - 2)"
proof -
  obtain s q t where "translateData (pg_biliSerum pg) = Some s" "translateData (pg_biliPOC pg) = Some q"
      "translateData (pg_biliTCLab pg) = Some t"
      "res_serum res = map (convertDateTime date_parse) s" "res_POC res = map (convertDateTime date_parse) q"
      "res_TCLab res = map (convertDateTime date_parse) t"
    using assms(1) unfolding read_page_Some by auto
  then show ?thesis
    using those_length [OF assms(2)] those_length [OF assms(3)] those_length [OF assms(4)]
    by (simp add: getBiliResults_length translateData_length)
qed

theorem read_page_rows_witness:
  "read_page (\<lambda>_. Some 0) \<lparr>pg_biliSerum = [[''h''], [''h''], [''d'', ''11.1'']], pg_biliPOC = [[''h''], [''h'']],
      pg_biliTCLab = [[''h''], [''h'']], pg_photoTherapy = None, pg_birthDay = ''d'', pg_birthTime = ''0023'',
      pg_birthGA = ''39'', pg_birthWeight = ''3''\<rparr> =
     Some (\<lparr>res_serum = [\<lparr>jl_drawtime = Some 0, jl_level = Num (111 / 10)\<rparr>], res_POC = [], res_TCLab = [],
             res_photoTherapy = None, res_birthDay = ''d'', res_birthTime = ''00:23'', res_birthGA = Inl ''39'',
             res_birthWeight = Num 3\<rparr>, Some 0, []) \<and>
   those (map lab_of [\<lparr>jl_drawtime = Some 0, jl_level = Num (111 / 10)\<rparr>]) = Some [\<lparr>lr_drawtime = 0, lr_level = 111 / 10\<rparr>] \<and>
   those (map lab_of ([] :: js_lab list)) = Some [] \<and>
   length (snd (fst (getBiliResults treatmentZone \<lparr>birthDateTime = 0, birthGA = 39, birthWeight = 3\<rparr>
      [\<lparr>lr_drawtime = 0, lr_level = 111 / 10\<rparr>] [] []))) = 1"
proof -
  have pf: "parseFloat ''11.1'' = Num (111 / 10)" "parseFloat ''3'' = Num 3"
    by (simp_all add: parseFloat_def js_whitespace_def dec_digit_def digits_value_def exponent_part_def)
  have r: "read_page (\<lambda>_. Some 0) \<lparr>pg_biliSerum = [[''h''], [''h''], [''d'', ''11.1'']], pg_biliPOC = [[''h''], [''h'']],
      pg_biliTCLab = [[''h''], [''h'']], pg_photoTherapy = None, pg_birthDay = ''d'', pg_birthTime = ''0023'',
      pg_birthGA = ''39'', pg_birthWeight = ''3''\<rparr> =
     Some (\<lparr>res_serum = [\<lparr>jl_drawtime = Some 0, jl_level = Num (111 / 10)\<rparr>], res_POC = [], res_TCLab = [],
             res_photoTherapy = None, res_birthDay = ''d'', res_birthTime = ''00:23'', res_birthGA = Inl ''39'',
             res_birthWeight = Num 3\<rparr>, Some 0, [])"
    by (simp add: read_page_def translateData_def translatePhotoTherapy_def stickAColonInIt_def
        convertWholePlusFrac_def pf convertDateTime_def Let_def)
  have l: "those (map lab_of [\<lparr>jl_drawtime = Some 0, jl_level = Num (111 / 10)\<rparr>]) = Some [\<lparr>lr_drawtime = 0, lr_level = 111 / 10\<rparr>]"
    "those (map lab_of ([] :: js_lab list)) = Some []"
    by (simp_all add: lab_of_def)
  show ?thesis
    using read_page_rows [OF r, of "[\<lparr>lr_drawtime = 0, lr_level = 111 / 10\<rparr>]" "[]" "[]" treatmentZone
        "\<lparr>birthDateTime = 0, birthGA = 39, birthWeight = 3\<rparr>"] r l
    by simp
qed

end
