(* ===== verification/Graph_Copy.thy ===== *)
theory Graph_Copy
  imports Bili_Prelude
begin

text \<open>
  The "Click to copy graph" button (\<open>copyGraphToPNG\<close>, \<open>src/biligram.js\<close>
  lines 1087--1145).  The browser state is the record \<open>browser\<close>: the
  drawing commands of each canvas the page created, the images appended to
  the body (each the PNG of a canvas, i.e. its drawing commands at the time
  of \<open>toDataURL\<close>), the queue of pending image-load tasks and the
  \<open>onbeforeunload\<close> handler.  \<open>canvg\<close> and \<open>drawImage\<close> are drawing
  commands of the datatype \<open>draw\<close>; \<open>window.btoa\<close> is the base64 encoding
  \<open>js_btoa\<close> of a Latin-1 string.  Setting \<open>image.src\<close> queues the load
  event; the event loop runs it only after the handler has returned
  (\<open>run_task\<close>).  The two earlier copy routines, never called (their
  call sites are commented out), are modelled on the same state:
  \<open>convertSVGtoPNG2\<close> (lines 1023--1050) appends its PNG to
  \<open>#copyImageDiv\<close> (\<open>br_copyImageDiv\<close>, \<open>None\<close> when the page has no
  such element: jQuery's \<open>append\<close> then does nothing), and
  \<open>copyGraphToPNG3\<close> (lines 1054--1085) reads the first canvas attached to
  the document (\<open>br_document_canvases\<close>) and throws a \<open>TypeError\<close> when
  there is none: the canvases the routines create are never attached.
  \<open>copyGraphToPNG4\<close> and \<open>$.fn.toImage\<close> (blob URLs) are not modelled.
\<close>

section \<open>Base64\<close>

definition b64_alphabet :: string where
  "b64_alphabet = ''ABCDEFGHIJKLMNOPQRSTUVWXYZabcdefghijklmnopqrstuvwxyz0123456789+/''"

definition b64_digit :: "nat \<Rightarrow> char" where
  "b64_digit n = b64_alphabet ! (n mod 64)"

fun js_btoa :: "string \<Rightarrow> string" where
  "js_btoa (a # b # c # rest) =
     (let n = of_char a * 65536 + of_char b * 256 + of_char c :: nat in
      [b64_digit (n div 262144), b64_digit (n div 4096), b64_digit (n div 64), b64_digit n])
     @ js_btoa rest"
| "js_btoa [a, b] =
     (let n = of_char a * 65536 + of_char b * 256 :: nat in
      [b64_digit (n div 262144), b64_digit (n div 4096), b64_digit (n div 64), CHR ''=''])"
| "js_btoa [a] =
     (let n = of_char a * 65536 :: nat in
      [b64_digit (n div 262144), b64_digit (n div 4096), CHR ''='', CHR ''=''])"
| "js_btoa [] = []"

section \<open>Browser state\<close>

datatype draw =
    Canvg string "(real \<times> real) option"
  | DrawImage string real real real real

datatype task = ImageLoad nat string real real

datatype unload_handler = UnloadNull | UnloadWarn

datatype js_error = TypeError

record browser =
  br_canvases :: "draw list list"
  br_body_images :: "draw list list"
  br_tasks :: "task list"
  br_onbeforeunload :: unload_handler
  br_document_canvases :: "nat list"
  br_copyImageDiv :: "draw list list option"

definition jq_append_copyImageDiv :: "draw list \<Rightarrow> browser \<Rightarrow> browser" where
  "jq_append_copyImageDiv png b =
     (case br_copyImageDiv b of
        None \<Rightarrow> b
      | Some imgs \<Rightarrow> b\<lparr>br_copyImageDiv := Some (imgs @ [png])\<rparr>)"

definition convertSVGtoPNG2 :: "string \<Rightarrow> browser \<Rightarrow> browser" where
  "convertSVGtoPNG2 svg b =
     (let b = b\<lparr>br_onbeforeunload := UnloadNull\<rparr>;
          mycanvas = length (br_canvases b);
          b = b\<lparr>br_canvases := br_canvases b @ [[]]\<rparr>;
          b = b\<lparr>br_canvases := (br_canvases b)[mycanvas := br_canvases b ! mycanvas @ [Canvg svg None]]\<rparr>;
          png = br_canvases b ! mycanvas
      in jq_append_copyImageDiv png b)"

definition copyGraphToPNG3 :: "browser \<Rightarrow> js_error + browser" where
  "copyGraphToPNG3 b =
     (let b = b\<lparr>br_onbeforeunload := UnloadNull\<rparr>;
          mycanvas = length (br_canvases b);
          b = b\<lparr>br_canvases := br_canvases b @ [[]]\<rparr>
      in case br_document_canvases b of
           [] \<Rightarrow> Inl TypeError
         | canvas # _ \<Rightarrow> Inr (jq_append_copyImageDiv (br_canvases b ! canvas) b))"

definition copyGraphToPNG :: "string \<Rightarrow> real \<Rightarrow> real \<Rightarrow> browser \<Rightarrow> browser" where
  "copyGraphToPNG svghtml width height b =
     (let b = b\<lparr>br_onbeforeunload := UnloadNull\<rparr>;
          canvas = length (br_canvases b);
          b = b\<lparr>br_canvases := br_canvases b @ [[]]\<rparr>;
          b = b\<lparr>br_canvases := (br_canvases b)[canvas := br_canvases b ! canvas @ [Canvg svghtml (Some (width, height))]]\<rparr>;
          src = ''data:image/svg+xml;base64,'' @ js_btoa svghtml;
          b = b\<lparr>br_tasks := br_tasks b @ [ImageLoad canvas src width height]\<rparr>;
          png = br_canvases b ! canvas
      in b\<lparr>br_body_images := br_body_images b @ [br_canvases b ! canvas]\<rparr>)"

definition run_task :: "browser \<Rightarrow> browser" where
  "run_task b = (case br_tasks b of
      [] \<Rightarrow> b
    | ImageLoad canvas src width height # ts \<Rightarrow>
        b\<lparr>br_canvases := (br_canvases b)[canvas := br_canvases b ! canvas @ [DrawImage src 0 0 width height]],
          br_tasks := ts\<rparr>)"

section \<open>Lemmas\<close>

lemma length_js_btoa: "length (js_btoa s) = 4 * ((length s + 2) div 3)"
proof (induction s rule: js_btoa.induct)
  case (1 a b c rest)
  have "(5 + length rest) div 3 = (length rest + 2) div 3 + 1" by presburger
  then show ?case using 1 by (simp add: Let_def)
qed (simp_all add: Let_def)

lemma js_btoa_chars: "set (js_btoa s) \<subseteq> set b64_alphabet \<union> {CHR ''=''}"
proof -
  have d: "b64_digit n \<in> set b64_alphabet" for n
    unfolding b64_digit_def by (rule nth_mem) (simp add: b64_alphabet_def)
  show ?thesis by (induction s rule: js_btoa.induct) (simp_all add: Let_def d)
qed

lemma run_task_body_images [simp]: "br_body_images (run_task b) = br_body_images b"
  by (simp add: run_task_def split: list.split task.split)

lemma run_tasks_body_images [simp]: "br_body_images ((run_task ^^ n) b) = br_body_images b"
  by (induction n) simp_all

lemma copyGraphToPNG_fields:
  "br_canvases (copyGraphToPNG svg w h b) = br_canvases b @ [[Canvg svg (Some (w, h))]]"
  "br_body_images (copyGraphToPNG svg w h b) = br_body_images b @ [[Canvg svg (Some (w, h))]]"
  "br_tasks (copyGraphToPNG svg w h b) =
     br_tasks b @ [ImageLoad (length (br_canvases b)) (''data:image/svg+xml;base64,'' @ js_btoa svg) w h]"
  "br_onbeforeunload (copyGraphToPNG svg w h b) = UnloadNull"
  by (simp_all add: copyGraphToPNG_def Let_def)

lemma run_tasks_idle: "br_tasks b = [] \<Longrightarrow> (run_task ^^ n) b = b"
  by (induction n) (simp_all add: run_task_def)

lemma run_task_load:
  "br_tasks b = [ImageLoad canvas src w h] \<Longrightarrow>
   run_task b = b\<lparr>br_canvases := (br_canvases b)[canvas := br_canvases b ! canvas @ [DrawImage src 0 0 w h]],
                  br_tasks := []\<rparr>"
  by (simp add: run_task_def)

lemma copy_routines_document_canvases:
  "br_document_canvases (copyGraphToPNG svg w h b) = br_document_canvases b"
  "br_document_canvases (convertSVGtoPNG2 svg b) = br_document_canvases b"
  "br_document_canvases (run_task b) = br_document_canvases b"
  by (simp_all add: copyGraphToPNG_def convertSVGtoPNG2_def jq_append_copyImageDiv_def run_task_def
      Let_def split: option.split list.split task.split)

lemma copyGraphToPNG3_no_canvas:
  "br_document_canvases b = [] \<Longrightarrow> copyGraphToPNG3 b = Inl TypeError"
  by (simp add: copyGraphToPNG3_def Let_def)

lemma convertSVGtoPNG2_copyImageDiv:
  "br_copyImageDiv (convertSVGtoPNG2 svg b) = map_option (\<lambda>imgs. imgs @ [[Canvg svg None]]) (br_copyImageDiv b)"
  by (simp add: convertSVGtoPNG2_def jq_append_copyImageDiv_def Let_def split: option.split)

text \<open>C32: the PNG appended to the page is taken before the image-load task
  can run, so it holds only the \<open>canvg\<close> drawing, whatever the event loop
  does afterwards; the \<open>drawImage\<close> of the \<open>onload\<close> handler reaches only
  the detached canvas.\<close>

theorem copyGraphToPNG_png_before_onload:
  assumes "br_tasks b = []"
  shows "br_body_images ((run_task ^^ n) (copyGraphToPNG svg w h b)) = br_body_images b @ [[Canvg svg (Some (w, h))]]
       \<and> (0 < n \<longrightarrow> br_canvases ((run_task ^^ n) (copyGraphToPNG svg w h b)) ! length (br_canvases b)
            = [Canvg svg (Some (w, h)), DrawImage (''data:image/svg+xml;base64,'' @ js_btoa svg) 0 0 w h])"
proof (intro conjI impI)
  show "br_body_images ((run_task ^^ n) (copyGraphToPNG svg w h b)) = br_body_images b @ [[Canvg svg (Some (w, h))]]"
    by (simp add: copyGraphToPNG_fields)
  assume "0 < n"
  then obtain m where n: "n = Suc m" by (cases n) auto
  let ?c = "copyGraphToPNG svg w h b"
  have "br_tasks (run_task ?c) = []"
    using assms by (simp add: run_task_load copyGraphToPNG_fields)
  then have "(run_task ^^ n) ?c = run_task ?c"
    unfolding n funpow_Suc_right o_apply by (rule run_tasks_idle)
  then show "br_canvases ((run_task ^^ n) ?c) ! length (br_canvases b)
            = [Canvg svg (Some (w, h)), DrawImage (''data:image/svg+xml;base64,'' @ js_btoa svg) 0 0 w h]"
    using assms by (simp add: run_task_load copyGraphToPNG_fields nth_append)
qed

theorem copyGraphToPNG_png_before_onload_witness:
  "br_body_images ((run_task ^^ 2) (copyGraphToPNG ''<svg/>'' 600 400 \<lparr>br_canvases = [], br_body_images = [],
        br_tasks = [], br_onbeforeunload = UnloadWarn,
        br_document_canvases = [], br_copyImageDiv = None\<rparr>)) = [[Canvg ''<svg/>'' (Some (600, 400))]]
   \<and> br_canvases ((run_task ^^ 2) (copyGraphToPNG ''<svg/>'' 600 400 \<lparr>br_canvases = [], br_body_images = [],
        br_tasks = [], br_onbeforeunload = UnloadWarn,
        br_document_canvases = [], br_copyImageDiv = None\<rparr>)) ! 0
     = [Canvg ''<svg/>'' (Some (600, 400)), DrawImage ''data:image/svg+xml;base64,PHN2Zy8+'' 0 0 600 400]"
  using copyGraphToPNG_png_before_onload [of "\<lparr>br_canvases = [], br_body_images = [],
        br_tasks = [], br_onbeforeunload = UnloadWarn,
        br_document_canvases = [], br_copyImageDiv = None\<rparr>" 2 "''<svg/>''" 600 400]
  by (simp add: b64_digit_def b64_alphabet_def)

end
