(* ===== verification/Blob_Copy.thy ===== *)
theory Blob_Copy
  imports Graph_Copy Input_Format
begin

text \<open>
  The two blob-URL copy routines, \<open>copyGraphToPNG4\<close> (\<open>src/biligram.js\<close>
  lines 1150--1183) and the jQuery plugin \<open>$.fn.toImage\<close> (lines
  1189--1219).  Neither is called by the page (their call sites are
  commented out); they are modelled to show what they would do.  The
  document is the list \<open>ds_nodes\<close> of its nodes in document order: the SVG
  elements \<open>SvgNode i\<close> (markup and size in \<open>ds_svgs\<close>) and the image
  \<open>#copyImage\<close> (\<open>CopyImageNode\<close>, its attributes and load handlers in
  \<open>ds_copyImage\<close>, \<open>None\<close> when the page has no such element, jQuery then
  doing nothing).  \<open>URL.createObjectURL\<close> registers the blob in the store
  \<open>ds_blobs\<close> and returns a fresh URL; setting \<open>src\<close> queues a load task
  (\<open>ds_loads\<close>), which the event loop runs later (\<open>run_load\<close>): a load
  whose URL is no longer the image's \<open>src\<close> was aborted by the newer one
  and fires nothing, otherwise every registered handler runs in order.
  Which of \<open>Blob\<close>, \<open>MSBlobBuilder\<close> and \<open>URL.createObjectURL\<close> the
  browser has is the parameter \<open>blob_env\<close>.
\<close>

section \<open>Document\<close>

datatype dom_node = SvgNode nat | CopyImageNode | CopyImageClone

record svg_elem =
  svg_markup :: string
  svg_width :: real
  svg_height :: real

record img_elem =
  im_width :: "real option"
  im_height :: "real option"
  im_src :: "string option"
  im_onload :: "nat list list"

record dom_state =
  ds_nodes :: "dom_node list"
  ds_svgs :: "svg_elem list"
  ds_copyImage :: "img_elem option"
  ds_blobs :: "string list"
  ds_loads :: "string list"

record blob_env =
  has_Blob :: bool
  has_MSBlobBuilder :: bool
  has_createObjectURL :: bool

datatype js_value = SvgValue nat | JQueryValue "nat list"

section \<open>Browser operations\<close>

definition serializeToString :: "dom_state \<Rightarrow> js_value \<Rightarrow> js_error + string" where
  "serializeToString ds v = (case v of
      SvgValue i \<Rightarrow> Inr (svg_markup (ds_svgs ds ! i))
    | JQueryValue _ \<Rightarrow> Inl TypeError)"

definition new_blob :: "blob_env \<Rightarrow> string \<Rightarrow> string option" where
  "new_blob env svgData =
     (if has_Blob env then Some svgData
      else if has_MSBlobBuilder env then Some svgData
      else None)"

definition object_url :: "nat \<Rightarrow> string" where
  "object_url k = ''blob:'' @ string_of_nat k"

definition createObjectURL :: "blob_env \<Rightarrow> string option \<Rightarrow> dom_state \<Rightarrow> js_error + string \<times> dom_state" where
  "createObjectURL env blob ds =
     (if \<not> has_createObjectURL env then Inl TypeError
      else case blob of
        None \<Rightarrow> Inl TypeError
      | Some d \<Rightarrow> Inr (object_url (length (ds_blobs ds)),
                      ds\<lparr>ds_blobs := ds_blobs ds @ [d]\<rparr>))"

fun replace_node :: "dom_node \<Rightarrow> dom_node \<Rightarrow> dom_node list \<Rightarrow> dom_node list" where
  "replace_node old new [] = []"
| "replace_node old new (n # ns) = (if n = old then new # ns else n # replace_node old new ns)"

definition replaceWith :: "nat list \<Rightarrow> dom_state \<Rightarrow> dom_state" where
  "replaceWith targets ds =
     (if targets = [] then ds
      else ds\<lparr>ds_nodes :=
        replace_node (SvgNode (last targets)) CopyImageNode
          (fold (\<lambda>t. replace_node (SvgNode t) CopyImageClone) (butlast targets)
             (removeAll CopyImageNode (ds_nodes ds)))\<rparr>)"

definition jq_width :: "(svg_elem \<Rightarrow> real) \<Rightarrow> nat list \<Rightarrow> dom_state \<Rightarrow> real option" where
  "jq_width extent svg ds = (case svg of [] \<Rightarrow> None | i # _ \<Rightarrow> Some (extent (ds_svgs ds ! i)))"

definition jq_copyImage_load :: "real option \<Rightarrow> real option \<Rightarrow> nat list \<Rightarrow> string \<Rightarrow> dom_state \<Rightarrow> dom_state" where
  "jq_copyImage_load width height svg blobUrl ds =
     (case ds_copyImage ds of
        None \<Rightarrow> ds
      | Some im \<Rightarrow>
          ds\<lparr>ds_copyImage := Some (im\<lparr>im_width := (case width of None \<Rightarrow> im_width im | Some w \<Rightarrow> Some w),
                                     im_height := (case height of None \<Rightarrow> im_height im | Some h \<Rightarrow> Some h),
                                     im_onload := im_onload im @ [svg], im_src := Some blobUrl\<rparr>),
             ds_loads := ds_loads ds @ [blobUrl]\<rparr>)"

definition run_load :: "dom_state \<Rightarrow> dom_state" where
  "run_load ds = (case ds_loads ds of
      [] \<Rightarrow> ds
    | url # rest \<Rightarrow>
        (case ds_copyImage ds of
           Some im \<Rightarrow>
             if im_src im = Some url
             then fold replaceWith (im_onload im) (ds\<lparr>ds_loads := rest\<rparr>)
             else ds\<lparr>ds_loads := rest\<rparr>
         | None \<Rightarrow> ds\<lparr>ds_loads := rest\<rparr>))"

section \<open>The copy routines\<close>

definition toImage_one :: "blob_env \<Rightarrow> nat \<Rightarrow> dom_state \<Rightarrow> js_error + dom_state" where
  "toImage_one env svg ds =
     (let width = svg_width (ds_svgs ds ! svg) / 1.8;
          height = svg_height (ds_svgs ds ! svg) / 1.8
      in case serializeToString ds (SvgValue svg) of
           Inl e \<Rightarrow> Inl e
         | Inr svgData \<Rightarrow>
             (case createObjectURL env (new_blob env svgData) ds of
                Inl e \<Rightarrow> Inl e
              | Inr (blobUrl, ds) \<Rightarrow> Inr (jq_copyImage_load (Some width) (Some height) [svg] blobUrl ds)))"

fun toImage :: "blob_env \<Rightarrow> nat list \<Rightarrow> dom_state \<Rightarrow> js_error + dom_state" where
  "toImage env [] ds = Inr ds"
| "toImage env (svg # svgs) ds =
     (case toImage_one env svg ds of
        Inl e \<Rightarrow> Inl e
      | Inr ds' \<Rightarrow> toImage env svgs ds')"

definition copyGraphToPNG4 :: "blob_env \<Rightarrow> nat list \<Rightarrow> dom_state \<Rightarrow> js_error + dom_state" where
  "copyGraphToPNG4 env svg ds =
     (let width = jq_width svg_width svg ds;
          height = jq_width svg_height svg ds
      in case serializeToString ds (JQueryValue svg) of
           Inl e \<Rightarrow> Inl e
         | Inr svgData \<Rightarrow>
             (case createObjectURL env (new_blob env svgData) ds of
                Inl e \<Rightarrow> Inl e
              | Inr (blobUrl, ds) \<Rightarrow> Inr (jq_copyImage_load width height svg blobUrl ds)))"

section \<open>Lemmas\<close>

lemma string_of_nat_inj: "string_of_nat a = string_of_nat b \<Longrightarrow> a = b"
  using parseInt_string_of_nat [of "[]" a] parseInt_string_of_nat [of "[]" b] num_end_Nil by simp

lemma object_url_inj [simp]: "object_url a = object_url b \<longleftrightarrow> a = b"
  by (auto simp: object_url_def dest: string_of_nat_inj)

lemma set_replace_node: "set (replace_node old new L) \<subseteq> insert new (set L)"
  by (induction L) auto

lemma replace_node_distinct:
  "new \<notin> set L \<Longrightarrow> distinct L \<Longrightarrow> distinct (replace_node old new L)"
  by (induction L) (use set_replace_node in fastforce)+

lemma filter_replace_node:
  "x \<noteq> new \<Longrightarrow> distinct L \<Longrightarrow>
   filter (\<lambda>n. n \<noteq> new \<and> P n) (replace_node x new L) = filter (\<lambda>n. n \<noteq> new \<and> P n \<and> n \<noteq> x) L"
  by (induction L) (auto intro!: filter_cong)

lemma replaceWith_single [simp]:
  "replaceWith [t] ds = ds\<lparr>ds_nodes := replace_node (SvgNode t) CopyImageNode (removeAll CopyImageNode (ds_nodes ds))\<rparr>"
  by (simp add: replaceWith_def)

lemma fold_replaceWith_fields [simp]:
  "ds_svgs (fold replaceWith hs ds) = ds_svgs ds"
  "ds_copyImage (fold replaceWith hs ds) = ds_copyImage ds"
  "ds_blobs (fold replaceWith hs ds) = ds_blobs ds"
  "ds_loads (fold replaceWith hs ds) = ds_loads ds"
  by (induction hs arbitrary: ds) (simp_all add: replaceWith_def)

lemma fold_replaceWith_single:
  "distinct (ds_nodes ds) \<Longrightarrow> sel \<noteq> [] \<Longrightarrow>
   ds_nodes (fold replaceWith (map (\<lambda>i. [i]) sel) ds) =
     replace_node (SvgNode (last sel)) CopyImageNode
       (filter (\<lambda>n. n \<noteq> CopyImageNode \<and> n \<notin> SvgNode ` set (butlast sel)) (ds_nodes ds))"
proof (induction sel arbitrary: ds)
  case (Cons s rest)
  show ?case
  proof (cases "rest = []")
    case True
    then show ?thesis by (simp add: removeAll_filter_not_eq eq_commute)
  next
    case False
    let ?N = "removeAll CopyImageNode (ds_nodes ds)"
    have d: "distinct ?N" using Cons.prems by (simp add: removeAll_filter_not_eq)
    have "distinct (replace_node (SvgNode s) CopyImageNode ?N)"
      using d by (intro replace_node_distinct) simp_all
    then have "ds_nodes (fold replaceWith (map (\<lambda>i. [i]) rest) (replaceWith [s] ds)) =
       replace_node (SvgNode (last rest)) CopyImageNode
         (filter (\<lambda>n. n \<noteq> CopyImageNode \<and> n \<notin> SvgNode ` set (butlast rest))
            (replace_node (SvgNode s) CopyImageNode ?N))"
      using Cons.IH [OF _ False] by simp
    also have "filter (\<lambda>n. n \<noteq> CopyImageNode \<and> n \<notin> SvgNode ` set (butlast rest))
            (replace_node (SvgNode s) CopyImageNode ?N) =
          filter (\<lambda>n. n \<noteq> CopyImageNode \<and> n \<notin> SvgNode ` set (butlast (s # rest))) (ds_nodes ds)"
    proof -
      let ?S = "SvgNode ` set (butlast rest)"
      have "filter (\<lambda>n. n \<noteq> CopyImageNode \<and> n \<notin> ?S) (replace_node (SvgNode s) CopyImageNode ?N)
            = filter (\<lambda>n. n \<noteq> CopyImageNode \<and> n \<notin> ?S \<and> n \<noteq> SvgNode s) ?N"
        by (rule filter_replace_node) (simp_all add: d)
      then show ?thesis using False by (simp add: removeAll_filter_not_eq eq_commute conj_ac)
    qed
    finally show ?thesis using False by simp
  qed
qed simp
lemma toImage_one_ok:
  assumes "has_Blob env \<or> has_MSBlobBuilder env" "has_createObjectURL env" "ds_copyImage ds = Some im"
  shows "toImage_one env svg ds = Inr (ds\<lparr>
     ds_copyImage := Some (im\<lparr>im_width := Some (svg_width (ds_svgs ds ! svg) / 1.8),
                              im_height := Some (svg_height (ds_svgs ds ! svg) / 1.8),
                              im_src := Some (object_url (length (ds_blobs ds))),
                              im_onload := im_onload im @ [[svg]]\<rparr>),
     ds_blobs := ds_blobs ds @ [svg_markup (ds_svgs ds ! svg)],
     ds_loads := ds_loads ds @ [object_url (length (ds_blobs ds))]\<rparr>)"
  using assms
  by (auto simp: toImage_one_def serializeToString_def new_blob_def createObjectURL_def
      jq_copyImage_load_def Let_def)

lemma toImage_ok:
  assumes env: "has_Blob env \<or> has_MSBlobBuilder env" "has_createObjectURL env"
  shows "ds_copyImage ds = Some im \<Longrightarrow> sel \<noteq> [] \<Longrightarrow> toImage env sel ds = Inr (ds\<lparr>
     ds_copyImage := Some (im\<lparr>im_width := Some (svg_width (ds_svgs ds ! last sel) / 1.8),
                              im_height := Some (svg_height (ds_svgs ds ! last sel) / 1.8),
                              im_src := Some (object_url (length (ds_blobs ds) + length sel - 1)),
                              im_onload := im_onload im @ map (\<lambda>i. [i]) sel\<rparr>),
     ds_blobs := ds_blobs ds @ map (\<lambda>i. svg_markup (ds_svgs ds ! i)) sel,
     ds_loads := ds_loads ds @ map object_url [length (ds_blobs ds)..<length (ds_blobs ds) + length sel]\<rparr>)"
proof (induction sel arbitrary: ds im)
  case (Cons s rest)
  note one = toImage_one_ok [OF env Cons.prems(1), of s]
  show ?case
  proof (cases "rest = []")
    case True
    then show ?thesis by (simp add: one)
  next
    case False
    show ?thesis
      using Cons.IH [OF _ False, where ds = "ds\<lparr>ds_copyImage := Some (im\<lparr>im_width := Some (svg_width (ds_svgs ds ! s) / 1.8),
                              im_height := Some (svg_height (ds_svgs ds ! s) / 1.8),
                              im_src := Some (object_url (length (ds_blobs ds))),
                              im_onload := im_onload im @ [[s]]\<rparr>),
            ds_blobs := ds_blobs ds @ [svg_markup (ds_svgs ds ! s)],
            ds_loads := ds_loads ds @ [object_url (length (ds_blobs ds))]\<rparr>"] False
      by (simp add: one upt_conv_Cons del: upt_Suc)
  qed
qed simp

lemma run_load_skip:
  "ds_loads ds = u # rest \<Longrightarrow> ds_copyImage ds = Some im \<Longrightarrow> im_src im \<noteq> Some u \<Longrightarrow>
   run_load ds = ds\<lparr>ds_loads := rest\<rparr>"
  by (simp add: run_load_def)

lemma run_load_fire:
  "ds_loads ds = u # rest \<Longrightarrow> ds_copyImage ds = Some im \<Longrightarrow> im_src im = Some u \<Longrightarrow>
   run_load ds = fold replaceWith (im_onload im) (ds\<lparr>ds_loads := rest\<rparr>)"
  by (simp add: run_load_def)

lemma run_loads_skip:
  "ds_copyImage ds = Some im \<Longrightarrow> Some ` set us \<inter> {im_src im} = {} \<Longrightarrow> ds_loads ds = us @ rest \<Longrightarrow>
   (run_load ^^ length us) ds = ds\<lparr>ds_loads := rest\<rparr>"
proof (induction us arbitrary: ds)
  case (Cons u us)
  have "run_load ds = ds\<lparr>ds_loads := us @ rest\<rparr>"
    using Cons.prems by (intro run_load_skip) auto
  then show ?case
    using Cons.IH [of "ds\<lparr>ds_loads := us @ rest\<rparr>"] Cons.prems
    by (simp add: funpow_Suc_right del: funpow.simps)
qed simp

text \<open>C5: \<open>$.fn.toImage\<close> on a selection of SVG elements, in a browser with
  blobs and object URLs, on a page whose \<open>#copyImage\<close> has no handler and
  no pending load: it returns normally, the image's last \<open>src\<close> is the blob
  URL of the last SVG's markup with that SVG's size divided by 1.8, and once
  the queued loads have run, the only load that fires (the earlier ones are
  superseded) runs every registered handler in order, so every selected SVG
  is removed from the document and the image stands where the last one was.
  With more than one SVG the earlier ones are deleted, not copied.\<close>

theorem toImage_replaces_selection:
  assumes env: "has_Blob env \<or> has_MSBlobBuilder env" "has_createObjectURL env"
    and im: "ds_copyImage ds = Some im" "im_onload im = []" "ds_loads ds = []"
    and dom: "distinct (ds_nodes ds)" and sel: "sel \<noteq> []"
  shows "\<exists>ds'. toImage env sel ds = Inr ds'
     \<and> ds_copyImage ds' = Some (im\<lparr>im_width := Some (svg_width (ds_svgs ds ! last sel) / 1.8),
           im_height := Some (svg_height (ds_svgs ds ! last sel) / 1.8),
           im_src := Some (object_url (length (ds_blobs ds) + length sel - 1)),
           im_onload := map (\<lambda>i. [i]) sel\<rparr>)
     \<and> ds_blobs ds' ! (length (ds_blobs ds) + length sel - 1) = svg_markup (ds_svgs ds ! last sel)
     \<and> ds_nodes ((run_load ^^ length sel) ds') =
          replace_node (SvgNode (last sel)) CopyImageNode
            (filter (\<lambda>n. n \<noteq> CopyImageNode \<and> n \<notin> SvgNode ` set (butlast sel)) (ds_nodes ds))"
proof -
  let ?b = "length (ds_blobs ds)"
  obtain m where n: "length sel = Suc m" using sel by (cases sel) auto
  define im' where "im' = im\<lparr>im_width := Some (svg_width (ds_svgs ds ! last sel) / 1.8),
           im_height := Some (svg_height (ds_svgs ds ! last sel) / 1.8),
           im_src := Some (object_url (?b + length sel - 1)),
           im_onload := map (\<lambda>i. [i]) sel\<rparr>"
  define ds' where "ds' = ds\<lparr>ds_copyImage := Some im',
     ds_blobs := ds_blobs ds @ map (\<lambda>i. svg_markup (ds_svgs ds ! i)) sel,
     ds_loads := map object_url [?b..<?b + length sel]\<rparr>"
  have run: "toImage env sel ds = Inr ds'"
    using toImage_ok [OF env im(1) sel] im by (simp add: ds'_def im'_def)
  have loads: "ds_loads ds' = map object_url [?b..<?b + m] @ [object_url (?b + m)]"
    by (simp add: ds'_def n)
  have "(run_load ^^ m) ds' = ds'\<lparr>ds_loads := [object_url (?b + m)]\<rparr>"
  proof -
    have "Some ` set (map object_url [?b..<?b + m]) \<inter> {im_src im'} = {}"
      by (auto simp: im'_def n)
    from run_loads_skip [OF _ this loads] show ?thesis by (simp add: ds'_def)
  qed
  then have "(run_load ^^ length sel) ds' = fold replaceWith (map (\<lambda>i. [i]) sel) (ds'\<lparr>ds_loads := []\<rparr>)"
    by (simp add: n run_load_fire ds'_def im'_def)
  moreover have "ds_blobs ds' ! (?b + length sel - 1) = svg_markup (ds_svgs ds ! last sel)"
    using last_conv_nth [OF sel] by (simp add: ds'_def nth_append n)
  ultimately show ?thesis
    using run fold_replaceWith_single [of "ds'\<lparr>ds_loads := []\<rparr>" sel] dom sel
    by (simp add: ds'_def im'_def)
qed

theorem toImage_replaces_selection_witness:
  "\<exists>ds'. toImage \<lparr>has_Blob = True, has_MSBlobBuilder = False, has_createObjectURL = True\<rparr> [0, 1]
     \<lparr>ds_nodes = [SvgNode 0, SvgNode 1, CopyImageNode],
      ds_svgs = [\<lparr>svg_markup = ''<svg/>'', svg_width = 900, svg_height = 450\<rparr>,
                 \<lparr>svg_markup = ''<svg><g/></svg>'', svg_width = 18, svg_height = 9\<rparr>],
      ds_copyImage = Some \<lparr>im_width = None, im_height = None, im_src = None, im_onload = []\<rparr>,
      ds_blobs = [], ds_loads = []\<rparr> = Inr ds'
   \<and> ds_copyImage ds' = Some \<lparr>im_width = Some 10, im_height = Some 5, im_src = Some (object_url 1),
                              im_onload = [[0], [1]]\<rparr>
   \<and> ds_blobs ds' ! 1 = ''<svg><g/></svg>''
   \<and> ds_nodes ((run_load ^^ 2) ds') = [CopyImageNode]"
  using toImage_replaces_selection [of "\<lparr>has_Blob = True, has_MSBlobBuilder = False, has_createObjectURL = True\<rparr>"
     "\<lparr>ds_nodes = [SvgNode 0, SvgNode 1, CopyImageNode],
      ds_svgs = [\<lparr>svg_markup = ''<svg/>'', svg_width = 900, svg_height = 450\<rparr>,
                 \<lparr>svg_markup = ''<svg><g/></svg>'', svg_width = 18, svg_height = 9\<rparr>],
      ds_copyImage = Some \<lparr>im_width = None, im_height = None, im_src = None, im_onload = []\<rparr>,
      ds_blobs = [], ds_loads = []\<rparr>"
     "\<lparr>im_width = None, im_height = None, im_src = None, im_onload = []\<rparr>" "[0, 1]"]
  by (simp add: numeral_2_eq_2 del: toImage.simps)

text \<open>C27: the blob routines' error paths.  \<open>copyGraphToPNG4\<close> passes the
  jQuery object, not a DOM node, to \<open>XMLSerializer.serializeToString\<close>, so it
  always throws a \<open>TypeError\<close>, in every browser and on every page, before
  any state changes; \<open>toImage\<close> on a non-empty selection throws a
  \<open>TypeError\<close> from \<open>createObjectURL\<close> when the browser has neither
  \<open>Blob\<close> nor \<open>MSBlobBuilder\<close> (\<open>blob\<close> stays undefined) or has no
  \<open>URL.createObjectURL\<close>.\<close>

theorem blob_copy_TypeError:
  "copyGraphToPNG4 env svg ds = Inl TypeError
   \<and> (svgs \<noteq> [] \<longrightarrow> \<not> ((has_Blob env \<or> has_MSBlobBuilder env) \<and> has_createObjectURL env)
        \<longrightarrow> toImage env svgs ds = Inl TypeError)"
proof (intro conjI impI)
  show "copyGraphToPNG4 env svg ds = Inl TypeError"
    by (simp add: copyGraphToPNG4_def serializeToString_def Let_def)
  assume "svgs \<noteq> []" and "\<not> ((has_Blob env \<or> has_MSBlobBuilder env) \<and> has_createObjectURL env)"
  then show "toImage env svgs ds = Inl TypeError"
    by (cases svgs) (auto simp: toImage_one_def serializeToString_def new_blob_def createObjectURL_def Let_def)
qed

theorem blob_copy_TypeError_witness:
  "copyGraphToPNG4 \<lparr>has_Blob = True, has_MSBlobBuilder = False, has_createObjectURL = True\<rparr> [0, 1]
     \<lparr>ds_nodes = [SvgNode 0, SvgNode 1, CopyImageNode],
      ds_svgs = [\<lparr>svg_markup = ''<svg/>'', svg_width = 900, svg_height = 450\<rparr>,
                 \<lparr>svg_markup = ''<svg><g/></svg>'', svg_width = 18, svg_height = 9\<rparr>],
      ds_copyImage = Some \<lparr>im_width = None, im_height = None, im_src = None, im_onload = []\<rparr>,
      ds_blobs = [], ds_loads = []\<rparr> = Inl TypeError
   \<and> toImage \<lparr>has_Blob = False, has_MSBlobBuilder = False, has_createObjectURL = True\<rparr> [0]
     \<lparr>ds_nodes = [SvgNode 0, SvgNode 1, CopyImageNode],
      ds_svgs = [\<lparr>svg_markup = ''<svg/>'', svg_width = 900, svg_height = 450\<rparr>,
                 \<lparr>svg_markup = ''<svg><g/></svg>'', svg_width = 18, svg_height = 9\<rparr>],
      ds_copyImage = Some \<lparr>im_width = None, im_height = None, im_src = None, im_onload = []\<rparr>,
      ds_blobs = [], ds_loads = []\<rparr> = Inl TypeError"
  using blob_copy_TypeError [of "\<lparr>has_Blob = False, has_MSBlobBuilder = False, has_createObjectURL = True\<rparr>" "[0, 1]"
     "\<lparr>ds_nodes = [SvgNode 0, SvgNode 1, CopyImageNode],
      ds_svgs = [\<lparr>svg_markup = ''<svg/>'', svg_width = 900, svg_height = 450\<rparr>,
                 \<lparr>svg_markup = ''<svg><g/></svg>'', svg_width = 18, svg_height = 9\<rparr>],
      ds_copyImage = Some \<lparr>im_width = None, im_height = None, im_src = None, im_onload = []\<rparr>,
      ds_blobs = [], ds_loads = []\<rparr>" "[0]"]
    blob_copy_TypeError [of "\<lparr>has_Blob = True, has_MSBlobBuilder = False, has_createObjectURL = True\<rparr>" "[0, 1]"
     "\<lparr>ds_nodes = [SvgNode 0, SvgNode 1, CopyImageNode],
      ds_svgs = [\<lparr>svg_markup = ''<svg/>'', svg_width = 900, svg_height = 450\<rparr>,
                 \<lparr>svg_markup = ''<svg><g/></svg>'', svg_width = 18, svg_height = 9\<rparr>],
      ds_copyImage = Some \<lparr>im_width = None, im_height = None, im_src = None, im_onload = []\<rparr>,
      ds_blobs = [], ds_loads = []\<rparr>" "[0]"]
  by simp

end
