(* ===== verification/Spec2Isabelle.thy ===== *)
theory Spec2Isabelle
  imports Table_Display Page_Input Blob_Copy
begin

text \<open>
  \<^bold>\<open>Biligram: the threshold evaluation engine of \<open>src/biligram.js\<close>.\<close>

  \<^bold>\<open>The program.\<close> Biligram plots a newborn's bilirubin results against the
  Bhutani risk-zone nomogram and the phototherapy and exchange-transfusion
  thresholds, and tabulates each result with its risk zone and follow-up
  advice.  Its logic is three parts: the risk-zone table (\<open>var riskZone\<close>,
  lines 32--98), the treatment table (\<open>var treatmentZone\<close>, lines 108--200),
  and the classification pass of \<open>getBiliResults\<close> (lines 217--696), which
  merges the serum, point-of-care and transcutaneous results, walks them from
  the newest back, calls both tables on each and picks the follow-up advice.
  The treatment table is shared mutable state: its \<open>exceeds\<close> method sets
  the two visibility flags the chart later reads.  Before the pass,
  \<open>getBiliResults\<close> converts the text of the EMR page (\<open>translateData\<close>,
  \<open>stickAColonInIt\<close>, \<open>convertWholePlusFrac\<close>); after it, the file builds
  HTML, configures Highcharts (\<open>renderChart\<close>) and copies the chart as PNG.

  \<^bold>\<open>The library.\<close>
  \<^item> \<open>Bili_Prelude\<close>: the JavaScript value model shared by all parts.  Numbers
    are exact reals (IEEE rounding of the interpolation is not modelled);
    \<open>js_at\<close> is an array read, \<open>None\<close> for \<open>undefined\<close> past either end;
    arithmetic on \<open>undefined\<close> is \<open>NaN\<close>, again \<open>None\<close>; \<open>js_ge\<close> is \<open>>=\<close>,
    false against \<open>NaN\<close>.  \<open>first_from\<close> is the early-return \<open>for\<close> loop
    (a \<open>function\<close> with a measure, so every loop of the model terminates), with
    its characterisation, monotonicity and its equivalence with the counting
    specification \<open>count_below\<close> when the test is upward closed.
  \<^item> \<open>Curve_Scan\<close>: the loop body both tables share: \<open>series_threshold\<close>
    reads the left and right samples and draws the line in point-slope form from
    the absolute coordinate \<open>x1 = floor(hours/interval)*interval\<close>
    (\<open>curve_threshold\<close>).  \<open>pl_curve\<close> is the abstract piecewise-linear curve,
    a convex combination of the bracketing samples in the relative coordinate;
    \<open>series_threshold_pl\<close> proves the code computes it when the start is a
    multiple of the interval, and \<open>series_threshold_right_edge\<close> that it is
    \<open>NaN\<close> at and past the last sample.
  \<^item> \<open>Risk_Zone\<close>: the record \<open>rz_table\<close>, the constant \<open>riskZone\<close>,
    \<open>riskZone_exceeds\<close> (the method, \<open>this\<close> passed explicitly),
    \<open>zone_placement\<close> (the \<open>switch\<close> at lines 611--631) and the zone order
    \<open>risk_level\<close> (a \<open>linorder\<close> instance).  Specification: \<open>bhutani_zone\<close>
    over the interpolated curves \<open>rz_curve\<close>; invariant \<open>rz_wf\<close>.
  \<^item> \<open>Treatment_Zone\<close>: the record \<open>tz_table\<close>, the constant
    \<open>treatmentZone\<close>, the loop \<open>tz_scan\<close>, and \<open>treatmentZone_exceeds\<close>, which
    returns the result object with the updated table (the flags as state).
    Specification: \<open>tz_tier_spec\<close>, counting the curves the level stays below;
    invariant \<open>tz_wf\<close>, preserved by every call.
  \<^item> \<open>Result_Classifier\<close>: \<open>addMethod2\<close>, \<open>sortedResults\<close> (a stable
    \<open>sort_key\<close>, as \<open>Array.prototype.sort\<close> is since ES2019),
    \<open>js_toFixed1\<close> and \<open>age_hours\<close>, \<open>bhutani_advisory\<close>, the
    \<open>followupRecommendations\<close> literal and \<open>addRiskToTableRow\<close>,
    \<open>addMethod\<close>, \<open>classify_row\<close> (the loop body), \<open>result_rows\<close> (the
    loop as structural recursion, threading the treatment table),
    \<open>classify_loop\<close> (the same loop over its index, with \<open>while_option\<close>)
    and \<open>getBiliResults\<close>.
  \<^item> \<open>Input_Format\<close>: the conversions of the EMR text, \<open>translateData\<close>
    (lines 273--285, over the cell texts of the table rows; a row without two
    cells throws, \<open>None\<close>), \<open>translatePhotoTherapy\<close> (lines 292--325,
    by its result: never any data), \<open>stickAColonInIt\<close> and \<open>convertWholePlusFrac\<close>
    (lines 371--398), with the JavaScript built-ins they call: \<open>split\<close> on
    one character, \<open>parseInt\<close> without a radix, \<open>parseFloat\<close>, and \<open>+\<close>
    and \<open>/\<close> on a number type \<open>jsnum\<close> with \<open>NaN\<close> and the infinities.
    \<open>string_of_nat\<close> (decimal printing) is the specification side of the
    round trips.
  \<^item> \<open>Chart_Series\<close>: what is handed to Highcharts.  \<open>result_point\<close>
    and \<open>results_series\<close> build the chart point of each result in the same
    loop as the rows (\<open>new_dataPoint\<close>, \<open>decorateDataPoint\<close>, the zone
    and treatment switches \<open>zone_decoration\<close>, \<open>photo_text\<close>,
    \<open>transfusion_text\<close>, \<open>mark_treatment\<close>), threading the same treatment
    table; \<open>addXCoordinates\<close>, \<open>addXCoordinatesWithRange\<close> and
    \<open>renderChart\<close> (its series: ids, visibility, mouse tracking and data);
    \<open>chartOptions\<close>, the options object around them (title, tick intervals,
    day labels, axis floor, tooltip formatter, mouse tracking), with
    \<open>tooltip_shown\<close> the Highcharts rule that decides whether a point's
    tooltip is formatted; \<open>renders_chart\<close>
    and \<open>biligram_main\<close>, the main entry (lines 757--767).  The age string
    is \<open>toFixed1\<close>; the printing of a level (\<open>Number.prototype.toString\<close>) is
    a parameter \<open>num_str\<close>.
  \<^item> \<open>Table_Display\<close>: the show/hide state of the result table
    (\<open>display\<close>, set up at lines 699--710), the change handlers of the
    checkbox and the radio buttons (\<open>checkbox_change\<close>, \<open>radio_change\<close>,
    lines 713--746), the step relation \<open>ui_step\<close> of clicks on shown
    controls and the reachable displays \<open>ui_reachable\<close> from the page as
    loaded (\<open>display_after_load\<close>, the main entry's branch).
  \<^item> \<open>Page_Input\<close>: the reading of the EMR page at the start of
    \<open>getBiliResults\<close> (lines 399--449): the record \<open>page\<close> of the texts read,
    \<open>convertDateTime\<close>, and \<open>read_page\<close>, which builds the \<open>results\<close>
    object, the birth date/time and the warnings; \<open>lab_of\<close> bridges its
    JavaScript numbers to the classification model.
  \<^item> \<open>Graph_Copy\<close>: the "copy graph" button \<open>copyGraphToPNG\<close> (lines
    1087--1145) on an explicit browser state \<open>browser\<close> (the drawing
    commands of each canvas, the images appended to the body, the queue of
    pending load tasks, the \<open>onbeforeunload\<close> handler); \<open>window.btoa\<close> is
    the base64 encoding \<open>js_btoa\<close>, and the event loop's running of one
    queued task is \<open>run_task\<close>.  The unused \<open>convertSVGtoPNG2\<close> and
    \<open>copyGraphToPNG3\<close> (lines 1023--1085) act on the same state; the latter
    throws a \<open>TypeError\<close> on a page with no canvas in the document.
  \<^item> \<open>Blob_Copy\<close>: the unused blob-URL routines \<open>copyGraphToPNG4\<close> and
    \<open>$.fn.toImage\<close> (lines 1150--1219, \<open>toImage\<close> and its per-element
    body \<open>toImage_one\<close>) on a document state \<open>dom_state\<close>: the nodes in
    order, the SVG elements, \<open>#copyImage\<close> with its size, \<open>src\<close> and
    load handlers, the blob store and the queue of load events run by
    \<open>run_load\<close>; the browser built-ins \<open>serializeToString\<close>,
    \<open>new_blob\<close>, \<open>createObjectURL\<close>, \<open>replaceWith\<close> and the jQuery
    chain \<open>jq_copyImage_load\<close>; which blob APIs exist is \<open>blob_env\<close>.
  \<^item> This theory: the properties that span the three parts.

  \<^bold>\<open>What is proved.\<close>
  \<^item> Risk zones (C1--C4, C6): on 12 to 148 hours the code equals the Bhutani
    zone of the interpolated curves; undefined before 12 hours; from 148 hours
    every level is "low" (the promised flat extrapolation reads past the
    array); monotone in the level; the curves never cross (a lemma shows the
    table well formed).  (A lemma shows the specification's 29-hour scenario is high
    risk, not low-intermediate as the specification expects.)
  \<^item> Treatment thresholds (C8--C12): on 0 to 144 hours each family's tier is
    the counting specification; from 38 weeks the curve for 35--37w6d infants
    with risk factors is never reported; outside 0 to 144 hours nothing is
    reported; monotone in the level; the visibility flags record exactly the
    exceedances of their own family.
  \<^item> Classification pass (C15, C16, C18--C23): rows newest first, one per
    input result, each classified from its own \<open>toFixed(1)\<close> age (within
    0.05 hours of the exact age); the "under 35 weeks" advisory is dead code;
    the not-applicable follow-up cell is shown exactly under 35 weeks and at
    exactly 38 weeks; the risk-factor advice shift of the literal; the index loop
    terminates with the rows of \<open>result_rows\<close> (C22); every row has a risk
    zone exactly from 12 hours of age on.
  \<^item> Reading the page (C7, C14): the birth-date warning is shown exactly
    when datejs' \<open>Date.parse\<close> returns \<open>null\<close>, and an unreadable weight
    (\<open>NaN\<close>) gets no warning; end to end, each data row of the three
    lab tables gives one row of the result table.
  \<^item> Input conversion (C25, C26, C28--C30): \<open>translateData\<close> drops two
    leading rows (its comment says one) and fails on a short data row
    (a lemma shows \<open>stickAColonInIt\<close> puts the colon before the minutes); print/parse round
    trips of \<open>convertWholePlusFrac\<close> (\<open>w n/d\<close> to w + n/d) and of the
    levels read by \<open>translateData\<close>; a GA with a leading space silently becomes \<open>NaN\<close>.
  \<^item> Table display (C13, C31): every display reachable through the radio
    and checkbox handlers is consistent (checkbox shown exactly when the table
    is hidden, older rows only with the newest, the checked radio names what is
    shown), and from each of them some clicks show all rows.
  \<^item> Chart (C33--C37): the risk-zone bands agree with the classification at
    every sample time; the fill colour
    shows the thresholds exceeded; the treatment lines are shown exactly when a
    row exceeds them; a result before 12 hours that exceeds a phototherapy
    threshold gets a tooltip starting with "undefined"; the chart is rendered
    on every page, as the table-only test is always true.
  \<^item> Graph copy (C32): the PNG appended to the page is taken before the
    queued image-load task can run, so it holds only the \<open>canvg\<close> drawing;
    the \<open>drawImage\<close> of the \<open>onload\<close> handler reaches only the detached
    canvas, however many tasks the event loop runs afterwards.
  \<^item> Blob copy (C5, C27): \<open>$.fn.toImage\<close> on a selection of SVG elements
    returns normally where blobs and object URLs exist; the image gets the
    last SVG's blob URL and size / 1.8, only the last of the queued loads
    fires (the earlier ones are superseded), and its handlers remove every
    selected SVG, the image standing where the last one was: with several
    SVGs the earlier ones are deleted, not copied.  \<open>copyGraphToPNG4\<close>
    always throws a \<open>TypeError\<close> (it serializes the jQuery object, not a
    node); \<open>toImage\<close> throws one when the browser lacks both blob APIs or
    \<open>createObjectURL\<close>.
  \<^item> End to end (C17 and C24, below): on the shared \<open>treatmentZone\<close>
    object, every row of the result table has, from 12 to 148 hours, the
    Bhutani zone of the interpolated curves and that zone's advice, and from
    0 to 144 hours the treatment tiers of the counting specification; a
    result drawn at 148 hours or later is reported as low risk with no
    treatment threshold, whatever its level.

  \<^bold>\<open>Bounds and fuel.\<close> No fuel is needed: every early-return loop is
  \<open>first_from\<close>, whose termination is proved by the measure \<open>bound - i\<close>;
  the classification loop is kept as \<open>while_option\<close> over its index
  (\<open>classify_loop\<close>) and proved to return (C22); the other loops are
  structural recursion over the lists they walk.  The tabulated ranges (12--148 h, 0--144 h) are those
  of the constants; the generic lemmas are stated for any well-formed table.

  \<^bold>\<open>Not modelled.\<close> The jQuery reads of the page (the model starts from
  the texts they return, the record \<open>page\<close>), the formats datejs' \<open>Date.parse\<close> accepts (a
  parameter returning \<open>null\<close> or a date; a \<open>null\<close> draw time makes
  \<open>drawtime.getMonth()\<close>, line 562, throw, and the bridge \<open>lab_of\<close> is
  then undefined, so the classification is stated for dates only; a
  \<open>null\<close> birth date/time, which JavaScript subtracts as 0, is outside the
  classification model), the test helper \<open>addHours\<close> (it reads the clock),
  the regular-expression rewriting inside \<open>translatePhotoTherapy\<close> (it only
  changes a local variable; the function is modelled by its result), the HTML strings of the table, the Highcharts options not listed above
  (axis titles, plot-band colours, legend, exporting), the slide animations of
  the table (only their end state is modelled), the tooltip plugin, and the
  pixels of the copy: \<open>canvg\<close> and \<open>drawImage\<close> are kept as drawing
  commands (\<open>canvg\<close> renders synchronously for an SVG without external
  images, as the chart's is), and \<open>toDataURL\<close> as the list of commands
  drawn so far.  \<open>run_task\<close> assumes the data-URL image loads; in a
  browser \<open>$('#container svg').html()\<close> gives the SVG's content without its
  root element, so the load may fail and the \<open>onload\<close> drawing never
  happen at all: the claim that the PNG is taken first holds either way.  In \<open>Blob_Copy\<close> a blob URL is
  \<open>blob:\<close> followed by a counter (real browsers add the origin and a
  UUID; only freshness matters), the document is the flat list of its
  nodes in document order (only the SVG elements and \<open>#copyImage\<close> are
  represented), and \<open>replaceWith\<close> follows jQuery: the image is first
  detached, cloned for every target but the last.  \<open>toFixed1\<close> follows
  \<open>Number.prototype.toFixed\<close> for magnitudes below 10^21 (above, JavaScript
  prints in exponent notation; ages are far below).
  The string conversions work on byte strings: only ASCII white space is
  recognised by \<open>parseInt\<close>/\<open>parseFloat\<close>, and the sign of a negative zero
  is not kept.  \<open>NaN\<close> levels from \<open>parseFloat\<close> and division by a zero
  interval (the constants' intervals are 4 and 12) are outside the model.
\<close>

section \<open>Properties spanning the components\<close>

text \<open>
  C24. Whatever its level, a result drawn 148 hours or more after birth is
  reported in the low-risk zone with no phototherapy or transfusion threshold
  exceeded: both tables stop at their last sample without extrapolating, so a
  late, dangerously high level produces no warning in the table.
\<close>

theorem getBiliResults_late_results_silent:
  assumes "r \<in> set (snd (fst (getBiliResults treatmentZone p serum poc tclab)))"
    and "148 \<le> row_hours r"
  shows "row_zone r = Some Low \<and> row_photo r = None \<and> row_transfusion r = None"
proof -
  obtain t m where t: "tz_strip t = tz_strip treatmentZone"
    and r: "r = fst (classify_row t (birthDateTime p) (birthGA p) m)"
    using getBiliResults_row_cases [OF assms(1)] .
  let ?h = "age_hours (birthDateTime p) (m_drawtime m)" and ?l = "m_level m"
  have h': "148 \<le> ?h" using assms(2) by (simp add: r classify_row_fields)
  have "riskZone_exceeds riskZone ?h ?l = rz_low riskZone"
    using riskZone_exceeds_right_edge [OF riskZone_wf_lemma, of ?h ?l] h' by simp
  then have zone: "row_zone r = Some Low"
    by (simp add: r classify_row_fields zone_placement_def)
  have "phototherapy (fst (treatmentZone_exceeds treatmentZone ?h ?l (birthGA p))) = -1 \<and>
        transfusion (fst (treatmentZone_exceeds treatmentZone ?h ?l (birthGA p))) = -1"
    using treatmentZone_exceeds_outside [OF treatmentZone_wf_lemma, of ?h ?l "birthGA p"] h' by simp
  moreover have
    "row_photo r = tier_placement treatmentZone (phototherapy (fst (treatmentZone_exceeds treatmentZone ?h ?l (birthGA p))))"
    "row_transfusion r = tier_placement treatmentZone (transfusion (fst (treatmentZone_exceeds treatmentZone ?h ?l (birthGA p))))"
    unfolding r by (simp_all only: classify_row_treatment classify_row_same_table [OF t])
  ultimately show ?thesis
    using zone by (simp add: tier_placement_def)
qed

theorem getBiliResults_late_results_silent_witness:
  "fst (classify_row treatmentZone 0 36 \<lparr>m_drawtime = 720000000, m_level = 30, m_method = Serum\<rparr>)
     \<in> set (snd (fst (getBiliResults treatmentZone \<lparr>birthDateTime = 0, birthGA = 36, birthWeight = 2.8\<rparr>
                        [\<lparr>lr_drawtime = 720000000, lr_level = 30\<rparr>] [] []))) \<and>
   148 \<le> row_hours (fst (classify_row treatmentZone 0 36 \<lparr>m_drawtime = 720000000, m_level = 30, m_method = Serum\<rparr>)) \<and>
   row_zone (fst (classify_row treatmentZone 0 36 \<lparr>m_drawtime = 720000000, m_level = 30, m_method = Serum\<rparr>)) = Some Low"
  using getBiliResults_late_results_silent
    [of "fst (classify_row treatmentZone 0 36 \<lparr>m_drawtime = 720000000, m_level = 30, m_method = Serum\<rparr>)"
        "\<lparr>birthDateTime = 0, birthGA = 36, birthWeight = 2.8\<rparr>"
        "[\<lparr>lr_drawtime = 720000000, lr_level = 30\<rparr>]" "[]" "[]"]
  by (simp add: getBiliResults_rows sortedResults_def result_rows_Cons classify_row_fields
      age_hours_def js_toFixed1_def)

text \<open>
  C17. End to end, each row of the result table is the specification's
  classification of its own age and level: from 12 to 148 hours its zone is
  the Bhutani zone of the interpolated percentile curves and its follow-up
  cell the advice for that zone, and from 0 to 144 hours each treatment
  column shows the tier of the counting specification, although the loop
  threads the shared \<open>treatmentZone\<close> object, whose flags it mutates, from
  row to row.
\<close>

theorem getBiliResults_refines_spec:
  assumes "r \<in> set (snd (fst (getBiliResults treatmentZone p serum poc tclab)))"
  shows "(12 \<le> row_hours r \<and> row_hours r < 148 \<longrightarrow>
            row_zone r = Some (bhutani_zone riskZone (row_hours r) (row_level r)) \<and>
            row_followup r = Some (addRiskToTableRow (bhutani_zone riskZone (row_hours r) (row_level r)) (birthGA p)))
       \<and> (0 \<le> row_hours r \<and> row_hours r < 144 \<longrightarrow>
            row_photo r = tier_placement treatmentZone
              (tz_tier_spec treatmentZone (phototherapySeries treatmentZone) (row_hours r) (row_level r) (birthGA p)) \<and>
            row_transfusion r = tier_placement treatmentZone
              (tz_tier_spec treatmentZone (transfusionSeries treatmentZone) (row_hours r) (row_level r) (birthGA p)))"
proof (intro conjI impI; elim conjE)
  obtain t m where t: "tz_strip t = tz_strip treatmentZone"
    and r: "r = fst (classify_row t (birthDateTime p) (birthGA p) m)"
    using getBiliResults_row_cases [OF assms] .
  have hl: "row_hours r = age_hours (birthDateTime p) (m_drawtime m)" "row_level r = m_level m"
    by (simp_all add: r classify_row_fields)
  let ?h = "row_hours r" and ?l = "row_level r"
  {
    assume "12 \<le> ?h" "?h < 148"
    then have "in_table (length (rz_series riskZone ! 0)) (rz_startsAt riskZone) (rz_interval riskZone) ?h"
      by (simp add: riskZone_in_table_iff)
    then have "row_zone r = Some (bhutani_zone riskZone ?h ?l)"
      using riskZone_exceeds_in_table [OF riskZone_wf_lemma] bhutani_zone_scan [OF riskZone_wf_lemma, of ?h ?l]
      by (simp add: r classify_row_fields hl rz_scan_code_def)
    then show "row_zone r = Some (bhutani_zone riskZone ?h ?l)"
      and "row_followup r = Some (addRiskToTableRow (bhutani_zone riskZone ?h ?l) (birthGA p))"
      by (simp_all add: r classify_row_fields)
  }
  {
    assume "0 \<le> ?h" "?h < 144"
    then have "in_table (length (phototherapySeries treatmentZone ! 0)) (tz_startsAt treatmentZone)
                 (tz_interval treatmentZone) ?h"
      by (simp add: treatmentZone_in_table_iff)
    note spec = treatmentZone_exceeds_in_table [OF treatmentZone_wf_lemma this, of ?l "birthGA p"]
    show "row_photo r = tier_placement treatmentZone
            (tz_tier_spec treatmentZone (phototherapySeries treatmentZone) ?h ?l (birthGA p))"
      and "row_transfusion r = tier_placement treatmentZone
            (tz_tier_spec treatmentZone (transfusionSeries treatmentZone) ?h ?l (birthGA p))"
      using spec unfolding hl
      by (simp_all add: r classify_row_treatment classify_row_same_table [OF t])
  }
qed

theorem getBiliResults_refines_spec_witness:
  "fst (classify_row treatmentZone 0 36 \<lparr>m_drawtime = 86400000, m_level = 7, m_method = Serum\<rparr>)
     \<in> set (snd (fst (getBiliResults treatmentZone \<lparr>birthDateTime = 0, birthGA = 36, birthWeight = 2.8\<rparr>
                        [\<lparr>lr_drawtime = 86400000, lr_level = 7\<rparr>] [] []))) \<and>
   row_zone (fst (classify_row treatmentZone 0 36 \<lparr>m_drawtime = 86400000, m_level = 7, m_method = Serum\<rparr>))
     = Some (bhutani_zone riskZone 24 7)"
  using getBiliResults_refines_spec
    [of "fst (classify_row treatmentZone 0 36 \<lparr>m_drawtime = 86400000, m_level = 7, m_method = Serum\<rparr>)"
        "\<lparr>birthDateTime = 0, birthGA = 36, birthWeight = 2.8\<rparr>"
        "[\<lparr>lr_drawtime = 86400000, lr_level = 7\<rparr>]" "[]" "[]"]
  by (simp add: getBiliResults_rows sortedResults_def result_rows_Cons classify_row_fields
      age_hours_def js_toFixed1_def)

end
